theory Spec2Isabelle
  imports Main "HOL-Library.Sublist"
begin

section \<open>Strings as the generator uses them\<close>

text \<open>
  A JavaScript string is modelled as an Isabelle string, one character for each code unit;
  the code units of the model are those below 256. Among them the white space of
  \<^verbatim>\<open>\s\<close> and of \<^verbatim>\<open>trim()\<close> is tab, line feed, vertical tab, form feed, carriage
  return, space and the no-break space A0. \<^verbatim>\<open>toLowerCase\<close> maps A-Z to a-z and the
  letters C0-DE (D7, the multiplication sign, apart) to E0-FE; \<^verbatim>\<open>toUpperCase\<close> maps
  the other way. The upper case of the code units B5, DF and FF is no code unit below 256
  (for DF it is two letters): \<open>toUpperChar\<close> leaves them unchanged, and \<open>upperInRange\<close>
  marks the strings that have none of them.
\<close>

definition lowers :: string where
  "lowers = ''abcdefghijklmnopqrstuvwxyz''"

definition uppers :: string where
  "uppers = ''ABCDEFGHIJKLMNOPQRSTUVWXYZ''"

definition digits :: string where
  "digits = ''0123456789''"

text \<open>The letters with a case mapping above the ASCII range, lower case and upper case.\<close>

definition latinLowers :: string where
  "latinLowers = [
      CHR 0xE0, CHR 0xE1, CHR 0xE2, CHR 0xE3, CHR 0xE4, CHR 0xE5, CHR 0xE6, CHR 0xE7,
      CHR 0xE8, CHR 0xE9, CHR 0xEA, CHR 0xEB, CHR 0xEC, CHR 0xED, CHR 0xEE, CHR 0xEF,
      CHR 0xF0, CHR 0xF1, CHR 0xF2, CHR 0xF3, CHR 0xF4, CHR 0xF5, CHR 0xF6, CHR 0xF8,
      CHR 0xF9, CHR 0xFA, CHR 0xFB, CHR 0xFC, CHR 0xFD, CHR 0xFE]"

definition latinUppers :: string where
  "latinUppers = [
      CHR 0xC0, CHR 0xC1, CHR 0xC2, CHR 0xC3, CHR 0xC4, CHR 0xC5, CHR 0xC6, CHR 0xC7,
      CHR 0xC8, CHR 0xC9, CHR 0xCA, CHR 0xCB, CHR 0xCC, CHR 0xCD, CHR 0xCE, CHR 0xCF,
      CHR 0xD0, CHR 0xD1, CHR 0xD2, CHR 0xD3, CHR 0xD4, CHR 0xD5, CHR 0xD6, CHR 0xD8,
      CHR 0xD9, CHR 0xDA, CHR 0xDB, CHR 0xDC, CHR 0xDD, CHR 0xDE]"

definition isSpace :: "char \<Rightarrow> bool" where
  "isSpace c = (c \<in> set [CHR 0x09, CHR 0x0A, CHR 0x0B, CHR 0x0C, CHR 0x0D, CHR '' '', CHR 0xA0])"

text \<open>The characters the dot of a regular expression does not match.\<close>

definition isLineTerminator :: "char \<Rightarrow> bool" where
  "isLineTerminator c = (c \<in> set [CHR 0x0A, CHR 0x0D])"

definition isAlnum :: "char \<Rightarrow> bool" where
  "isAlnum c = (c \<in> set (lowers @ uppers @ digits))"

definition isLowerAlnum :: "char \<Rightarrow> bool" where
  "isLowerAlnum c = (c \<in> set (lowers @ digits))"

definition toUpperChar :: "char \<Rightarrow> char" where
  "toUpperChar c =
     (case map_of (zip (lowers @ latinLowers) (uppers @ latinUppers)) c of Some u \<Rightarrow> u | None \<Rightarrow> c)"

definition upperInRange :: "string \<Rightarrow> bool" where
  "upperInRange s = list_all (\<lambda>c. c \<notin> set [CHR 0xB5, CHR 0xDF, CHR 0xFF]) s"

definition toLowerChar :: "char \<Rightarrow> char" where
  "toLowerChar c =
     (case map_of (zip (uppers @ latinUppers) (lowers @ latinLowers)) c of Some l \<Rightarrow> l | None \<Rightarrow> c)"

definition toLowerCase :: "string \<Rightarrow> string" where
  "toLowerCase s = map toLowerChar s"

text \<open>\<^verbatim>\<open>s.trim()\<close>\<close>

definition trim :: "string \<Rightarrow> string" where
  "trim s = rev (dropWhile isSpace (rev (dropWhile isSpace s)))"

text \<open>\<^verbatim>\<open>s.charAt(0).toUpperCase() + s.slice(1)\<close>, the helper \<^verbatim>\<open>cap\<close> of the test generator.\<close>

definition cap :: "string \<Rightarrow> string" where
  "cap s = (case s of [] \<Rightarrow> [] | c # cs \<Rightarrow> toUpperChar c # cs)"

text \<open>\<^verbatim>\<open>s.replace(/[^a-zA-Z0-9]/g, '_')\<close>\<close>

definition replaceNonAlnum :: "string \<Rightarrow> string" where
  "replaceNonAlnum s = map (\<lambda>c. if isAlnum c then c else CHR ''_'') s"

text \<open>\<^verbatim>\<open>s.split(' ')[0]\<close>: the text before the first space.\<close>

definition firstToken :: "string \<Rightarrow> string" where
  "firstToken s = takeWhile (\<lambda>c. c \<noteq> CHR '' '') s"

text \<open>A number in a template literal: its decimal digits.\<close>

fun showNat :: "nat \<Rightarrow> string" where
  "showNat n = (if n < 10 then [digits ! n] else showNat (n div 10) @ [digits ! (n mod 10)])"

declare showNat.simps [simp del]

text \<open>\<^verbatim>\<open>xs.join(sep)\<close>\<close>

fun join :: "string \<Rightarrow> string list \<Rightarrow> string" where
  "join sep [] = []"
| "join sep [x] = x"
| "join sep (x # y # ys) = x @ sep @ join sep (y # ys)"

definition sq :: string where
  "sq = [CHR 0x27]"

definition nl :: string where
  "nl = [CHR 0x0A]"

subsection \<open>toCamelCase\<close>

text \<open>
  \<^verbatim>\<open>
  function toCamelCase(str) {
    return str
      .replace(/[-_\s]+(.)?/g, (_, c) => c ? c.toUpperCase() : '')
      .replace(/^(.)/, (m) => m.toLowerCase());
  }
  \<close>
  The first replacement scans from the left. At a character of the class
  \<^verbatim>\<open>[-_\s]\<close> the match takes the whole run of such characters and then, when
  a character follows, that character; the match is replaced by the upper case of the
  character that follows, or by nothing at the end of the string. (The character after
  a maximal run is outside the class, hence no line terminator, so the dot matches it.)
\<close>

definition isSep :: "char \<Rightarrow> bool" where
  "isSep c = (c = CHR ''-'' \<or> c = CHR ''_'' \<or> isSpace c)"

function camelReplace :: "string \<Rightarrow> string" where
  "camelReplace [] = []"
| "camelReplace (c # cs) =
     (if isSep c then
        (case dropWhile isSep cs of
           [] \<Rightarrow> []
         | d # ds \<Rightarrow> toUpperChar d # camelReplace ds)
      else c # camelReplace cs)"
  by pat_completeness auto
termination
proof (relation "measure length")
  fix c :: char and cs :: string and d :: char and ds :: string
  assume "dropWhile isSep cs = d # ds"
  then have "length (d # ds) \<le> length cs"
    using length_dropWhile_le [of isSep cs] by simp
  then show "(ds, c # cs) \<in> measure length" by simp
qed simp_all

definition lowerFirst :: "string \<Rightarrow> string" where
  "lowerFirst s =
     (case s of [] \<Rightarrow> [] | c # cs \<Rightarrow> if isLineTerminator c then s else toLowerChar c # cs)"

definition toCamelCase :: "string \<Rightarrow> string" where
  "toCamelCase str = lowerFirst (camelReplace str)"

section \<open>The parsed document\<close>

text \<open>
  The parse tree that the HTML parser hands to the generator: text nodes and elements with
  a tag name, attributes and children. The parser delivers tag and attribute names in
  lower case; a document is the list of its top-level nodes.
\<close>

datatype node = TextNode string | Element string "(string \<times> string) list" "node list"

type_synonym document = "node list"

fun tagName :: "node \<Rightarrow> string" where
  "tagName (TextNode s) = []"
| "tagName (Element t as cs) = t"

fun isElement :: "node \<Rightarrow> bool" where
  "isElement (TextNode s) = False"
| "isElement (Element t as cs) = True"

fun children :: "node \<Rightarrow> node list" where
  "children (TextNode s) = []"
| "children (Element t as cs) = cs"

text \<open>
  The documents whose strings \<^verbatim>\<open>toUpperCase\<close> maps within the code units of the model:
  no text, tag, attribute name or attribute value has one of B5, DF, FF.
\<close>

fun nodeInRange :: "node \<Rightarrow> bool" where
  "nodeInRange (TextNode s) = upperInRange s"
| "nodeInRange (Element t as cs) =
     (upperInRange t \<and> list_all (\<lambda>a. upperInRange (fst a) \<and> upperInRange (snd a)) as
      \<and> list_all nodeInRange cs)"

definition docInRange :: "document \<Rightarrow> bool" where
  "docInRange doc = list_all nodeInRange doc"

text \<open>\<^verbatim>\<open>$el.attr(name)\<close>: the attribute's value, or undefined (\<open>None\<close>).\<close>

fun attr :: "node \<Rightarrow> string \<Rightarrow> string option" where
  "attr (TextNode s) a = None"
| "attr (Element t as cs) a = map_of as a"

text \<open>\<^verbatim>\<open>$el.text()\<close>: the text of all text nodes below the element, in document order.\<close>

fun textContent :: "node \<Rightarrow> string" where
  "textContent (TextNode s) = s"
| "textContent (Element t as cs) = concat (map textContent cs)"

text \<open>The node and everything below it, in document order.\<close>

fun subtree :: "node \<Rightarrow> node list" where
  "subtree (TextNode s) = [TextNode s]"
| "subtree (Element t as cs) = Element t as cs # concat (map subtree cs)"

definition allNodes :: "document \<Rightarrow> node list" where
  "allNodes doc = concat (map subtree doc)"

text \<open>\<^verbatim>\<open>$(tag)\<close>: every element of the document with that tag, in document order.\<close>

definition selectTag :: "document \<Rightarrow> string \<Rightarrow> node list" where
  "selectTag doc t = filter (\<lambda>n. isElement n \<and> tagName n = t) (allNodes doc)"

text \<open>\<^verbatim>\<open>$el.find(...)\<close>: the elements below \<open>el\<close> that satisfy \<open>p\<close>, in document order.\<close>

definition findBelow :: "node \<Rightarrow> (node \<Rightarrow> bool) \<Rightarrow> node list" where
  "findBelow el p = filter (\<lambda>n. isElement n \<and> p n) (concat (map subtree (children el)))"

text \<open>
  \<^verbatim>\<open>$('a t')\<close>, the descendant combinator: every element with tag \<open>t\<close> that lies below
  an element with tag \<open>a\<close>, once, in document order.
\<close>

fun selectUnder :: "string \<Rightarrow> string \<Rightarrow> bool \<Rightarrow> node \<Rightarrow> node list" where
  "selectUnder a t inside (TextNode s) = []"
| "selectUnder a t inside (Element tg as cs) =
     (if inside \<and> tg = t then [Element tg as cs] else [])
       @ concat (map (selectUnder a t (inside \<or> tg = a)) cs)"

definition selectDescendant :: "document \<Rightarrow> string \<Rightarrow> string \<Rightarrow> node list" where
  "selectDescendant doc a t = concat (map (selectUnder a t False) doc)"

text \<open>\<^verbatim>\<open>$(sel).first().text().trim()\<close>; the text of an empty selection is empty.\<close>

definition firstText :: "node list \<Rightarrow> string" where
  "firstText sel = (case sel of [] \<Rightarrow> [] | n # _ \<Rightarrow> trim (textContent n))"

text \<open>\<^verbatim>\<open>$(sel).attr(name)\<close> reads the first element of the selection.\<close>

definition firstAttr :: "node list \<Rightarrow> string \<Rightarrow> string option" where
  "firstAttr sel a = (case sel of [] \<Rightarrow> None | n # _ \<Rightarrow> attr n a)"

subsection \<open>JavaScript values that are a string or undefined\<close>

definition truthy :: "string option \<Rightarrow> bool" where
  "truthy v = (case v of None \<Rightarrow> False | Some s \<Rightarrow> s \<noteq> [])"

text \<open>\<^verbatim>\<open>a || b\<close>\<close>

definition orElse :: "string option \<Rightarrow> string option \<Rightarrow> string option" where
  "orElse a b = (if truthy a then a else b)"

text \<open>A value inside a template literal.\<close>

definition str :: "string option \<Rightarrow> string" where
  "str v = (case v of None \<Rightarrow> ''undefined'' | Some s \<Rightarrow> s)"

text \<open>\<^verbatim>\<open>s.includes(sub)\<close>\<close>

fun includesStr :: "string \<Rightarrow> string \<Rightarrow> bool" where
  "includesStr [] sub = (sub = [])"
| "includesStr (c # cs) sub = (prefix sub (c # cs) \<or> includesStr cs sub)"

text \<open>\<^verbatim>\<open>s.split(c)\<close> for a one-character separator.\<close>

fun splitOn :: "char \<Rightarrow> string \<Rightarrow> string list" where
  "splitOn c [] = [[]]"
| "splitOn c (x # xs) =
     (if x = c then [] # splitOn c xs
      else (case splitOn c xs of [] \<Rightarrow> [[x]] | p # ps \<Rightarrow> (x # p) # ps))"

datatype js_error = InvalidURL | NullProperty | NotDefined | NotAFunction

section \<open>The locator strategy of the latest version\<close>

text \<open>
  \<^verbatim>\<open>getLocatorAndRawName($el, tag, extra = {})\<close> of version 1.0.21. \<open>extraType\<close> and
  \<open>extraIndex\<close> are \<^verbatim>\<open>extra.type\<close> and \<^verbatim>\<open>extra.index\<close> (\<open>None\<close> when it is
  not a number).
\<close>

record located =
  locator :: string
  rawName :: string

definition getLocatorAndRawName :: "node \<Rightarrow> string \<Rightarrow> string option \<Rightarrow> nat option \<Rightarrow> located" where
  \<open>getLocatorAndRawName el tag extraType extraIndex =
    (let dataCy = attr el ''data-cy'';
         dataTest = attr el ''data-test'';
         dataTestId = attr el ''data-testid'';
         idAttr = attr el ''id'';
         nameAttr = attr el ''name'';
         placeholder = attr el ''placeholder'';
         classNameAttr = attr el ''class'';
         txt = trim (textContent el);
         href = attr el ''href'';
         typeAttr = orElse extraType (attr el ''type'')
     in
       if truthy dataCy then
         \<lparr>locator = ''cy.get('[data-cy="'' @ str dataCy @ ''"]')'', rawName = tag @ '' '' @ str dataCy\<rparr>
       else if truthy dataTest then
         \<lparr>locator = ''cy.get('[data-test="'' @ str dataTest @ ''"]')'', rawName = tag @ '' '' @ str dataTest\<rparr>
       else if truthy dataTestId then
         \<lparr>locator = ''cy.get('[data-testid="'' @ str dataTestId @ ''"]')'',
          rawName = tag @ '' '' @ str dataTestId\<rparr>
       else if truthy idAttr then
         \<lparr>locator = ''cy.get('#'' @ str idAttr @ sq @ '')'', rawName = tag @ '' '' @ str idAttr\<rparr>
       else if truthy nameAttr \<and> (tag = ''input'' \<or> tag = ''select'' \<or> tag = ''textarea'') then
         \<lparr>locator = ''cy.get('' @ sq @ tag @ ''[name="'' @ str nameAttr @ ''"]')'',
          rawName = tag @ '' '' @ str nameAttr\<rparr>
       else if truthy placeholder \<and> (tag = ''input'' \<or> tag = ''textarea'') then
         \<lparr>locator = ''cy.get('' @ sq @ tag @ ''[placeholder="'' @ str placeholder @ ''"]')'',
          rawName = tag @ '' '' @ str placeholder\<rparr>
       else if txt \<noteq> [] \<and> tag = ''button'' then
         \<lparr>locator = ''cy.contains('button', '' @ sq @ txt @ sq @ '')'', rawName = ''button '' @ txt\<rparr>
       else if txt \<noteq> [] \<and> tag = ''a'' then
         \<lparr>locator = ''cy.contains('a', '' @ sq @ txt @ sq @ '')'', rawName = ''link '' @ txt\<rparr>
       else if truthy href \<and> tag = ''a'' then
         \<lparr>locator = ''cy.get('a[href="'' @ str href @ ''"]')'', rawName = ''link '' @ str href\<rparr>
       else if truthy classNameAttr \<and> tag = ''button'' then
         \<lparr>locator = ''cy.get('button.'' @ firstToken (str classNameAttr) @ sq @ '')'',
          rawName = ''button '' @ firstToken (str classNameAttr)\<rparr>
       else
         (case extraIndex of
            Some i \<Rightarrow>
              if truthy typeAttr \<and> tag = ''input'' then
                \<lparr>locator = ''cy.get('input[type="'' @ str typeAttr @ ''"]').eq('' @ showNat i @ '')'',
                 rawName = ''input '' @ str typeAttr @ '' '' @ showNat (i + 1)\<rparr>
              else
                \<lparr>locator = ''cy.get('' @ sq @ tag @ sq @ '').eq('' @ showNat i @ '')'',
                 rawName = tag @ '' '' @ showNat (i + 1)\<rparr>
          | None \<Rightarrow> \<lparr>locator = ''cy.get('' @ sq @ tag @ sq @ '')'', rawName = tag\<rparr>))\<close>

subsection \<open>The priority order as the specification words it\<close>

text \<open>
  The strategies in the order of the specification; for each, the value it reads from the
  element, the categories it applies to, and the locator and raw label it yields. The
  resolver of the specification takes the first strategy that applies to the category and
  whose value is present and not empty, and the positional fallback when there is none.
\<close>

datatype strategy =
  ByDataCy | ByDataTest | ByDataTestId | ById | ByName | ByPlaceholder | ByText | ByHref | ByClass

definition priorityOrder :: "strategy list" where
  "priorityOrder = [ByDataCy, ByDataTest, ByDataTestId, ById, ByName, ByPlaceholder, ByText, ByHref, ByClass]"

fun strategyValue :: "node \<Rightarrow> strategy \<Rightarrow> string option" where
  "strategyValue el ByDataCy = attr el ''data-cy''"
| "strategyValue el ByDataTest = attr el ''data-test''"
| "strategyValue el ByDataTestId = attr el ''data-testid''"
| "strategyValue el ById = attr el ''id''"
| "strategyValue el ByName = attr el ''name''"
| "strategyValue el ByPlaceholder = attr el ''placeholder''"
| "strategyValue el ByText = Some (trim (textContent el))"
| "strategyValue el ByHref = attr el ''href''"
| "strategyValue el ByClass = attr el ''class''"

fun appliesTo :: "strategy \<Rightarrow> string \<Rightarrow> bool" where
  "appliesTo ByName tag = (tag \<in> {''input'', ''select'', ''textarea''})"
| "appliesTo ByPlaceholder tag = (tag \<in> {''input'', ''textarea''})"
| "appliesTo ByText tag = (tag \<in> {''button'', ''a''})"
| "appliesTo ByHref tag = (tag = ''a'')"
| "appliesTo ByClass tag = (tag = ''button'')"
| "appliesTo s tag = True"

definition categoryName :: "string \<Rightarrow> string" where
  "categoryName tag = (if tag = ''a'' then ''link'' else tag)"

fun strategyResult :: "strategy \<Rightarrow> string \<Rightarrow> string \<Rightarrow> located" where
  \<open>strategyResult ByDataCy tag v = \<lparr>locator = ''cy.get('[data-cy="'' @ v @ ''"]')'', rawName = tag @ '' '' @ v\<rparr>\<close>
| \<open>strategyResult ByDataTest tag v = \<lparr>locator = ''cy.get('[data-test="'' @ v @ ''"]')'', rawName = tag @ '' '' @ v\<rparr>\<close>
| \<open>strategyResult ByDataTestId tag v =
     \<lparr>locator = ''cy.get('[data-testid="'' @ v @ ''"]')'', rawName = tag @ '' '' @ v\<rparr>\<close>
| \<open>strategyResult ById tag v = \<lparr>locator = ''cy.get('#'' @ v @ sq @ '')'', rawName = tag @ '' '' @ v\<rparr>\<close>
| \<open>strategyResult ByName tag v =
     \<lparr>locator = ''cy.get('' @ sq @ tag @ ''[name="'' @ v @ ''"]')'', rawName = tag @ '' '' @ v\<rparr>\<close>
| \<open>strategyResult ByPlaceholder tag v =
     \<lparr>locator = ''cy.get('' @ sq @ tag @ ''[placeholder="'' @ v @ ''"]')'', rawName = tag @ '' '' @ v\<rparr>\<close>
| \<open>strategyResult ByText tag v =
     \<lparr>locator = ''cy.contains('' @ sq @ tag @ sq @ '', '' @ sq @ v @ sq @ '')'',
      rawName = categoryName tag @ '' '' @ v\<rparr>\<close>
| \<open>strategyResult ByHref tag v =
     \<lparr>locator = ''cy.get('a[href="'' @ v @ ''"]')'', rawName = categoryName tag @ '' '' @ v\<rparr>\<close>
| \<open>strategyResult ByClass tag v =
     \<lparr>locator = ''cy.get('button.'' @ firstToken v @ sq @ '')'', rawName = ''button '' @ firstToken v\<rparr>\<close>

definition positionalFallback :: "string \<Rightarrow> string option \<Rightarrow> nat option \<Rightarrow> located" where
  \<open>positionalFallback tag typeAttr extraIndex =
     (case extraIndex of
        Some i \<Rightarrow>
          if truthy typeAttr \<and> tag = ''input'' then
            \<lparr>locator = ''cy.get('input[type="'' @ str typeAttr @ ''"]').eq('' @ showNat i @ '')'',
             rawName = ''input '' @ str typeAttr @ '' '' @ showNat (i + 1)\<rparr>
          else
            \<lparr>locator = ''cy.get('' @ sq @ tag @ sq @ '').eq('' @ showNat i @ '')'',
             rawName = tag @ '' '' @ showNat (i + 1)\<rparr>
      | None \<Rightarrow> \<lparr>locator = ''cy.get('' @ sq @ tag @ sq @ '')'', rawName = tag\<rparr>)\<close>

definition resolveByPriority :: "node \<Rightarrow> string \<Rightarrow> string option \<Rightarrow> nat option \<Rightarrow> located" where
  "resolveByPriority el tag extraType extraIndex =
     (case find (\<lambda>s. appliesTo s tag \<and> truthy (strategyValue el s)) priorityOrder of
        Some s \<Rightarrow> strategyResult s tag (str (strategyValue el s))
      | None \<Rightarrow> positionalFallback tag (orElse extraType (attr el ''type'')) extraIndex)"

section \<open>Feature name inference\<close>

text \<open>
  What the platform provides is a parameter of the model: \<^verbatim>\<open>new URL(url)\<close>, which
  throws on a malformed URL (\<open>None\<close>) and otherwise gives the host name and the path, and
  \<^verbatim>\<open>JSON.stringify(metaMap, null, 2)\<close>.
\<close>

record urlObj =
  hostname :: string
  pathname :: string

record platform =
  newURL :: "string \<Rightarrow> urlObj option"
  stringify :: "(string \<times> string) list \<Rightarrow> string"

text \<open>
  \<^verbatim>\<open>
  function sanitizeFeatureName(name) {
      return name.toLowerCase().replace(/[^a-z0-9]+/g, '_').replace(/^_+|_+$/g, '')
  }
  \<close>
\<close>

function collapseRuns :: "string \<Rightarrow> string" where
  "collapseRuns [] = []"
| "collapseRuns (c # cs) =
     (if isLowerAlnum c then c # collapseRuns cs
      else CHR ''_'' # collapseRuns (dropWhile (\<lambda>x. \<not> isLowerAlnum x) cs))"
  by pat_completeness auto
termination
proof (relation "measure length")
  fix c :: char and cs :: string
  have "length (dropWhile (\<lambda>x. \<not> isLowerAlnum x) cs) \<le> length cs"
    by (rule length_dropWhile_le)
  then show "(dropWhile (\<lambda>x. \<not> isLowerAlnum x) cs, c # cs) \<in> measure length" by simp
qed simp_all

definition stripUnderscores :: "string \<Rightarrow> string" where
  "stripUnderscores s =
     rev (dropWhile (\<lambda>c. c = CHR ''_'') (rev (dropWhile (\<lambda>c. c = CHR ''_'') s)))"

definition sanitizeFeatureName :: "string \<Rightarrow> string" where
  "sanitizeFeatureName name = stripUnderscores (collapseRuns (toLowerCase name))"

definition keywordList :: "string list" where
  "keywordList = [''login'', ''register'', ''signup'', ''signin'', ''user'', ''profile'', ''dashboard'',
     ''settings'', ''admin'', ''account'', ''reset'', ''forgot'', ''password'', ''contact'', ''about'',
     ''home'']"

text \<open>\<^verbatim>\<open>for (const keyword of keywords) { if (s.includes(keyword)) return keyword }\<close>\<close>

fun firstKeyword :: "string list \<Rightarrow> string \<Rightarrow> string option" where
  "firstKeyword [] s = None"
| "firstKeyword (k # ks) s = (if includesStr s k then Some k else firstKeyword ks s)"

text \<open>The loop over the path parts, with the loop over the keywordList inside.\<close>

fun scanParts :: "string list \<Rightarrow> string option" where
  "scanParts [] = None"
| "scanParts (part # parts) =
     (case firstKeyword keywordList (toLowerCase part) of
        Some k \<Rightarrow> Some k
      | None \<Rightarrow> scanParts parts)"

text \<open>\<^verbatim>\<open>urlObj.pathname.split('/').filter(Boolean)\<close>\<close>

definition pathParts :: "urlObj \<Rightarrow> string list" where
  "pathParts u = filter (\<lambda>p. p \<noteq> []) (splitOn CHR ''/'' (pathname u))"

definition getFeatureName :: "platform \<Rightarrow> document \<Rightarrow> string \<Rightarrow> js_error + string" where
  "getFeatureName P doc url =
     (let name = orElse (firstAttr (selectTag doc ''form'') ''name'')
                        (firstAttr (selectTag doc ''form'') ''id'')
      in if truthy name then Inr (sanitizeFeatureName (str name))
      else let legend = firstText (selectDescendant doc ''form'' ''legend'')
      in if legend \<noteq> [] then Inr (sanitizeFeatureName legend)
      else let h1 = firstText (selectTag doc ''h1'')
      in if h1 \<noteq> [] then Inr (sanitizeFeatureName h1)
      else let h2 = firstText (selectTag doc ''h2'')
      in if h2 \<noteq> [] then Inr (sanitizeFeatureName h2)
      else let title = firstText (selectTag doc ''title'')
      in if title \<noteq> [] then Inr (sanitizeFeatureName title)
      else (case newURL P url of
              None \<Rightarrow> Inl InvalidURL
            | Some u \<Rightarrow>
                (case scanParts (pathParts u) of
                   Some k \<Rightarrow> Inr k
                 | None \<Rightarrow>
                     (case firstKeyword keywordList (toLowerCase (hostname u)) of
                        Some k \<Rightarrow> Inr k
                      | None \<Rightarrow>
                          (case pathParts u of
                             p # _ \<Rightarrow> Inr (sanitizeFeatureName p)
                           | [] \<Rightarrow> Inr ''page'')))))"

subsection \<open>The priority of the feature name as the specification words it\<close>

text \<open>
  The candidates taken from the document, in the order of the specification: the name or
  id of the form, the legend of the form, the first h1, the first h2, the title. The first
  candidate that is not empty is lower-snake-cased. When all are empty, the URL decides:
  the first pair of a path segment and a keyword of the vocabulary such that the segment
  contains the keyword, then the first keyword the host name contains, then the first
  path segment (lower-snake-cased), then \<open>page\<close>.
\<close>

definition documentCandidates :: "document \<Rightarrow> string list" where
  "documentCandidates doc =
     [case orElse (firstAttr (selectTag doc ''form'') ''name'')
                  (firstAttr (selectTag doc ''form'') ''id'') of None \<Rightarrow> [] | Some s \<Rightarrow> s,
      firstText (selectDescendant doc ''form'' ''legend''),
      firstText (selectTag doc ''h1''),
      firstText (selectTag doc ''h2''),
      firstText (selectTag doc ''title'')]"

definition urlCandidate :: "urlObj \<Rightarrow> string" where
  "urlCandidate u =
     (case find (\<lambda>(part, k). includesStr (toLowerCase part) k) (List.product (pathParts u) keywordList) of
        Some (part, k) \<Rightarrow> k
      | None \<Rightarrow>
          (case find (\<lambda>k. includesStr (toLowerCase (hostname u)) k) keywordList of
             Some k \<Rightarrow> k
           | None \<Rightarrow>
               (case pathParts u of
                  p # _ \<Rightarrow> sanitizeFeatureName p
                | [] \<Rightarrow> ''page'')))"

definition featureNameByPriority :: "platform \<Rightarrow> document \<Rightarrow> string \<Rightarrow> js_error + string" where
  "featureNameByPriority P doc url =
     (case find (\<lambda>s. s \<noteq> []) (documentCandidates doc) of
        Some s \<Rightarrow> Inr (sanitizeFeatureName s)
      | None \<Rightarrow>
          (case newURL P url of
             None \<Rightarrow> Inl InvalidURL
           | Some u \<Rightarrow> Inr (urlCandidate u)))"

text \<open>Lower snake case: lower-case letters, digits and underscores, no underscore at either end.\<close>

definition isSnakeCase :: "string \<Rightarrow> bool" where
  "isSnakeCase s =
     (list_all (\<lambda>c. isLowerAlnum c \<or> c = CHR ''_'') s
      \<and> (case s of [] \<Rightarrow> True | c # _ \<Rightarrow> c \<noteq> CHR ''_'')
      \<and> (case rev s of [] \<Rightarrow> True | c # _ \<Rightarrow> c \<noteq> CHR ''_''))"

section \<open>The page object generator of src/index.js\<close>

text \<open>
  The arrays that \<^verbatim>\<open>generatePageObjectClass\<close> fills while it walks the document. Each
  pushed template literal is kept as the values it is built from, and rendered by the
  function that follows the template: an entry of \<open>elements\<close> is an element name with its
  locator, an entry of \<open>getters\<close> an element name, an entry of \<open>valueGetters\<close> or
  \<open>interactionMethods\<close> a verb with an element name, an entry of \<open>elementMeta\<close> a type with
  an element name.
\<close>

datatype verb = Click | GetText | Check | Uncheck | IsChecked | TypeText | Clear | GetValue | SelectValue

record genState =
  elements :: "(string \<times> string) list"
  getters :: "string list"
  valueGetters :: "(verb \<times> string) list"
  interactionMethods :: "(verb \<times> string) list"
  metaAcc :: "(string \<times> string) list"
  elementCounter :: nat

record pageObject =
  classCode :: string
  className :: string
  featureName :: string
  elementMeta :: "(string \<times> string) list"

definition initState :: genState where
  "initState = \<lparr>elements = [], getters = [], valueGetters = [], interactionMethods = [],
     metaAcc = [], elementCounter = 1\<rparr>"

text \<open>\<^verbatim>\<open>`    ${elementName}: () => ${locator}`\<close>\<close>

definition renderElement :: "string \<times> string \<Rightarrow> string" where
  "renderElement e = ''    '' @ fst e @ '': () => '' @ snd e"

text \<open>\<^verbatim>\<open>`    get ${elementName}() { return this.#elements.${elementName}() }`\<close>\<close>

definition renderGetter :: "string \<Rightarrow> string" where
  "renderGetter n = ''    get '' @ n @ ''() { return this.#elements.'' @ n @ ''() }''"

text \<open>
  The method templates, for instance
  \<^verbatim>\<open>`    click${elementName.charAt(0).toUpperCase() + elementName.slice(1)}() { return this.#elements.${elementName}().click() }`\<close>
\<close>

fun methodName :: "verb \<Rightarrow> string" where
  "methodName Click = ''click''"
| "methodName GetText = ''getText''"
| "methodName Check = ''check''"
| "methodName Uncheck = ''uncheck''"
| "methodName IsChecked = ''isChecked''"
| "methodName TypeText = ''type''"
| "methodName Clear = ''clear''"
| "methodName GetValue = ''getValue''"
| "methodName SelectValue = ''select''"

fun methodParams :: "verb \<Rightarrow> string" where
  "methodParams TypeText = ''(text)''"
| "methodParams SelectValue = ''(value)''"
| "methodParams v = ''()''"

fun methodCall :: "verb \<Rightarrow> string" where
  "methodCall Click = ''.click()''"
| "methodCall GetText = ''.invoke('text')''"
| "methodCall Check = ''.check()''"
| "methodCall Uncheck = ''.uncheck()''"
| "methodCall IsChecked = ''.should('have.prop', 'checked')''"
| "methodCall TypeText = ''.type(text)''"
| "methodCall Clear = ''.clear()''"
| "methodCall GetValue = ''.invoke('val')''"
| "methodCall SelectValue = ''.select(value)''"

definition renderMethod :: "verb \<times> string \<Rightarrow> string" where
  "renderMethod m =
     ''    '' @ methodName (fst m) @ cap (snd m) @ methodParams (fst m)
       @ '' { return this.#elements.'' @ snd m @ ''()'' @ methodCall (fst m) @ '' }''"

subsection \<open>The five loops\<close>

text \<open>
  Each loop body first picks the locator and the raw name of the element by its chain of
  conditions; \<open>k\<close> is the value of \<^verbatim>\<open>elementCounter\<close>, one counter for all categories.
\<close>

definition buttonLocator :: "nat \<Rightarrow> node \<Rightarrow> located" where
  \<open>buttonLocator k el =
     (let txt = trim (textContent el);
          idAttr = attr el ''id'';
          classNameAttr = attr el ''class'';
          dataTestId = attr el ''data-testid''
      in if truthy dataTestId then
           \<lparr>locator = ''cy.get('[data-testid="'' @ str dataTestId @ ''"]')'',
            rawName = ''button '' @ str dataTestId\<rparr>
         else if truthy idAttr then
           \<lparr>locator = ''cy.get('#'' @ str idAttr @ sq @ '')'', rawName = ''button '' @ str idAttr\<rparr>
         else if txt \<noteq> [] then
           \<lparr>locator = ''cy.contains('button', '' @ sq @ txt @ sq @ '')'', rawName = ''button '' @ txt\<rparr>
         else if truthy classNameAttr then
           \<lparr>locator = ''cy.get('button.'' @ firstToken (str classNameAttr) @ sq @ '')'',
            rawName = ''button '' @ firstToken (str classNameAttr)\<rparr>
         else
           \<lparr>locator = ''cy.get('button').eq('' @ showNat (k - 1) @ '')'',
            rawName = ''button '' @ showNat k\<rparr>)\<close>

definition buttonStep :: "genState \<Rightarrow> node \<Rightarrow> genState" where
  "buttonStep st el =
     (let r = buttonLocator (elementCounter st) el;
          elementName = toCamelCase (rawName r)
      in st\<lparr>elements := elements st @ [(elementName, locator r)],
            interactionMethods := interactionMethods st @ [(Click, elementName)],
            valueGetters := valueGetters st @ [(GetText, elementName)],
            elementCounter := elementCounter st + 1\<rparr>)"

text \<open>\<^verbatim>\<open>$el.attr('type') || 'text'\<close>\<close>

definition inputType :: "node \<Rightarrow> string" where
  "inputType el = str (orElse (attr el ''type'') (Some ''text''))"

definition inputLocator :: "nat \<Rightarrow> node \<Rightarrow> located" where
  \<open>inputLocator k el =
     (let typeAttr = inputType el;
          idAttr = attr el ''id'';
          nameAttr = attr el ''name'';
          placeholder = attr el ''placeholder'';
          dataTestId = attr el ''data-testid''
      in if truthy dataTestId then
           \<lparr>locator = ''cy.get('[data-testid="'' @ str dataTestId @ ''"]')'',
            rawName = ''input '' @ str dataTestId\<rparr>
         else if truthy idAttr then
           \<lparr>locator = ''cy.get('#'' @ str idAttr @ sq @ '')'', rawName = ''input '' @ str idAttr\<rparr>
         else if truthy nameAttr then
           \<lparr>locator = ''cy.get('input[name="'' @ str nameAttr @ ''"]')'',
            rawName = ''input '' @ str nameAttr\<rparr>
         else if truthy placeholder then
           \<lparr>locator = ''cy.get('input[placeholder="'' @ str placeholder @ ''"]')'',
            rawName = ''input '' @ str placeholder\<rparr>
         else
           \<lparr>locator = ''cy.get('input[type="'' @ typeAttr @ ''"]').eq('' @ showNat (k - 1) @ '')'',
            rawName = ''input '' @ typeAttr @ '' '' @ showNat k\<rparr>)\<close>

definition inputStep :: "genState \<Rightarrow> node \<Rightarrow> genState" where
  "inputStep st el =
     (let typeAttr = inputType el;
          r = inputLocator (elementCounter st) el;
          elementName = toCamelCase (rawName r)
      in st\<lparr>elements := elements st @ [(elementName, locator r)],
            getters := getters st @ [elementName],
            interactionMethods := interactionMethods st @
              (if typeAttr = ''checkbox'' \<or> typeAttr = ''radio''
               then [(Check, elementName), (Uncheck, elementName)]
               else [(TypeText, elementName), (Clear, elementName)]),
            valueGetters := valueGetters st @
              (if typeAttr = ''checkbox'' \<or> typeAttr = ''radio''
               then [(IsChecked, elementName)]
               else [(GetValue, elementName)]),
            metaAcc := metaAcc st @ [(typeAttr, elementName)],
            elementCounter := elementCounter st + 1\<rparr>)"

definition linkLocator :: "nat \<Rightarrow> node \<Rightarrow> located" where
  \<open>linkLocator k el =
     (let txt = trim (textContent el);
          href = attr el ''href'';
          idAttr = attr el ''id'';
          dataTestId = attr el ''data-testid''
      in if truthy dataTestId then
           \<lparr>locator = ''cy.get('[data-testid="'' @ str dataTestId @ ''"]')'',
            rawName = ''link '' @ str dataTestId\<rparr>
         else if truthy idAttr then
           \<lparr>locator = ''cy.get('#'' @ str idAttr @ sq @ '')'', rawName = ''link '' @ str idAttr\<rparr>
         else if txt \<noteq> [] then
           \<lparr>locator = ''cy.contains('a', '' @ sq @ txt @ sq @ '')'', rawName = ''link '' @ txt\<rparr>
         else if truthy href then
           \<lparr>locator = ''cy.get('a[href="'' @ str href @ ''"]')'', rawName = ''link '' @ str href\<rparr>
         else
           \<lparr>locator = ''cy.get('a').eq('' @ showNat (k - 1) @ '')'', rawName = ''link '' @ showNat k\<rparr>)\<close>

definition linkStep :: "genState \<Rightarrow> node \<Rightarrow> genState" where
  "linkStep st el =
     (let r = linkLocator (elementCounter st) el;
          elementName = toCamelCase (rawName r)
      in st\<lparr>elements := elements st @ [(elementName, locator r)],
            getters := getters st @ [elementName],
            interactionMethods := interactionMethods st @ [(Click, elementName)],
            valueGetters := valueGetters st @ [(GetText, elementName)],
            metaAcc := metaAcc st @ [(''link'', elementName)],
            elementCounter := elementCounter st + 1\<rparr>)"

definition selectLocator :: "nat \<Rightarrow> node \<Rightarrow> located" where
  \<open>selectLocator k el =
     (let idAttr = attr el ''id'';
          nameAttr = attr el ''name'';
          dataTestId = attr el ''data-testid''
      in if truthy dataTestId then
           \<lparr>locator = ''cy.get('[data-testid="'' @ str dataTestId @ ''"]')'',
            rawName = ''select '' @ str dataTestId\<rparr>
         else if truthy idAttr then
           \<lparr>locator = ''cy.get('#'' @ str idAttr @ sq @ '')'', rawName = ''select '' @ str idAttr\<rparr>
         else if truthy nameAttr then
           \<lparr>locator = ''cy.get('select[name="'' @ str nameAttr @ ''"]')'',
            rawName = ''select '' @ str nameAttr\<rparr>
         else
           \<lparr>locator = ''cy.get('select').eq('' @ showNat (k - 1) @ '')'',
            rawName = ''select '' @ showNat k\<rparr>)\<close>

definition selectStep :: "genState \<Rightarrow> node \<Rightarrow> genState" where
  "selectStep st el =
     (let r = selectLocator (elementCounter st) el;
          elementName = toCamelCase (rawName r)
      in st\<lparr>elements := elements st @ [(elementName, locator r)],
            getters := getters st @ [elementName],
            interactionMethods := interactionMethods st @ [(SelectValue, elementName)],
            valueGetters := valueGetters st @ [(GetValue, elementName)],
            metaAcc := metaAcc st @ [(''select'', elementName)],
            elementCounter := elementCounter st + 1\<rparr>)"

definition textareaLocator :: "nat \<Rightarrow> node \<Rightarrow> located" where
  \<open>textareaLocator k el =
     (let idAttr = attr el ''id'';
          nameAttr = attr el ''name'';
          placeholder = attr el ''placeholder'';
          dataTestId = attr el ''data-testid''
      in if truthy dataTestId then
           \<lparr>locator = ''cy.get('[data-testid="'' @ str dataTestId @ ''"]')'',
            rawName = ''textarea '' @ str dataTestId\<rparr>
         else if truthy idAttr then
           \<lparr>locator = ''cy.get('#'' @ str idAttr @ sq @ '')'', rawName = ''textarea '' @ str idAttr\<rparr>
         else if truthy nameAttr then
           \<lparr>locator = ''cy.get('textarea[name="'' @ str nameAttr @ ''"]')'',
            rawName = ''textarea '' @ str nameAttr\<rparr>
         else if truthy placeholder then
           \<lparr>locator = ''cy.get('textarea[placeholder="'' @ str placeholder @ ''"]')'',
            rawName = ''textarea '' @ str placeholder\<rparr>
         else
           \<lparr>locator = ''cy.get('textarea').eq('' @ showNat (k - 1) @ '')'',
            rawName = ''textarea '' @ showNat k\<rparr>)\<close>

definition textareaStep :: "genState \<Rightarrow> node \<Rightarrow> genState" where
  "textareaStep st el =
     (let r = textareaLocator (elementCounter st) el;
          elementName = toCamelCase (rawName r)
      in st\<lparr>elements := elements st @ [(elementName, locator r)],
            getters := getters st @ [elementName],
            interactionMethods := interactionMethods st @ [(TypeText, elementName), (Clear, elementName)],
            valueGetters := valueGetters st @ [(GetValue, elementName)],
            metaAcc := metaAcc st @ [(''textarea'', elementName)],
            elementCounter := elementCounter st + 1\<rparr>)"

text \<open>The state after the five \<^verbatim>\<open>each\<close> loops: buttons, inputs, links, selects, textareas.\<close>

definition genLoops :: "document \<Rightarrow> genState" where
  "genLoops doc =
     foldl textareaStep
       (foldl selectStep
          (foldl linkStep
             (foldl inputStep
                (foldl buttonStep initState (selectTag doc ''button''))
                (selectTag doc ''input''))
             (selectTag doc ''a''))
          (selectTag doc ''select''))
       (selectTag doc ''textarea'')"

subsection \<open>The locator map as the raw labels give it\<close>

text \<open>
  The interactive elements in the order of the five loops, each with its tag, and counted
  from 1 through all categories; the chain of conditions of the loop of a tag; the raw
  labels of the elements; and the locator map in which the name of every element is the
  camel case of its raw label, whether or not the label was met before.
\<close>

definition interactive :: "document \<Rightarrow> (nat \<times> string \<times> node) list" where
  "interactive doc =
     enumerate 1 (concat (map (\<lambda>t. map (Pair t) (selectTag doc t))
       [''button'', ''input'', ''a'', ''select'', ''textarea'']))"

definition locatorOf :: "nat \<times> string \<times> node \<Rightarrow> located" where
  "locatorOf e =
     (case e of (k, t, el) \<Rightarrow>
        if t = ''button'' then buttonLocator k el
        else if t = ''input'' then inputLocator k el
        else if t = ''a'' then linkLocator k el
        else if t = ''select'' then selectLocator k el
        else textareaLocator k el)"

definition rawLabels :: "document \<Rightarrow> string list" where
  "rawLabels doc = map (\<lambda>e. rawName (locatorOf e)) (interactive doc)"

definition elementsByLabel :: "document \<Rightarrow> (string \<times> string) list" where
  "elementsByLabel doc =
     map (\<lambda>e. (toCamelCase (rawName (locatorOf e)), locator (locatorOf e))) (interactive doc)"

text \<open>
  \<^verbatim>\<open>elementMeta.reduce((acc, m) => { acc[m.elementName] = m.type; return acc }, {})\<close>:
  an assignment to a key that the object has keeps the key's place.
\<close>

fun setKey :: "(string \<times> string) list \<Rightarrow> string \<Rightarrow> string \<Rightarrow> (string \<times> string) list" where
  "setKey [] k v = [(k, v)]"
| "setKey ((k', v') # kvs) k v = (if k' = k then (k, v) # kvs else (k', v') # setKey kvs k v)"

definition metaMapOf :: "(string \<times> string) list \<Rightarrow> (string \<times> string) list" where
  "metaMapOf meta = foldl (\<lambda>acc m. setKey acc (snd m) (fst m)) [] meta"

definition renderClass :: "platform \<Rightarrow> string \<Rightarrow> genState \<Rightarrow> string" where
  "renderClass P cn st =
     ''export class '' @ cn @ '' {'' @ nl
     @ ''  // Private elements'' @ nl
     @ ''  #elements = {'' @ nl
     @ join ('','' @ nl) (map renderElement (elements st)) @ nl
     @ ''  }'' @ nl @ nl
     @ ''  // Element meta (currently not used for bulk actions)'' @ nl
     @ ''  #meta = '' @ stringify P (metaMapOf (metaAcc st)) @ nl @ nl
     @ ''  // Public getters'' @ nl
     @ join nl (map renderGetter (getters st)) @ nl @ nl
     @ ''  // Value/State getters'' @ nl
     @ join nl (map renderMethod (valueGetters st)) @ nl @ nl
     @ ''  // Interaction methods (per-element actions)'' @ nl
     @ join nl (map renderMethod (interactionMethods st)) @ nl
     @ ''}'' @ nl"

text \<open>
  \<^verbatim>\<open>generatePageObjectClass($, url, customFeatureName = null, instructions = null)\<close>; the
  instructions are not read.
\<close>

definition generatePageObjectClass ::
  "platform \<Rightarrow> document \<Rightarrow> string \<Rightarrow> string option \<Rightarrow> js_error + pageObject" where
  "generatePageObjectClass P doc url customFeatureName =
     (case (if truthy customFeatureName then Inr (str customFeatureName)
            else getFeatureName P doc url) of
        Inl e \<Rightarrow> Inl e
      | Inr fn \<Rightarrow>
          (let cn = cap fn @ ''Page'';
               st = genLoops doc
           in Inr \<lparr>classCode = renderClass P cn st, className = cn, featureName = fn,
                   elementMeta = metaAcc st\<rparr>))"

text \<open>A button that reaches the last branch of the chain: no data-testid, id, text or class.\<close>

definition bareButton :: "node \<Rightarrow> bool" where
  "bareButton el =
     (\<not> truthy (attr el ''data-testid'') \<and> \<not> truthy (attr el ''id'')
      \<and> trim (textContent el) = [] \<and> \<not> truthy (attr el ''class''))"

text \<open>Reading a decimal numeral back, to tell the numerals of different numbers apart.\<close>

definition digitValue :: "char \<Rightarrow> nat" where
  "digitValue c = length (takeWhile (\<lambda>d. d \<noteq> c) digits)"

definition readNat :: "string \<Rightarrow> nat" where
  "readNat s = foldl (\<lambda>a c. 10 * a + digitValue c) 0 s"

text \<open>
  The names of the locator map are the names the interaction methods refer to, and the
  names the value and state accessors refer to; the names of the getters are names of the
  locator map.
\<close>

definition consistent :: "genState \<Rightarrow> bool" where
  "consistent st =
     (set (map snd (interactionMethods st)) = set (map fst (elements st))
      \<and> set (map snd (valueGetters st)) = set (map fst (elements st))
      \<and> set (getters st) \<subseteq> set (map fst (elements st)))"
section \<open>The generator with workflow methods and tests (version 1.0.0)\<close>

text \<open>
  The variant of \<^verbatim>\<open>generatePageObjectClass\<close> that names elements with underscores,
  keeps the type of every element in \<^verbatim>\<open>elementMeta\<close>, and appends workflow methods;
  \<^verbatim>\<open>generateCypressTests\<close> reads its result. The text of every template literal below
  is the text of the source.
\<close>

text \<open>\<^verbatim>\<open>`    get ${elementName.charAt(0).toUpperCase() + elementName.slice(1)}() { return this.#elements.${elementName}() }`\<close>\<close>

definition renderGetter_wf :: "string \<Rightarrow> string" where
  "renderGetter_wf n = ''    get '' @ cap n @ ''() { return this.#elements.'' @ n @ ''() }''"

text \<open>
  The chains of the five loops: the element name and the locator, as an entry of
  \<open>elements\<close>.
\<close>

definition buttonEntry_wf :: "nat \<Rightarrow> node \<Rightarrow> string \<times> string" where
  \<open>buttonEntry_wf k el =
     (let txt = trim (textContent el);
          idAttr = attr el ''id'';
          classNameAttr = attr el ''class'';
          dataTestId = attr el ''data-testid''
      in if truthy dataTestId then
           (''button_'' @ replaceNonAlnum (str dataTestId),
            ''cy.get('[data-testid="'' @ str dataTestId @ ''"]')'')
         else if truthy idAttr then
           (''button_'' @ str idAttr, ''cy.get('#'' @ str idAttr @ sq @ '')'')
         else if txt \<noteq> [] then
           (''button_'' @ toLowerCase (replaceNonAlnum txt),
            ''cy.contains('button', '' @ sq @ txt @ sq @ '')'')
         else if truthy classNameAttr then
           (''button_'' @ firstToken (str classNameAttr),
            ''cy.get('button.'' @ firstToken (str classNameAttr) @ sq @ '')'')
         else
           (''button_'' @ showNat k, ''cy.get('button').eq('' @ showNat (k - 1) @ '')''))\<close>

definition inputEntry_wf :: "nat \<Rightarrow> node \<Rightarrow> string \<times> string" where
  \<open>inputEntry_wf k el =
     (let typeAttr = inputType el;
          idAttr = attr el ''id'';
          nameAttr = attr el ''name'';
          placeholder = attr el ''placeholder'';
          dataTestId = attr el ''data-testid''
      in if truthy dataTestId then
           (''input_'' @ replaceNonAlnum (str dataTestId),
            ''cy.get('[data-testid="'' @ str dataTestId @ ''"]')'')
         else if truthy idAttr then
           (''input_'' @ str idAttr, ''cy.get('#'' @ str idAttr @ sq @ '')'')
         else if truthy nameAttr then
           (''input_'' @ str nameAttr, ''cy.get('input[name="'' @ str nameAttr @ ''"]')'')
         else if truthy placeholder then
           (''input_'' @ toLowerCase (replaceNonAlnum (str placeholder)),
            ''cy.get('input[placeholder="'' @ str placeholder @ ''"]')'')
         else
           (''input_'' @ typeAttr @ ''_'' @ showNat k,
            ''cy.get('input[type="'' @ typeAttr @ ''"]').eq('' @ showNat (k - 1) @ '')''))\<close>

definition linkEntry_wf :: "nat \<Rightarrow> node \<Rightarrow> string \<times> string" where
  \<open>linkEntry_wf k el =
     (let txt = trim (textContent el);
          href = attr el ''href'';
          idAttr = attr el ''id'';
          dataTestId = attr el ''data-testid''
      in if truthy dataTestId then
           (''link_'' @ replaceNonAlnum (str dataTestId),
            ''cy.get('[data-testid="'' @ str dataTestId @ ''"]')'')
         else if truthy idAttr then
           (''link_'' @ str idAttr, ''cy.get('#'' @ str idAttr @ sq @ '')'')
         else if txt \<noteq> [] then
           (''link_'' @ toLowerCase (replaceNonAlnum txt),
            ''cy.contains('a', '' @ sq @ txt @ sq @ '')'')
         else if truthy href then
           (''link_'' @ toLowerCase (replaceNonAlnum (str href)),
            ''cy.get('a[href="'' @ str href @ ''"]')'')
         else
           (''link_'' @ showNat k, ''cy.get('a').eq('' @ showNat (k - 1) @ '')''))\<close>

definition selectEntry_wf :: "nat \<Rightarrow> node \<Rightarrow> string \<times> string" where
  \<open>selectEntry_wf k el =
     (let idAttr = attr el ''id'';
          nameAttr = attr el ''name'';
          dataTestId = attr el ''data-testid''
      in if truthy dataTestId then
           (''select_'' @ replaceNonAlnum (str dataTestId),
            ''cy.get('[data-testid="'' @ str dataTestId @ ''"]')'')
         else if truthy idAttr then
           (''select_'' @ str idAttr, ''cy.get('#'' @ str idAttr @ sq @ '')'')
         else if truthy nameAttr then
           (''select_'' @ str nameAttr, ''cy.get('select[name="'' @ str nameAttr @ ''"]')'')
         else
           (''select_'' @ showNat k, ''cy.get('select').eq('' @ showNat (k - 1) @ '')''))\<close>

definition textareaEntry_wf :: "nat \<Rightarrow> node \<Rightarrow> string \<times> string" where
  \<open>textareaEntry_wf k el =
     (let idAttr = attr el ''id'';
          nameAttr = attr el ''name'';
          placeholder = attr el ''placeholder'';
          dataTestId = attr el ''data-testid''
      in if truthy dataTestId then
           (''textarea_'' @ replaceNonAlnum (str dataTestId),
            ''cy.get('[data-testid="'' @ str dataTestId @ ''"]')'')
         else if truthy idAttr then
           (''textarea_'' @ str idAttr, ''cy.get('#'' @ str idAttr @ sq @ '')'')
         else if truthy nameAttr then
           (''textarea_'' @ str nameAttr, ''cy.get('textarea[name="'' @ str nameAttr @ ''"]')'')
         else if truthy placeholder then
           (''textarea_'' @ toLowerCase (replaceNonAlnum (str placeholder)),
            ''cy.get('textarea[placeholder="'' @ str placeholder @ ''"]')'')
         else
           (''textarea_'' @ showNat k, ''cy.get('textarea').eq('' @ showNat (k - 1) @ '')''))\<close>

definition buttonStep_wf :: "genState \<Rightarrow> node \<Rightarrow> genState" where
  "buttonStep_wf st el =
     (let e = buttonEntry_wf (elementCounter st) el;
          elementName = fst e
      in st\<lparr>elements := elements st @ [e],
            getters := getters st @ [elementName],
            interactionMethods := interactionMethods st @ [(Click, elementName)],
            valueGetters := valueGetters st @ [(GetText, elementName)],
            metaAcc := metaAcc st @ [(''button'', elementName)],
            elementCounter := elementCounter st + 1\<rparr>)"

definition inputStep_wf :: "genState \<Rightarrow> node \<Rightarrow> genState" where
  "inputStep_wf st el =
     (let typeAttr = inputType el;
          e = inputEntry_wf (elementCounter st) el;
          elementName = fst e
      in st\<lparr>elements := elements st @ [e],
            getters := getters st @ [elementName],
            interactionMethods := interactionMethods st @
              (if typeAttr = ''checkbox'' \<or> typeAttr = ''radio''
               then [(Check, elementName), (Uncheck, elementName)]
               else [(TypeText, elementName), (Clear, elementName)]),
            valueGetters := valueGetters st @
              (if typeAttr = ''checkbox'' \<or> typeAttr = ''radio''
               then [(IsChecked, elementName)]
               else [(GetValue, elementName)]),
            metaAcc := metaAcc st @ [(typeAttr, elementName)],
            elementCounter := elementCounter st + 1\<rparr>)"

definition linkStep_wf :: "genState \<Rightarrow> node \<Rightarrow> genState" where
  "linkStep_wf st el =
     (let e = linkEntry_wf (elementCounter st) el;
          elementName = fst e
      in st\<lparr>elements := elements st @ [e],
            getters := getters st @ [elementName],
            interactionMethods := interactionMethods st @ [(Click, elementName)],
            valueGetters := valueGetters st @ [(GetText, elementName)],
            metaAcc := metaAcc st @ [(''link'', elementName)],
            elementCounter := elementCounter st + 1\<rparr>)"

definition selectStep_wf :: "genState \<Rightarrow> node \<Rightarrow> genState" where
  "selectStep_wf st el =
     (let e = selectEntry_wf (elementCounter st) el;
          elementName = fst e
      in st\<lparr>elements := elements st @ [e],
            getters := getters st @ [elementName],
            interactionMethods := interactionMethods st @ [(SelectValue, elementName)],
            valueGetters := valueGetters st @ [(GetValue, elementName)],
            metaAcc := metaAcc st @ [(''select'', elementName)],
            elementCounter := elementCounter st + 1\<rparr>)"

definition textareaStep_wf :: "genState \<Rightarrow> node \<Rightarrow> genState" where
  "textareaStep_wf st el =
     (let e = textareaEntry_wf (elementCounter st) el;
          elementName = fst e
      in st\<lparr>elements := elements st @ [e],
            getters := getters st @ [elementName],
            interactionMethods := interactionMethods st @ [(TypeText, elementName), (Clear, elementName)],
            valueGetters := valueGetters st @ [(GetValue, elementName)],
            metaAcc := metaAcc st @ [(''textarea'', elementName)],
            elementCounter := elementCounter st + 1\<rparr>)"

definition genLoops_wf :: "document \<Rightarrow> genState" where
  "genLoops_wf doc =
     foldl textareaStep_wf
       (foldl selectStep_wf
          (foldl linkStep_wf
             (foldl inputStep_wf
                (foldl buttonStep_wf initState (selectTag doc ''button''))
                (selectTag doc ''input''))
             (selectTag doc ''a''))
          (selectTag doc ''select''))
       (selectTag doc ''textarea'')"

subsection \<open>Workflow detection\<close>

text \<open>
  The attribute selectors \<^verbatim>\<open>[type="v"]\<close> and \<^verbatim>\<open>[a*="v"]\<close>. In an HTML document the
  selector engine compares the value of the attribute \<^verbatim>\<open>type\<close> without regard to case:
  the value has the length of \<open>v\<close>, and its lower case is the lower case of \<open>v\<close>. The
  values of \<^verbatim>\<open>name\<close> and \<^verbatim>\<open>placeholder\<close> are compared as they are: the attribute
  contains \<open>v\<close>.
\<close>

definition typeIs :: "string \<Rightarrow> node \<Rightarrow> bool" where
  "typeIs v el =
     (case attr el ''type'' of
        None \<Rightarrow> False
      | Some x \<Rightarrow> length x = length v \<and> toLowerCase x = toLowerCase v)"

definition attrContains :: "string \<Rightarrow> string \<Rightarrow> node \<Rightarrow> bool" where
  "attrContains a v el = (case attr el a of None \<Rightarrow> False | Some x \<Rightarrow> includesStr x v)"

text \<open>
  \<^verbatim>\<open>
  const hasLoginForm = $('form').length > 0 && ($('input[type="password"]').length > 0 || $('input[name*="password"]').length > 0)
  const hasSearchForm = $('input[type="search"]').length > 0 || $('input[placeholder*="search"]').length > 0
  const hasRegistrationForm = $('form').filter((_, f) => {
      const txt = $(f).text().toLowerCase()
      return txt.includes('register') || txt.includes('signup') || txt.includes('create account') || txt.includes('sign up')
  }).length > 0
  \<close>
\<close>

definition hasLoginForm :: "document \<Rightarrow> bool" where
  "hasLoginForm doc =
     (selectTag doc ''form'' \<noteq> []
      \<and> (filter (typeIs ''password'') (selectTag doc ''input'') \<noteq> []
         \<or> filter (attrContains ''name'' ''password'') (selectTag doc ''input'') \<noteq> []))"

definition hasSearchForm :: "document \<Rightarrow> bool" where
  "hasSearchForm doc =
     (filter (typeIs ''search'') (selectTag doc ''input'') \<noteq> []
      \<or> filter (attrContains ''placeholder'' ''search'') (selectTag doc ''input'') \<noteq> [])"

definition hasRegistrationForm :: "document \<Rightarrow> bool" where
  "hasRegistrationForm doc =
     (filter (\<lambda>f. let txt = toLowerCase (textContent f)
                  in includesStr txt ''register'' \<or> includesStr txt ''signup''
                     \<or> includesStr txt ''create account'' \<or> includesStr txt ''sign up'')
        (selectTag doc ''form'') \<noteq> [])"

definition loginMethod :: string where
  \<open>loginMethod =
     nl @ ''    // Login workflow'' @ nl @ ''    login(username, password) {'' @ nl @
       ''        const usernameInput = this.getInputUsername ? this.getInputUsername() : '' @
       ''this.getInputEmail()'' @ nl @
       ''        const passwordInput = this.getInputPassword()'' @ nl @
       ''        const submitButton = this.getButtonSubmit ? this.getButtonSubmit() : '' @
       ''this.getButtonLogin()'' @ nl @ ''        '' @ nl @
       ''        if (usernameInput) usernameInput.type(username)'' @ nl @
       ''        if (passwordInput) passwordInput.type(password)'' @ nl @
       ''        if (submitButton) submitButton.click()'' @ nl @ ''        '' @ nl @
       ''        return this'' @ nl @ ''    }''\<close>

definition searchMethod :: string where
  \<open>searchMethod =
     nl @ ''    // Search workflow'' @ nl @ ''    search(query) {'' @ nl @
       ''        const searchInput = this.getInputSearch ? this.getInputSearch() : '' @
       ''this.getInputQuery()'' @ nl @
       ''        const searchButton = this.getButtonSearch ? this.getButtonSearch() : '' @
       ''this.getButtonSubmit()'' @ nl @ ''        '' @ nl @
       ''        if (searchInput) searchInput.type(query)'' @ nl @
       ''        if (searchButton) searchButton.click()'' @ nl @ ''        '' @ nl @
       ''        return this'' @ nl @ ''    }''\<close>

definition registerMethod :: string where
  \<open>registerMethod =
     nl @ ''    // Registration workflow'' @ nl @ ''    register(user, email, password) {'' @
       nl @ ''        const userInput = this.getInputUsername ? this.getInputUsername() : '' @
       ''(this.getInputUser ? this.getInputUser() : (this.getInputName ? this.getInputName() '' @
       '': this.getInputEmail ? this.getInputEmail() : null))'' @ nl @
       ''        const emailInput = this.getInputEmail ? this.getInputEmail() : null'' @ nl @
       ''        const passwordInput = this.getInputPassword ? this.getInputPassword() : '' @
       ''(this.getInputPass ? this.getInputPass() : null)'' @ nl @
       ''        const submitButton = this.getButtonRegister ? this.getButtonRegister() : '' @
       ''(this.getButtonSignup ? this.getButtonSignup() : (this.getButtonSubmit ? '' @
       ''this.getButtonSubmit() : null))'' @ nl @
       ''        if (userInput) userInput.type(user)'' @ nl @
       ''        if (emailInput && email) emailInput.type(email)'' @ nl @
       ''        if (passwordInput) passwordInput.type(password)'' @ nl @
       ''        if (submitButton) submitButton.click()'' @ nl @ ''        return this'' @ nl @
       ''    }''\<close>

text \<open>The methods that are always appended; \<open>host\<close> is \<^verbatim>\<open>new URL(url).hostname\<close>.\<close>

definition commonMethods :: "string \<Rightarrow> string" where
  \<open>commonMethods host =
     nl @ ''    // Navigation workflow'' @ nl @ ''    navigateToHome() {'' @ nl @
       ''        const homeLink = this.getLinkHome ? this.getLinkHome() : this.getLinkLogo()'' @
       nl @ ''        if (homeLink) homeLink.click()'' @ nl @ ''        return this'' @ nl @
       ''    }'' @ nl @ ''    '' @ nl @ ''    // Form submission workflow'' @ nl @
       ''    submitForm() {'' @ nl @
       ''        const submitButton = this.getButtonSubmit ? this.getButtonSubmit() : '' @
       ''this.getButtonLogin()'' @ nl @ ''        if (submitButton) submitButton.click()'' @ nl @
       ''        return this'' @ nl @ ''    }'' @ nl @ ''    '' @ nl @
       ''    // Wait for page load'' @ nl @ ''    waitForPageLoad() {'' @ nl @
       ''        cy.wait(1000) // Adjust as needed'' @ nl @ ''        return this'' @ nl @
       ''    }'' @ nl @ ''    '' @ nl @ ''    // Verify page loaded'' @ nl @
       ''    verifyPageLoaded() {'' @ nl @ ''        cy.url().should('' @ sq @ ''include'' @ sq @
       '', '' @ sq @ host @ sq @ '')'' @ nl @ ''        return this'' @ nl @ ''    }''\<close>

definition workflowMethods :: "document \<Rightarrow> string \<Rightarrow> string list" where
  "workflowMethods doc host =
     (if hasLoginForm doc then [loginMethod] else [])
     @ (if hasSearchForm doc then [searchMethod] else [])
     @ (if hasRegistrationForm doc then [registerMethod] else [])
     @ [commonMethods host]"

text \<open>
  The template of \<^verbatim>\<open>classCode\<close>, cut at its last hole: the text up to the workflow
  methods, the workflow methods joined by line feeds, and the closing brace.
\<close>

definition classBody_wf :: "platform \<Rightarrow> string \<Rightarrow> genState \<Rightarrow> string" where
  \<open>classBody_wf P cn st =
     ''export class '' @ cn @ '' {'' @ nl @ ''  // Private elements'' @ nl @
       ''  #elements = {'' @ nl @ join ('','' @ nl) (map renderElement (elements st)) @ nl @
       ''  }'' @ nl @ nl @ ''  // Element meta (currently not used for bulk actions)'' @ nl @
       ''  #meta = '' @ stringify P (metaMapOf (metaAcc st)) @ nl @ nl @
       ''  // Public getters'' @ nl @ join nl (map renderGetter_wf (getters st)) @ nl @ nl @
       ''  // Value/State getters'' @ nl @ join nl (map renderMethod (valueGetters st)) @ nl @
       nl @ ''  // Interaction methods (per-element actions)'' @ nl @
       join nl (map renderMethod (interactionMethods st)) @ nl @ nl @ ''  // Workflow methods'' @
       nl\<close>

definition renderClass_wf :: "platform \<Rightarrow> string \<Rightarrow> genState \<Rightarrow> string list \<Rightarrow> string" where
  \<open>renderClass_wf P cn st wfm =
     classBody_wf P cn st @ join nl wfm @
       nl @ ''}'' @ nl\<close>

text \<open>
  \<^verbatim>\<open>generatePageObjectClass($, url, customFeatureName = null)\<close>. The template of the common
  methods evaluates \<^verbatim>\<open>new URL(url)\<close>, which throws on a malformed URL.
\<close>

definition generatePageObjectClass_wf ::
  "platform \<Rightarrow> document \<Rightarrow> string \<Rightarrow> string option \<Rightarrow> js_error + pageObject" where
  "generatePageObjectClass_wf P doc url customFeatureName =
     (case (if truthy customFeatureName then Inr (str customFeatureName)
            else getFeatureName P doc url) of
        Inl e \<Rightarrow> Inl e
      | Inr fn \<Rightarrow>
          (let cn = cap fn @ ''Page'';
               st = genLoops_wf doc
           in case newURL P url of
                None \<Rightarrow> Inl InvalidURL
              | Some u \<Rightarrow>
                  Inr \<lparr>classCode = renderClass_wf P cn st (workflowMethods doc (hostname u)),
                       className = cn, featureName = fn, elementMeta = metaAcc st\<rparr>))"

subsection \<open>The test generator\<close>

text \<open>
  A test case is kept as the template it comes from and the names the template is filled
  with; \<open>renderTest\<close> is the template. A field is an entry of \<^verbatim>\<open>elementMeta\<close>: a type
  and an element name.
\<close>

datatype testCase =
    ShouldClick string
  | ShouldGetText string
  | ShouldCheck string
  | ShouldUncheck string
  | ShouldType string
  | ShouldClear string
  | SubmitValid "(string \<times> string) list" string
  | ErrorNotChecked string string
  | ErrorEmpty "(string \<times> string) list" string string
  | LongInput string string
  | SpecialCharacters string string

definition isBoolean :: "string \<Rightarrow> bool" where
  "isBoolean t = (t = ''checkbox'' \<or> t = ''radio'')"

text \<open>How a test fills one field: a check for a checkbox or radio button, a typed value otherwise.\<close>

definition fillField :: "string \<times> string \<Rightarrow> string" where
  \<open>fillField f =
     (if isBoolean (fst f) then
        ''page.check'' @ cap (snd f) @ ''()''
      else
        ''page.type'' @ cap (snd f) @ ''('' @ sq @ ''valid_'' @ snd f @ sq @ '')'')\<close>

definition fillAll :: "(string \<times> string) list \<Rightarrow> string" where
  "fillAll flds = join (nl @ ''        '') (map fillField flds)"

fun renderTest :: "testCase \<Rightarrow> string" where
  \<open>renderTest (ShouldClick n) =
     nl @ ''    it('' @ sq @ ''should click '' @ n @ sq @ '', () => {'' @ nl @
       ''        page.click'' @ cap n @ ''()'' @ nl @
       ''        // Add assertions based on expected behavior'' @ nl @ ''    })''\<close>
| \<open>renderTest (ShouldGetText n) =
     nl @ ''    it('' @ sq @ ''should get text of '' @ n @ sq @ '', () => {'' @ nl @
       ''        page.getText'' @ cap n @ ''().should('' @ sq @ ''be.a'' @ sq @ '', '' @ sq @
       ''string'' @ sq @ '')'' @ nl @ ''    })''\<close>
| \<open>renderTest (ShouldCheck n) =
     nl @ ''    it('' @ sq @ ''should check '' @ n @ sq @ '', () => {'' @ nl @
       ''        page.check'' @ cap n @ ''()'' @ nl @ ''        page.isChecked'' @ cap n @
       ''()'' @ nl @ ''    })''\<close>
| \<open>renderTest (ShouldUncheck n) =
     nl @ ''    it('' @ sq @ ''should uncheck '' @ n @ sq @ '', () => {'' @ nl @
       ''        page.uncheck'' @ cap n @ ''()'' @ nl @ ''        // Should be unchecked'' @ nl @
       ''    })''\<close>
| \<open>renderTest (ShouldType n) =
     nl @ ''    it('' @ sq @ ''should type in '' @ n @ sq @ '', () => {'' @ nl @
       ''        page.type'' @ cap n @ ''('' @ sq @ ''test input'' @ sq @ '')'' @ nl @
       ''        page.getValue'' @ cap n @ ''().should('' @ sq @ ''eq'' @ sq @ '', '' @ sq @
       ''test input'' @ sq @ '')'' @ nl @ ''    })''\<close>
| \<open>renderTest (ShouldClear n) =
     nl @ ''    it('' @ sq @ ''should clear '' @ n @ sq @ '', () => {'' @ nl @
       ''        page.type'' @ cap n @ ''('' @ sq @ ''test'' @ sq @ '')'' @ nl @
       ''        page.clear'' @ cap n @ ''()'' @ nl @ ''        page.getValue'' @ cap n @
       ''().should('' @ sq @ ''eq'' @ sq @ '', '' @ sq @ sq @ '')'' @ nl @ ''    })''\<close>
| \<open>renderTest (SubmitValid flds b) =
     nl @ ''    it('' @ sq @ ''should submit form with valid data'' @ sq @ '', () => {'' @ nl @
       ''        '' @ fillAll flds @ nl @ ''        page.click'' @ cap b @ ''()'' @ nl @
       ''        // Add assertions for successful submission'' @ nl @ ''    })''\<close>
| \<open>renderTest (ErrorNotChecked n b) =
     nl @ ''    it('' @ sq @ ''should show error if '' @ n @ '' is not checked'' @ sq @
       '', () => {'' @ nl @ ''        // Do not check'' @ nl @ ''        page.click'' @ cap b @
       ''()'' @ nl @ ''        // Add assertions for error'' @ nl @ ''    })''\<close>
| \<open>renderTest (ErrorEmpty flds n b) =
     nl @ ''    it('' @ sq @ ''should show error if '' @ n @ '' is empty'' @ sq @ '', () => {'' @
       nl @ ''        '' @ fillAll (filter (\<lambda>ff. snd ff \<noteq> n) flds) @ nl @
       ''        // Leave '' @ n @ '' empty'' @ nl @ ''        page.click'' @ cap b @ ''()'' @
       nl @ ''        // Add assertions for error'' @ nl @ ''    })''\<close>
| \<open>renderTest (LongInput n b) =
     nl @ ''    it('' @ sq @ ''should handle long input for '' @ n @ sq @ '', () => {'' @ nl @
       ''        page.type'' @ cap n @ ''('' @ sq @ ''a'' @ sq @ ''.repeat(1000))'' @ nl @
       ''        page.click'' @ cap b @ ''()'' @ nl @
       ''        // Add assertions for edge case'' @ nl @ ''    })''\<close>
| \<open>renderTest (SpecialCharacters n b) =
     nl @ ''    it('' @ sq @ ''should handle special characters for '' @ n @ sq @ '', () => {'' @
       nl @ ''        page.type'' @ cap n @ ''('' @ sq @ ''!@#$%^&*()_+-=[]{}|;:,.<>?'' @ sq @
       '')'' @ nl @ ''        page.click'' @ cap b @ ''()'' @ nl @
       ''        // Add assertions for edge case'' @ nl @ ''    })''\<close>

text \<open>The element names a test case is filled with.\<close>

fun testIdentifiers :: "testCase \<Rightarrow> string list" where
  "testIdentifiers (ShouldClick n) = [n]"
| "testIdentifiers (ShouldGetText n) = [n]"
| "testIdentifiers (ShouldCheck n) = [n]"
| "testIdentifiers (ShouldUncheck n) = [n]"
| "testIdentifiers (ShouldType n) = [n]"
| "testIdentifiers (ShouldClear n) = [n]"
| "testIdentifiers (SubmitValid flds b) = map snd flds @ [b]"
| "testIdentifiers (ErrorNotChecked n b) = [n, b]"
| "testIdentifiers (ErrorEmpty flds n b) = map snd flds @ [n, b]"
| "testIdentifiers (LongInput n b) = [n, b]"
| "testIdentifiers (SpecialCharacters n b) = [n, b]"

text \<open>The element-level tests: the loop over \<^verbatim>\<open>elementMeta\<close>.\<close>

definition elementTestsOf :: "string \<times> string \<Rightarrow> testCase list" where
  "elementTestsOf m =
     (let t = fst m; elementName = snd m
      in if t = ''button'' \<or> t = ''link'' then [ShouldClick elementName, ShouldGetText elementName]
         else if t = ''checkbox'' \<or> t = ''radio'' then [ShouldCheck elementName, ShouldUncheck elementName]
         else if t = ''select'' \<or> t = ''textarea'' \<or> t = ''input''
           then [ShouldType elementName, ShouldClear elementName]
         else [])"

definition elementTests :: "(string \<times> string) list \<Rightarrow> testCase list" where
  "elementTests meta = concat (map elementTestsOf meta)"

text \<open>
  \<^verbatim>\<open>base.replace(/[^a-zA-Z0-9]/g, '_').toLowerCase()\<close>, then
  \<^verbatim>\<open>elementMeta.find(e => e.elementName.startsWith(base))\<close>.
\<close>

definition normalizeBase :: "string \<Rightarrow> string" where
  "normalizeBase base = toLowerCase (replaceNonAlnum base)"

definition findMatch :: "(string \<times> string) list \<Rightarrow> string \<Rightarrow> (string \<times> string) option" where
  "findMatch meta base = find (\<lambda>e. prefix base (snd e)) meta"

text \<open>The base name of a field of a form, from its id, name, data-testid or kind.\<close>

definition fieldBase :: "node \<Rightarrow> string" where
  "fieldBase el =
     (if tagName el = ''input'' then
        ''input_'' @ str (orElse (orElse (orElse (attr el ''id'') (attr el ''name''))
                                  (attr el ''data-testid'')) (Some (inputType el)))
      else if tagName el = ''select'' then
        ''select_'' @ str (orElse (orElse (orElse (attr el ''id'') (attr el ''name''))
                                   (attr el ''data-testid'')) (Some ''select''))
      else if tagName el = ''textarea'' then
        ''textarea_'' @ str (orElse (orElse (orElse (attr el ''id'') (attr el ''name''))
                                     (attr el ''data-testid'')) (Some ''textarea''))
      else [])"

text \<open>\<^verbatim>\<open>$form.find('input,select,textarea')\<close>, each matched against \<^verbatim>\<open>elementMeta\<close>.\<close>

definition formFields :: "(string \<times> string) list \<Rightarrow> node \<Rightarrow> (string \<times> string) list" where
  "formFields meta form =
     concat (map (\<lambda>el. case findMatch meta (normalizeBase (fieldBase el)) of
                          None \<Rightarrow> []
                        | Some m \<Rightarrow> [m])
       (findBelow form (\<lambda>n. tagName n = ''input'' \<or> tagName n = ''select'' \<or> tagName n = ''textarea'')))"

definition submitBase :: "node \<Rightarrow> string" where
  "submitBase el =
     (if tagName el = ''button'' then
        ''button_'' @ str (orElse (orElse (attr el ''id'')
                                   (Some (toLowerCase (replaceNonAlnum (trim (textContent el))))))
                           (Some ''submit''))
      else
        ''input_'' @ str (orElse (orElse (orElse (attr el ''id'') (attr el ''name''))
                                  (attr el ''data-testid'')) (Some ''submit'')))"

text \<open>
  \<^verbatim>\<open>$form.find('button[type="submit"],input[type="submit"]')\<close>: the last control with a
  match gives \<^verbatim>\<open>submitBtn\<close>, which is \<^verbatim>\<open>null\<close> (\<open>None\<close>) when there is none.
\<close>

definition submitButton :: "(string \<times> string) list \<Rightarrow> node \<Rightarrow> string option" where
  "submitButton meta form =
     foldl (\<lambda>submitBtn el. case findMatch meta (normalizeBase (submitBase el)) of
                               None \<Rightarrow> submitBtn
                             | Some m \<Rightarrow> Some (snd m))
       None
       (findBelow form (\<lambda>n. (tagName n = ''button'' \<or> tagName n = ''input'')
                             \<and> typeIs ''submit'' n))"

text \<open>
  \<^verbatim>\<open>cap(submitBtn)\<close> reads \<^verbatim>\<open>submitBtn.charAt\<close>, which throws a TypeError when
  \<^verbatim>\<open>submitBtn\<close> is \<^verbatim>\<open>null\<close>.
\<close>

definition requireSubmit :: "string option \<Rightarrow> js_error + string" where
  "requireSubmit submitBtn = (case submitBtn of None \<Rightarrow> Inl NullProperty | Some b \<Rightarrow> Inr b)"

text \<open>A loop whose body may throw: the first error ends it.\<close>

fun mapE :: "('a \<Rightarrow> js_error + 'b) \<Rightarrow> 'a list \<Rightarrow> js_error + 'b list" where
  "mapE f [] = Inr []"
| "mapE f (x # xs) =
     (case f x of
        Inl e \<Rightarrow> Inl e
      | Inr y \<Rightarrow> (case mapE f xs of Inl e \<Rightarrow> Inl e | Inr ys \<Rightarrow> Inr (y # ys)))"

text \<open>
  The tests of one form: the positive test when there are fields and a submit control, then
  for every field the test with the field left out, then for every field that is not a
  checkbox or radio button the two edge cases. The templates of the last two loops call
  \<^verbatim>\<open>cap(submitBtn)\<close> without a guard.
\<close>

definition negativeTest ::
  "(string \<times> string) list \<Rightarrow> string option \<Rightarrow> string \<times> string \<Rightarrow> js_error + testCase" where
  "negativeTest flds submitBtn f =
     (case requireSubmit submitBtn of
        Inl e \<Rightarrow> Inl e
      | Inr b \<Rightarrow>
          if isBoolean (fst f) then Inr (ErrorNotChecked (snd f) b)
          else Inr (ErrorEmpty flds (snd f) b))"

definition edgeTests :: "string option \<Rightarrow> string \<times> string \<Rightarrow> js_error + testCase list" where
  "edgeTests submitBtn f =
     (if \<not> isBoolean (fst f) then
        (case requireSubmit submitBtn of
           Inl e \<Rightarrow> Inl e
         | Inr b \<Rightarrow> Inr [LongInput (snd f) b, SpecialCharacters (snd f) b])
      else Inr [])"

definition formTestsOf :: "(string \<times> string) list \<Rightarrow> node \<Rightarrow> js_error + testCase list" where
  "formTestsOf meta form =
     (let flds = formFields meta form;
          submitBtn = submitButton meta form;
          positive = (if flds \<noteq> [] \<and> truthy submitBtn then [SubmitValid flds (str submitBtn)] else [])
      in case mapE (negativeTest flds submitBtn) flds of
           Inl e \<Rightarrow> Inl e
         | Inr negative \<Rightarrow>
             (case mapE (edgeTests submitBtn) flds of
                Inl e \<Rightarrow> Inl e
              | Inr edge \<Rightarrow> Inr (positive @ negative @ concat edge)))"

definition formTests :: "document \<Rightarrow> (string \<times> string) list \<Rightarrow> js_error + testCase list" where
  "formTests doc meta =
     (case mapE (formTestsOf meta) (selectTag doc ''form'') of
        Inl e \<Rightarrow> Inl e
      | Inr tss \<Rightarrow> Inr (concat tss))"

text \<open>
  \<^verbatim>\<open>/login\s*\(/.test(classCode)\<close>: somewhere in the text the word, then white space or
  nothing, then an opening parenthesis.
\<close>

definition wordParenAt :: "string \<Rightarrow> string \<Rightarrow> bool" where
  "wordParenAt w s =
     (prefix w s \<and> (case dropWhile isSpace (drop (length w) s) of [] \<Rightarrow> False | c # _ \<Rightarrow> c = CHR ''(''))"

fun wordParen :: "string \<Rightarrow> string \<Rightarrow> bool" where
  "wordParen w [] = wordParenAt w []"
| "wordParen w (c # cs) = (wordParenAt w (c # cs) \<or> wordParen w cs)"

definition loginWorkflowTests :: string where
  \<open>loginWorkflowTests =
     nl @ ''    describe('' @ sq @ ''Login Workflow'' @ sq @ '', () => {'' @ nl @
       ''        it('' @ sq @ ''should login with valid credentials'' @ sq @ '', () => {'' @ nl @
       ''            page.login('' @ sq @ ''validuser'' @ sq @ '', '' @ sq @ ''validpassword'' @
       sq @ '')'' @ nl @ ''            // Add assertions for successful login'' @ nl @
       ''        })'' @ nl @ ''        it('' @ sq @
       ''should show error with invalid credentials'' @ sq @ '', () => {'' @ nl @
       ''            page.login('' @ sq @ ''invaliduser'' @ sq @ '', '' @ sq @
       ''wrongpassword'' @ sq @ '')'' @ nl @ ''            // Add assertions for error'' @ nl @
       ''        })'' @ nl @ ''        it('' @ sq @ ''should show error with empty username'' @
       sq @ '', () => {'' @ nl @ ''            page.login('' @ sq @ sq @ '', '' @ sq @
       ''password'' @ sq @ '')'' @ nl @ ''            // Add assertions for error'' @ nl @
       ''        })'' @ nl @ ''        it('' @ sq @ ''should show error with empty password'' @
       sq @ '', () => {'' @ nl @ ''            page.login('' @ sq @ ''username'' @ sq @ '', '' @
       sq @ sq @ '')'' @ nl @ ''            // Add assertions for error'' @ nl @ ''        })'' @
       nl @ ''    })''\<close>

definition searchWorkflowTests :: string where
  \<open>searchWorkflowTests =
     nl @ ''    describe('' @ sq @ ''Search Workflow'' @ sq @ '', () => {'' @ nl @
       ''        it('' @ sq @ ''should search with valid query'' @ sq @ '', () => {'' @ nl @
       ''            page.search('' @ sq @ ''test query'' @ sq @ '')'' @ nl @
       ''            // Add assertions for search results'' @ nl @ ''        })'' @ nl @
       ''        it('' @ sq @ ''should handle empty search query'' @ sq @ '', () => {'' @ nl @
       ''            page.search('' @ sq @ sq @ '')'' @ nl @
       ''            // Add assertions for empty search'' @ nl @ ''        })'' @ nl @ ''    })''\<close>

definition registerWorkflowTests :: string where
  \<open>registerWorkflowTests =
     nl @ ''    describe('' @ sq @ ''Register Workflow'' @ sq @ '', () => {'' @ nl @
       ''        it('' @ sq @ ''should register with valid data'' @ sq @ '', () => {'' @ nl @
       ''            page.register('' @ sq @ ''user'' @ sq @ '', '' @ sq @
       ''email@example.com'' @ sq @ '', '' @ sq @ ''password'' @ sq @ '')'' @ nl @
       ''            // Add assertions for successful registration'' @ nl @ ''        })'' @ nl @
       ''        it('' @ sq @ ''should show error with invalid data'' @ sq @ '', () => {'' @ nl @
       ''            page.register('' @ sq @ sq @ '', '' @ sq @ sq @ '', '' @ sq @ sq @ '')'' @
       nl @ ''            // Add assertions for error'' @ nl @ ''        })'' @ nl @ ''    })''\<close>

definition workflowTests :: "string \<Rightarrow> string list" where
  "workflowTests code =
     (if wordParen ''login'' code then [loginWorkflowTests] else [])
     @ (if wordParen ''search'' code then [searchWorkflowTests] else [])
     @ (if wordParen ''register'' code then [registerWorkflowTests] else [])"

text \<open>
  The template of the test file, cut at its last hole: the text up to the workflow tests,
  the workflow tests joined by line feeds, and the end of the file.
\<close>

definition testFileBody ::
  "string \<Rightarrow> string \<Rightarrow> string \<Rightarrow> testCase list \<Rightarrow> testCase list \<Rightarrow> string" where
  \<open>testFileBody cn fn url ets fts =
     ''import { '' @ cn @ '' } from '' @ sq @ ''../pages/'' @ fn @ sq @ nl @ nl @ ''describe('' @
       sq @ cn @ '' Tests'' @ sq @ '', () => {'' @ nl @ ''    let page'' @ nl @
       ''    beforeEach(() => {'' @ nl @ ''        cy.visit('' @ sq @ url @ sq @ '')'' @ nl @
       ''        page = new '' @ cn @ ''()'' @ nl @ ''    })'' @ nl @ ''    describe('' @ sq @
       ''Element Interactions'' @ sq @ '', () => {'' @ nl @ join nl (map renderTest ets) @ nl @
       ''    })'' @ nl @ ''    describe('' @ sq @ ''Form Submission'' @ sq @ '', () => {'' @ nl @
       join nl (map renderTest fts) @ nl @ ''    })'' @ nl\<close>

definition renderTestFile ::
  "string \<Rightarrow> string \<Rightarrow> string \<Rightarrow> testCase list \<Rightarrow> testCase list \<Rightarrow> string list \<Rightarrow> string" where
  \<open>renderTestFile cn fn url ets fts wts =
     testFileBody cn fn url ets fts @ join nl wts @
       nl @ ''    // Add more negative/error/edge case tests as needed'' @ nl @ ''})''\<close>

text \<open>\<^verbatim>\<open>generateCypressTests($, pageObjectMeta, url)\<close>\<close>

definition generateCypressTests :: "document \<Rightarrow> pageObject \<Rightarrow> string \<Rightarrow> js_error + string" where
  "generateCypressTests doc pageObjectMeta url =
     (case formTests doc (elementMeta pageObjectMeta) of
        Inl e \<Rightarrow> Inl e
      | Inr fts \<Rightarrow>
          Inr (renderTestFile (className pageObjectMeta) (featureName pageObjectMeta) url
                 (elementTests (elementMeta pageObjectMeta)) fts
                 (workflowTests (classCode pageObjectMeta))))"

text \<open>The run of the tool \<^verbatim>\<open>createCypressFiles\<close>: the class, then the tests.\<close>

definition generateAll ::
  "platform \<Rightarrow> document \<Rightarrow> string \<Rightarrow> string option \<Rightarrow> js_error + (pageObject \<times> string)" where
  "generateAll P doc url customFeatureName =
     (case generatePageObjectClass_wf P doc url customFeatureName of
        Inl e \<Rightarrow> Inl e
      | Inr po \<Rightarrow>
          (case generateCypressTests doc po url of
             Inl e \<Rightarrow> Inl e
           | Inr tests \<Rightarrow> Inr (po, tests)))"


section \<open>The draft of version 1.0.0 (unnamed/part_000)\<close>
















text \<open>Whether a custom feature name is in the range of the case mapping.\<close>

definition nameInRange :: "string option \<Rightarrow> bool" where
  "nameInRange c = (case c of None \<Rightarrow> True | Some s \<Rightarrow> upperInRange s)"

section \<open>Example documents\<close>

definition exampleInput :: node where
  "exampleInput = Element ''input'' [(''id'', ''u1''), (''data-testid'', ''user'')] []"

text \<open>A button with a data-cy attribute and an id.\<close>

definition cyButton :: node where
  "cyButton = Element ''button'' [(''data-cy'', ''go''), (''id'', ''b'')] []"

text \<open>A platform for the examples: every URL parses to the same host and path.\<close>

definition examplePlatform :: platform where
  "examplePlatform =
     \<lparr>newURL = (\<lambda>url. Some \<lparr>hostname = ''shop.example'', pathname = ''/app/UserLogin''\<rparr>),
      stringify = (\<lambda>m. ''{}'')\<rparr>"

definition headingDoc :: document where
  "headingDoc = [Element ''body'' [] [Element ''h1'' [] [TextNode ''  Sign In! '']]]"

definition fiveButtons :: document where
  "fiveButtons = [Element ''div'' []
     [Element ''button'' [] [], Element ''button'' [] [], Element ''button'' [] [],
      Element ''button'' [] [], Element ''button'' [] []]]"

definition twoOkButtons :: document where
  "twoOkButtons = [Element ''button'' [] [TextNode ''OK''], Element ''button'' [] [TextNode ''OK'']]"

text \<open>A button whose label has a dot.\<close>

definition dotButton :: document where
  "dotButton = [Element ''button'' [] [TextNode ''a.b'']]"

definition buttonAndInput :: document where
  "buttonAndInput = [Element ''button'' [] [], Element ''input'' [] []]"



text \<open>The login form of the round-trip scenario.\<close>

definition loginDoc :: document where
  "loginDoc =
     [Element ''form'' []
        [Element ''input'' [(''data-testid'', ''user''), (''type'', ''text'')] [],
         Element ''input'' [(''type'', ''password'')] [],
         Element ''button'' [(''type'', ''submit'')] [TextNode ''Log in'']]]"

text \<open>A form with one field and no submit control.\<close>

definition noSubmitDoc :: document where
  "noSubmitDoc = [Element ''form'' [] [Element ''input'' [(''name'', ''email'')] []]]"

text \<open>A document without interactive elements.\<close>

definition plainDoc :: document where
  "plainDoc = [Element ''body'' [] [Element ''p'' [] [TextNode ''Nothing to click.'']]]"

section \<open>Lemmas on characters and strings\<close>

lemma case_tables_length:
  "length (lowers @ latinLowers) = length (uppers @ latinUppers)"
  by (simp add: lowers_def uppers_def latinLowers_def latinUppers_def)

lemma toUpperChar_cases: "toUpperChar c = c \<or> toUpperChar c \<in> set (uppers @ latinUppers)"
proof (cases "map_of (zip (lowers @ latinLowers) (uppers @ latinUppers)) c")
  case None
  then show ?thesis by (simp add: toUpperChar_def)
next
  case (Some u)
  then have "(c, u) \<in> set (zip (lowers @ latinLowers) (uppers @ latinUppers))"
    by (rule map_of_SomeD)
  then have "u \<in> set (uppers @ latinUppers)" by (rule set_zip_rightD)
  with Some show ?thesis by (simp add: toUpperChar_def)
qed

lemma toLowerChar_cases: "toLowerChar c = c \<or> toLowerChar c \<in> set (lowers @ latinLowers)"
proof (cases "map_of (zip (uppers @ latinUppers) (lowers @ latinLowers)) c")
  case None
  then show ?thesis by (simp add: toLowerChar_def)
next
  case (Some u)
  then have "(c, u) \<in> set (zip (uppers @ latinUppers) (lowers @ latinLowers))"
    by (rule map_of_SomeD)
  then have "u \<in> set (lowers @ latinLowers)" by (rule set_zip_rightD)
  with Some show ?thesis by (simp add: toLowerChar_def)
qed

lemma upper_not_sep: "c \<in> set (uppers @ latinUppers) \<Longrightarrow> \<not> isSep c"
  unfolding uppers_def latinUppers_def isSep_def isSpace_def by auto

lemma lower_not_sep: "c \<in> set (lowers @ latinLowers) \<Longrightarrow> \<not> isSep c"
  unfolding lowers_def latinLowers_def isSep_def isSpace_def by auto

lemma toUpperChar_not_sep: "\<not> isSep c \<Longrightarrow> \<not> isSep (toUpperChar c)"
  using toUpperChar_cases [of c] upper_not_sep by metis

lemma toLowerChar_not_sep: "\<not> isSep c \<Longrightarrow> \<not> isSep (toLowerChar c)"
  using toLowerChar_cases [of c] lower_not_sep by metis

lemma upper_alnum: "c \<in> set uppers \<Longrightarrow> isAlnum c"
  unfolding isAlnum_def by simp

lemma lower_alnum: "c \<in> set lowers \<Longrightarrow> isAlnum c"
  unfolding isAlnum_def by simp

lemma toUpperChar_other: "c \<notin> set (lowers @ latinLowers) \<Longrightarrow> toUpperChar c = c"
proof -
  assume "c \<notin> set (lowers @ latinLowers)"
  then have "map_of (zip (lowers @ latinLowers) (uppers @ latinUppers)) c = None"
    using map_of_zip_is_None [OF case_tables_length, of c] by simp
  then show ?thesis by (simp add: toUpperChar_def)
qed

lemma toLowerChar_other: "c \<notin> set (uppers @ latinUppers) \<Longrightarrow> toLowerChar c = c"
proof -
  assume "c \<notin> set (uppers @ latinUppers)"
  then have "map_of (zip (uppers @ latinUppers) (lowers @ latinLowers)) c = None"
    using map_of_zip_is_None [OF case_tables_length [symmetric], of c] by simp
  then show ?thesis by (simp add: toLowerChar_def)
qed

lemma toUpperChar_ascii: "list_all (\<lambda>p. toUpperChar (fst p) = snd p) (zip lowers uppers)"
  by (simp add: toUpperChar_def lowers_def uppers_def)

lemma toLowerChar_ascii: "list_all (\<lambda>p. toLowerChar (fst p) = snd p) (zip uppers lowers)"
  by (simp add: toLowerChar_def lowers_def uppers_def)

lemma toUpperChar_lower: "c \<in> set lowers \<Longrightarrow> toUpperChar c \<in> set uppers"
proof -
  assume "c \<in> set lowers"
  then obtain i where i: "i < length lowers" "lowers ! i = c" by (auto simp: in_set_conv_nth)
  have len: "length lowers = length uppers" by (simp add: lowers_def uppers_def)
  with i have "(c, uppers ! i) \<in> set (zip lowers uppers)"
    by (auto simp: set_zip)
  with toUpperChar_ascii have "toUpperChar c = uppers ! i" by (auto simp: list_all_iff)
  with i len show ?thesis by simp
qed

lemma toLowerChar_upper: "c \<in> set uppers \<Longrightarrow> toLowerChar c \<in> set lowers"
proof -
  assume "c \<in> set uppers"
  then obtain i where i: "i < length uppers" "uppers ! i = c" by (auto simp: in_set_conv_nth)
  have len: "length lowers = length uppers" by (simp add: lowers_def uppers_def)
  with i have "(c, lowers ! i) \<in> set (zip uppers lowers)"
    by (auto simp: set_zip)
  with toLowerChar_ascii have "toLowerChar c = lowers ! i" by (auto simp: list_all_iff)
  with i len show ?thesis by simp
qed

lemma alnum_not_latin: "isAlnum c \<Longrightarrow> c \<notin> set latinLowers \<and> c \<notin> set latinUppers"
  unfolding isAlnum_def lowers_def uppers_def digits_def latinLowers_def latinUppers_def by auto

lemma toUpperChar_alnum: "isAlnum c \<Longrightarrow> isAlnum (toUpperChar c)"
proof (cases "c \<in> set lowers")
  case True
  then show ?thesis by (simp add: toUpperChar_lower upper_alnum)
next
  case False
  assume "isAlnum c"
  with False alnum_not_latin [of c] have "toUpperChar c = c" by (simp add: toUpperChar_other)
  with \<open>isAlnum c\<close> show ?thesis by simp
qed

lemma toLowerChar_alnum: "isAlnum c \<Longrightarrow> isAlnum (toLowerChar c)"
proof (cases "c \<in> set uppers")
  case True
  then show ?thesis by (simp add: toLowerChar_upper lower_alnum)
next
  case False
  assume "isAlnum c"
  with False alnum_not_latin [of c] have "toLowerChar c = c" by (simp add: toLowerChar_other)
  with \<open>isAlnum c\<close> show ?thesis by simp
qed

lemma lowers_not_uppers: "c \<in> set (lowers @ latinLowers) \<Longrightarrow> c \<notin> set (uppers @ latinUppers)"
  unfolding lowers_def uppers_def latinLowers_def latinUppers_def by auto

lemma toLowerChar_not_upper: "toLowerChar c \<notin> set (uppers @ latinUppers)"
proof (cases "map_of (zip (uppers @ latinUppers) (lowers @ latinLowers)) c")
  case None
  then have "c \<notin> set (uppers @ latinUppers)"
    using map_of_zip_is_None [OF case_tables_length [symmetric], of c] by simp
  then show ?thesis by (simp add: toLowerChar_other)
next
  case (Some l)
  then have "(c, l) \<in> set (zip (uppers @ latinUppers) (lowers @ latinLowers))"
    by (rule map_of_SomeD)
  then have "l \<in> set (lowers @ latinLowers)" by (rule set_zip_rightD)
  then have "l \<notin> set (uppers @ latinUppers)" by (rule lowers_not_uppers)
  with Some show ?thesis by (simp add: toLowerChar_def)
qed

lemma camelReplace_no_sep: "list_all (\<lambda>c. \<not> isSep c) (camelReplace s)"
proof (induction s rule: camelReplace.induct)
  case 1
  show ?case by simp
next
  case (2 c cs)
  show ?case
  proof (cases "isSep c")
    case False
    with 2 show ?thesis by simp
  next
    case True
    show ?thesis
    proof (cases "dropWhile isSep cs")
      case Nil
      show ?thesis by (simp add: True Nil)
    next
      case (Cons d ds)
      then have "\<not> isSep d"
        using hd_dropWhile [of isSep cs] by simp
      with True Cons 2 show ?thesis by (simp add: toUpperChar_not_sep)
    qed
  qed
qed

lemma camelReplace_alnum:
  "list_all (\<lambda>c. isAlnum c \<or> isSep c) s \<Longrightarrow> list_all isAlnum (camelReplace s)"
proof (induction s rule: camelReplace.induct)
  case 1
  show ?case by simp
next
  case (2 c cs)
  show ?case
  proof (cases "isSep c")
    case False
    with 2 show ?thesis by simp
  next
    case True
    show ?thesis
    proof (cases "dropWhile isSep cs")
      case Nil
      show ?thesis by (simp add: True Nil)
    next
      case (Cons d ds)
      then have nd: "\<not> isSep d"
        using hd_dropWhile [of isSep cs] by simp
      have "set (d # ds) \<subseteq> set cs"
        using set_dropWhileD [of _ isSep cs] Cons by auto
      with "2.prems" have all: "list_all (\<lambda>c. isAlnum c \<or> isSep c) (d # ds)"
        by (auto simp: list_all_iff)
      with nd have "isAlnum d" by simp
      with True Cons 2 all show ?thesis by (simp add: toUpperChar_alnum)
    qed
  qed
qed

lemma lowerFirst_no_sep:
  "list_all (\<lambda>c. \<not> isSep c) s \<Longrightarrow> list_all (\<lambda>c. \<not> isSep c) (lowerFirst s)"
  unfolding lowerFirst_def by (cases s) (simp_all add: toLowerChar_not_sep)

lemma lowerFirst_alnum: "list_all isAlnum s \<Longrightarrow> list_all isAlnum (lowerFirst s)"
  unfolding lowerFirst_def by (cases s) (simp_all add: toLowerChar_alnum)

lemma camelReplace_word: "list_all (\<lambda>c. \<not> isSep c) w \<Longrightarrow> camelReplace (w @ s) = w @ camelReplace s"
  by (induction w) simp_all

lemma dropWhile_run: "list_all P r \<Longrightarrow> dropWhile P (r @ s) = dropWhile P s"
  by (induction r) simp_all

lemma camelReplace_run_end: "r \<noteq> [] \<Longrightarrow> list_all isSep r \<Longrightarrow> camelReplace r = []"
proof (cases r)
  case Nil
  assume "r \<noteq> []"
  with Nil show ?thesis by simp
next
  case (Cons c cs)
  assume "list_all isSep r"
  with Cons have c: "isSep c" and cs: "list_all isSep cs" by simp_all
  from cs have d: "dropWhile isSep cs = []" by (simp add: list_all_iff)
  show ?thesis by (simp add: Cons c d)
qed

lemma camelReplace_run:
  assumes "r \<noteq> []" and "list_all isSep r" and "\<not> isSep c"
  shows "camelReplace (r @ c # rest) = toUpperChar c # camelReplace rest"
proof (cases r)
  case Nil
  with assms show ?thesis by simp
next
  case (Cons x xs)
  with assms have x: "isSep x" and xs: "list_all isSep xs" by simp_all
  from xs assms(3) have "dropWhile isSep (xs @ c # rest) = c # rest"
    by (simp add: dropWhile_run)
  with Cons x show ?thesis by simp
qed

section \<open>Values that are a string or undefined\<close>

lemma truthy_Some [simp]: "truthy (Some s) = (s \<noteq> [])" by (simp add: truthy_def)
lemma truthy_None [simp]: "truthy None = False" by (simp add: truthy_def)
lemma str_Some [simp]: "str (Some s) = s" by (simp add: str_def)

lemma case_if_Some:
  "(case (if c then Some a else b) of None \<Rightarrow> g | Some s \<Rightarrow> f s) =
   (if c then f a else (case b of None \<Rightarrow> g | Some s \<Rightarrow> f s))"
  by simp

section \<open>Identifier synthesis (C8)\<close>

lemmas camel_eval =
  toCamelCase_def lowerFirst_def isSep_def isSpace_def toUpperChar_def toLowerChar_def
  latinLowers_def latinUppers_def isLineTerminator_def lowers_def uppers_def

text \<open>
  C8: \<^verbatim>\<open>toCamelCase\<close>, the utility "to convert any string to camelCase", takes hyphens,
  underscores and white space as word boundaries and nothing else: a dot, a slash or an
  exclamation mark of the raw label stays in the identifier. A button with the text
  \<open>a.b\<close> gets the key \<open>buttonA.b\<close> in the locator map and the method
  \<^verbatim>\<open>clickButtonA.b()\<close>, which is no identifier. The generator of version 1.0.0
  replaces every character outside \<^verbatim>\<open>a-zA-Z0-9\<close> and names the same button
  \<open>button_a_b\<close>.
\<close>

theorem c8_dot_kept:
  \<open>toCamelCase ''button a.b'' = ''buttonA.b''
   \<and> \<not> list_all isAlnum (toCamelCase ''button a.b'')
   \<and> toCamelCase ''link /a/b!'' = ''link/a/b!''
   \<and> elements (genLoops dotButton) = [(''buttonA.b'', ''cy.contains('button', 'a.b')'')]
   \<and> map renderElement (elements (genLoops dotButton))
       = [''    buttonA.b: () => cy.contains('button', 'a.b')'']
   \<and> map renderMethod (interactionMethods (genLoops dotButton))
       = [''    clickButtonA.b() { return this.#elements.buttonA.b().click() }'']
   \<and> map fst (elements (genLoops_wf dotButton)) = [''button_a_b'']\<close>
proof -
  have c: "toCamelCase ''button a.b'' = ''buttonA.b''"
    by (simp add: camel_eval)
  have n: "\<not> list_all isAlnum ''buttonA.b''"
    by (simp add: isAlnum_def lowers_def uppers_def digits_def)
  have l: "toCamelCase ''link /a/b!'' = ''link/a/b!''"
    by (simp add: camel_eval)
  have sel: "selectTag dotButton ''button'' = dotButton"
    "selectTag dotButton ''input'' = []" "selectTag dotButton ''a'' = []"
    "selectTag dotButton ''select'' = []" "selectTag dotButton ''textarea'' = []"
    by (simp_all add: selectTag_def allNodes_def dotButton_def)
  have loc: \<open>buttonLocator k (Element ''button'' [] [TextNode ''a.b''])
      = \<lparr>locator = ''cy.contains('button', 'a.b')'', rawName = ''button a.b''\<rparr>\<close> for k
    by (simp add: buttonLocator_def Let_def trim_def isSpace_def sq_def)
  have st: \<open>genLoops dotButton
      = \<lparr>elements = [(''buttonA.b'', ''cy.contains('button', 'a.b')'')], getters = [],
         valueGetters = [(GetText, ''buttonA.b'')], interactionMethods = [(Click, ''buttonA.b'')],
         metaAcc = [], elementCounter = 2\<rparr>\<close>
    unfolding genLoops_def sel
    by (simp add: dotButton_def buttonStep_def Let_def initState_def loc c)
  have e: \<open>map renderElement (elements (genLoops dotButton))
       = [''    buttonA.b: () => cy.contains('button', 'a.b')'']\<close>
    unfolding st by (simp add: renderElement_def)
  have m: \<open>map renderMethod (interactionMethods (genLoops dotButton))
       = [''    clickButtonA.b() { return this.#elements.buttonA.b().click() }'']\<close>
    unfolding st by (simp add: renderMethod_def cap_def toUpperChar_def lowers_def uppers_def)
  have w: "buttonEntry_wf k (Element ''button'' [] [TextNode ''a.b''])
      = (''button_a_b'', ''cy.contains('' @ sq @ ''button'' @ sq @ '', '' @ sq @ ''a.b'' @ sq @ '')'')" for k
    by (simp add: buttonEntry_wf_def Let_def trim_def isSpace_def toLowerCase_def
        replaceNonAlnum_def isAlnum_def toLowerChar_def latinLowers_def latinUppers_def
        lowers_def uppers_def digits_def sq_def)
  have wf: "map fst (elements (genLoops_wf dotButton)) = [''button_a_b'']"
    unfolding genLoops_wf_def sel
    by (simp add: dotButton_def buttonStep_wf_def Let_def initState_def w)
  from c n l st e m wf show ?thesis by simp
qed

section \<open>Locator priority (C2)\<close>

lemma resolve_eq:
  "getLocatorAndRawName el tag extraType extraIndex = resolveByPriority el tag extraType extraIndex"
proof -
  consider "tag = ''input''" | "tag = ''select''" | "tag = ''textarea''" | "tag = ''button''"
    | "tag = ''a''" | "tag \<notin> {''input'', ''select'', ''textarea'', ''button'', ''a''}"
    by blast
  then show ?thesis
    unfolding getLocatorAndRawName_def resolveByPriority_def priorityOrder_def Let_def
    by cases (simp_all add: positionalFallback_def categoryName_def sq_def case_if_Some
        split: option.split)
qed

text \<open>
  C2: the order data-cy, data-test, data-testid, id, ... is the order of
  \<^verbatim>\<open>getLocatorAndRawName\<close> (version 1.0.21), which is the resolver of the specification
  (\<open>resolve_eq\<close>). The chains written out in the loops of src/index.js read data-testid, id
  and the fallbacks of the category, and never data-cy or data-test: a button with the
  attributes data-cy \<open>go\<close> and id \<open>b\<close> is located by its id and named after it, where the
  priority order gives the data-cy locator.
\<close>

theorem c2_data_cy_ignored:
  \<open>resolveByPriority cyButton ''button'' None (Some 0)
     = \<lparr>locator = ''cy.get('[data-cy="go"]')'', rawName = ''button go''\<rparr>
   \<and> getLocatorAndRawName cyButton ''button'' None (Some 0)
     = \<lparr>locator = ''cy.get('[data-cy="go"]')'', rawName = ''button go''\<rparr>
   \<and> buttonLocator 1 cyButton = \<lparr>locator = ''cy.get('#b')'', rawName = ''button b''\<rparr>
   \<and> elements (genLoops [cyButton]) = [(''buttonB'', ''cy.get('#b')'')]
   \<and> locator (inputLocator 1 (Element ''input'' [(''data-test'', ''q''), (''name'', ''query'')] []))
     = ''cy.get('input[name="query"]')''
   \<and> locator (resolveByPriority (Element ''input'' [(''data-test'', ''q''), (''name'', ''query'')] [])
        ''input'' (Some ''text'') (Some 0))
     = ''cy.get('[data-test="q"]')''\<close>
proof -
  have g: \<open>getLocatorAndRawName cyButton ''button'' None (Some 0)
     = \<lparr>locator = ''cy.get('[data-cy="go"]')'', rawName = ''button go''\<rparr>\<close>
    by (simp add: getLocatorAndRawName_def cyButton_def)
  have r: \<open>resolveByPriority cyButton ''button'' None (Some 0)
     = \<lparr>locator = ''cy.get('[data-cy="go"]')'', rawName = ''button go''\<rparr>\<close>
    by (simp add: resolveByPriority_def priorityOrder_def cyButton_def)
  have b: \<open>buttonLocator k cyButton = \<lparr>locator = ''cy.get('#b')'', rawName = ''button b''\<rparr>\<close> for k
    by (simp add: buttonLocator_def Let_def cyButton_def sq_def)
  have c: "toCamelCase ''button b'' = ''buttonB''"
    by (simp add: camel_eval)
  have sel: "selectTag [cyButton] ''button'' = [cyButton]"
    "selectTag [cyButton] ''input'' = []" "selectTag [cyButton] ''a'' = []"
    "selectTag [cyButton] ''select'' = []" "selectTag [cyButton] ''textarea'' = []"
    by (simp_all add: selectTag_def allNodes_def cyButton_def)
  have e: \<open>elements (genLoops [cyButton]) = [(''buttonB'', ''cy.get('#b')'')]\<close>
    unfolding genLoops_def sel
    by (simp add: buttonStep_def Let_def initState_def b c)
  have i: \<open>locator (inputLocator 1 (Element ''input'' [(''data-test'', ''q''), (''name'', ''query'')] []))
     = ''cy.get('input[name="query"]')''\<close>
    by (simp add: inputLocator_def Let_def)
  have ri: \<open>locator (resolveByPriority (Element ''input'' [(''data-test'', ''q''), (''name'', ''query'')] [])
        ''input'' (Some ''text'') (Some 0))
     = ''cy.get('[data-test="q"]')''\<close>
    by (simp add: resolveByPriority_def priorityOrder_def)
  from g r b [of 1] e i ri show ?thesis by simp
qed

section \<open>Feature name (C10)\<close>

lemma firstKeyword_find: "firstKeyword ks s = find (\<lambda>k. includesStr s k) ks"
  by (induction ks) simp_all

lemma find_map_Pair:
  "find P (map (Pair p) ks) = map_option (Pair p) (find (\<lambda>k. P (p, k)) ks)"
  by (induction ks) simp_all

lemma find_append_case:
  "find P (xs @ ys) = (case find P xs of Some x \<Rightarrow> Some x | None \<Rightarrow> find P ys)"
  by (induction xs) simp_all

lemma scanParts_find:
  "scanParts parts =
     map_option snd (find (\<lambda>(part, k). includesStr (toLowerCase part) k) (List.product parts keywordList))"
  by (induction parts)
     (simp_all add: firstKeyword_find find_append_case find_map_Pair split: option.split)

lemma urlCandidate_eq:
  "(case scanParts (pathParts u) of
      Some k \<Rightarrow> Inr k
    | None \<Rightarrow>
        (case firstKeyword keywordList (toLowerCase (hostname u)) of
           Some k \<Rightarrow> Inr k
         | None \<Rightarrow>
             (case pathParts u of
                p # _ \<Rightarrow> Inr (sanitizeFeatureName p)
              | [] \<Rightarrow> Inr ''page''))) = (Inr (urlCandidate u) :: js_error + string)"
  unfolding urlCandidate_def scanParts_find firstKeyword_find
  by (simp split: option.split list.split prod.split)

lemma getFeatureName_eq: "getFeatureName P doc url = featureNameByPriority P doc url"
proof -
  have "truthy v \<Longrightarrow> (case v of None \<Rightarrow> [] | Some s \<Rightarrow> s) = str v \<and> str v \<noteq> []" for v
    by (cases v) simp_all
  moreover have "\<not> truthy v \<Longrightarrow> (case v of None \<Rightarrow> [] | Some s \<Rightarrow> s) = []" for v
    by (cases v) simp_all
  ultimately show ?thesis
    unfolding getFeatureName_def featureNameByPriority_def documentCandidates_def Let_def
      urlCandidate_eq [symmetric]
    by (simp split: option.split)
qed


lemma collapseRuns_chars: "list_all (\<lambda>c. isLowerAlnum c \<or> c = CHR ''_'') (collapseRuns s)"
  by (induction s rule: collapseRuns.induct) simp_all

lemma strip_end_append:
  "rev (dropWhile P (rev ys)) @ rev (takeWhile P (rev ys)) = ys"
proof -
  have "rev (dropWhile P (rev ys)) @ rev (takeWhile P (rev ys))
          = rev (takeWhile P (rev ys) @ dropWhile P (rev ys))"
    by (simp only: rev_append)
  also have "\<dots> = rev (rev ys)" by (simp only: takeWhile_dropWhile_id)
  also have "\<dots> = ys" by simp
  finally show ?thesis .
qed

lemma strip_end_set: "set (rev (dropWhile P (rev ys))) \<subseteq> set ys"
  by (auto dest: set_dropWhileD)

lemma strip_end_hd:
  assumes "rev (dropWhile P (rev ys)) = c # cs"
  shows "\<exists>ys'. ys = c # ys'"
proof -
  have "(c # cs) @ rev (takeWhile P (rev ys)) = ys"
    using strip_end_append [of P ys] by (simp only: assms)
  then have "ys = c # (cs @ rev (takeWhile P (rev ys)))" by simp
  then show ?thesis by (rule exI)
qed

lemma strip_end_last:
  assumes "rev (rev (dropWhile P (rev ys))) = c # cs"
  shows "\<not> P c"
proof -
  from assms have "dropWhile P (rev ys) = c # cs" by simp
  then show ?thesis using hd_dropWhile [of P "rev ys"] by simp
qed

lemma dropWhile_first:
  assumes "dropWhile P s = c # cs"
  shows "\<not> P c"
  using assms hd_dropWhile [of P s] by simp

lemma stripUnderscores_snake:
  assumes "list_all (\<lambda>c. isLowerAlnum c \<or> c = CHR ''_'') s"
  shows "isSnakeCase (stripUnderscores s)"
proof -
  define ys where "ys = dropWhile (\<lambda>c. c = CHR ''_'') s"
  define r where "r = rev (dropWhile (\<lambda>c. c = CHR ''_'') (rev ys))"
  have "set r \<subseteq> set ys" unfolding r_def by (rule strip_end_set)
  moreover have "set ys \<subseteq> set s" unfolding ys_def by (auto dest: set_dropWhileD)
  ultimately have "set r \<subseteq> set s" by (rule subset_trans)
  with assms have chars: "list_all (\<lambda>c. isLowerAlnum c \<or> c = CHR ''_'') r"
    unfolding list_all_iff by blast
  have first: "case r of [] \<Rightarrow> True | c # _ \<Rightarrow> c \<noteq> CHR ''_''"
  proof (cases r)
    case Nil
    then show ?thesis by simp
  next
    case (Cons c cs)
    then obtain ys' where "ys = c # ys'"
      using strip_end_hd [of "\<lambda>c. c = CHR ''_''" ys c cs] unfolding r_def by blast
    then have "c \<noteq> CHR ''_''"
      using dropWhile_first [of "\<lambda>c. c = CHR ''_''" s c ys'] unfolding ys_def by simp
    with Cons show ?thesis by simp
  qed
  have last: "case rev r of [] \<Rightarrow> True | c # _ \<Rightarrow> c \<noteq> CHR ''_''"
  proof (cases "rev r")
    case Nil
    then show ?thesis by simp
  next
    case (Cons c cs)
    then have "c \<noteq> CHR ''_''"
      using strip_end_last [of "\<lambda>c. c = CHR ''_''" ys c cs] unfolding r_def by blast
    with Cons show ?thesis by simp
  qed
  have "stripUnderscores s = r" unfolding stripUnderscores_def r_def ys_def ..
  with chars first last show ?thesis
    unfolding isSnakeCase_def by simp
qed

lemma sanitize_snake: "isSnakeCase (sanitizeFeatureName s)"
  unfolding sanitizeFeatureName_def by (rule stripUnderscores_snake) (rule collapseRuns_chars)

lemma keywords_snake_all: "list_all isSnakeCase keywordList"
  unfolding keywordList_def
  by (simp add: isSnakeCase_def isLowerAlnum_def lowers_def digits_def)

lemma keywords_snake: "k \<in> set keywordList \<Longrightarrow> isSnakeCase k"
  using keywords_snake_all by (simp add: list_all_iff)

lemma find_in_set: "find P xs = Some x \<Longrightarrow> x \<in> set xs"
  by (induction xs) (auto split: if_splits)

lemma urlCandidate_snake: "isSnakeCase (urlCandidate u)"
proof -
  have page: "isSnakeCase ''page''"
    by (simp add: isSnakeCase_def isLowerAlnum_def lowers_def digits_def)
  have prod: "find Q (List.product ps keywordList) = Some (p, k) \<Longrightarrow> isSnakeCase k" for Q ps p k
    using find_in_set [of Q "List.product ps keywordList" "(p, k)"] keywords_snake by auto
  have host: "find R keywordList = Some k \<Longrightarrow> isSnakeCase k" for R k
    using find_in_set [of R keywordList k] keywords_snake by auto
  have path: "isSnakeCase (case ps of [] \<Rightarrow> ''page'' | p # _ \<Rightarrow> sanitizeFeatureName p)" for ps
    by (cases ps) (simp_all add: page sanitize_snake)
  show ?thesis
    unfolding urlCandidate_def
    by (auto split: option.split prod.split simp: path dest: prod host)
qed

lemma featureNameByPriority_snake:
  assumes "featureNameByPriority P doc url = Inr f"
  shows "isSnakeCase f"
proof (cases "find (\<lambda>s. s \<noteq> []) (documentCandidates doc)")
  case (Some s)
  with assms have "f = sanitizeFeatureName s" by (simp add: featureNameByPriority_def)
  then show ?thesis by (simp add: sanitize_snake)
next
  case None
  show ?thesis
  proof (cases "newURL P url")
    case (Some u)
    with None assms have "f = urlCandidate u" by (simp add: featureNameByPriority_def)
    then show ?thesis by (simp add: urlCandidate_snake)
  next
    case n: None
    with None assms show ?thesis by (simp add: featureNameByPriority_def)
  qed
qed

text \<open>
  C10: the feature name is the first candidate that is not empty among the name or id of
  the form, the legend of the form, the first h1, the first h2 and the title,
  lower-snake-cased; when all are empty it is the first keyword of the vocabulary found in
  a URL path segment, then in the host name, then the first path segment
  (lower-snake-cased), then \<open>page\<close>. The result is in lower snake case.
\<close>

theorem c10_feature_name:
  "getFeatureName P doc url = featureNameByPriority P doc url
   \<and> (getFeatureName P doc url = Inr f \<longrightarrow> isSnakeCase f)"
proof (intro conjI impI)
  show "getFeatureName P doc url = featureNameByPriority P doc url"
    by (rule getFeatureName_eq)
next
  assume "getFeatureName P doc url = Inr f"
  then have "featureNameByPriority P doc url = Inr f" by (simp only: getFeatureName_eq)
  then show "isSnakeCase f" by (rule featureNameByPriority_snake)
qed


lemma headingDoc_h1: "firstText (selectTag headingDoc ''h1'') = ''Sign In!''"
  by (simp add: selectTag_def allNodes_def firstText_def headingDoc_def trim_def isSpace_def)

lemma headingDoc_none:
  "selectTag headingDoc ''form'' = []" "selectDescendant headingDoc ''form'' ''legend'' = []"
  by (simp_all add: selectTag_def allNodes_def selectDescendant_def headingDoc_def)

lemma firstText_Nil: "firstText [] = []"
  by (simp add: firstText_def)

lemma sanitize_sign_in: "sanitizeFeatureName ''Sign In!'' = ''sign_in''"
  by (simp add: sanitizeFeatureName_def toLowerCase_def toLowerChar_def latinLowers_def latinUppers_def lowers_def uppers_def
      digits_def isLowerAlnum_def stripUnderscores_def)

theorem c10_feature_name_witness:
  "getFeatureName examplePlatform headingDoc ''https://shop.example/app/UserLogin'' = Inr ''sign_in''
   \<and> featureNameByPriority examplePlatform headingDoc ''https://shop.example/app/UserLogin'' = Inr ''sign_in''
   \<and> isSnakeCase ''sign_in''"
proof -
  have a: "getFeatureName examplePlatform headingDoc ''https://shop.example/app/UserLogin'' = Inr ''sign_in''"
    by (simp add: getFeatureName_def headingDoc_h1 headingDoc_none firstAttr_def firstText_Nil
        orElse_def sanitize_sign_in Let_def)
  from c10_feature_name [of examplePlatform headingDoc "''https://shop.example/app/UserLogin''" "''sign_in''"]
  have "featureNameByPriority examplePlatform headingDoc ''https://shop.example/app/UserLogin'' = Inr ''sign_in''"
    and "isSnakeCase ''sign_in''"
    unfolding a by simp_all
  with a show ?thesis by simp
qed

section \<open>Decimal numerals\<close>

lemma digitValue_all: "list_all (\<lambda>n. digitValue (digits ! n) = n) [0..<10]"
  by (simp add: upt_rec digitValue_def digits_def)

lemma digitValue_digit: "n < 10 \<Longrightarrow> digitValue (digits ! n) = n"
  using digitValue_all by (simp add: list_all_iff)

lemma digit_in_digits: "n < 10 \<Longrightarrow> digits ! n \<in> set digits"
proof -
  assume "n < 10"
  moreover have "length digits = 10" by (simp add: digits_def)
  ultimately show ?thesis by (simp only: nth_mem)
qed

lemma digit_not_sep: "c \<in> set digits \<Longrightarrow> \<not> isSep c"
  by (auto simp: digits_def isSep_def isSpace_def)

lemma digit_not_lower: "c \<in> set digits \<Longrightarrow> c \<notin> set (lowers @ latinLowers)"
  unfolding digits_def lowers_def latinLowers_def by auto

lemma digit_upper: "c \<in> set digits \<Longrightarrow> toUpperChar c = c"
  by (rule toUpperChar_other) (rule digit_not_lower)

lemma showNat_digits: "set (showNat n) \<subseteq> set digits"
proof (induction n rule: showNat.induct)
  case (1 n)
  show ?case
  proof (cases "n < 10")
    case True
    then show ?thesis by (simp add: showNat.simps [of n] digit_in_digits)
  next
    case False
    with 1 show ?thesis by (simp add: showNat.simps [of n] digit_in_digits)
  qed
qed

lemma showNat_nonempty: "showNat n \<noteq> []"
  by (simp add: showNat.simps [of n])

lemma readNat_snoc: "readNat (s @ [c]) = 10 * readNat s + digitValue c"
  by (simp add: readNat_def)

lemma readNat_showNat: "readNat (showNat n) = n"
proof (induction n rule: showNat.induct)
  case (1 n)
  show ?case
  proof (cases "n < 10")
    case True
    then show ?thesis by (simp add: showNat.simps [of n] readNat_def digitValue_digit)
  next
    case False
    with 1 have "readNat (showNat (n div 10)) = n div 10" by simp
    with False show ?thesis
      by (simp add: showNat.simps [of n] readNat_snoc digitValue_digit)
  qed
qed

lemma showNat_inj: "showNat m = showNat n \<Longrightarrow> m = n"
  by (metis readNat_showNat)

section \<open>Positional names\<close>

lemma camel_button_number: "toCamelCase (''button '' @ showNat k) = ''button'' @ showNat k"
proof -
  obtain d ds where s: "showNat k = d # ds"
    using showNat_nonempty [of k] by (cases "showNat k") auto
  have dig: "set (d # ds) \<subseteq> set digits" using showNat_digits [of k] by (simp only: s)
  then have d: "\<not> isSep d" "toUpperChar d = d" by (simp_all add: digit_not_sep digit_upper)
  from dig have "list_all (\<lambda>c. \<not> isSep c) ds" by (auto simp: list_all_iff digit_not_sep)
  then have ds: "camelReplace ds = ds" using camelReplace_word [of ds "[]"] by simp
  have b: "list_all (\<lambda>c. \<not> isSep c) ''button''" by (simp add: isSep_def isSpace_def)
  have sp: "isSep CHR '' ''" by (simp add: isSep_def isSpace_def)
  have "camelReplace (''button'' @ CHR '' '' # d # ds) = ''button'' @ camelReplace (CHR '' '' # d # ds)"
    using b by (rule camelReplace_word)
  also have "camelReplace (CHR '' '' # d # ds) = d # ds"
    using sp d ds by simp
  finally have "camelReplace (''button '' @ showNat k) = ''button'' @ showNat k"
    by (simp add: s)
  then show ?thesis
    by (simp add: toCamelCase_def lowerFirst_def isLineTerminator_def toLowerChar_def latinLowers_def latinUppers_def uppers_def lowers_def)
qed

section \<open>The loops of src/index.js\<close>

lemma buttonStep_elements:
  "elements (buttonStep st el) =
     elements st @ [(toCamelCase (rawName (buttonLocator (elementCounter st) el)),
                     locator (buttonLocator (elementCounter st) el))]"
  by (simp add: buttonStep_def Let_def)

lemma buttonStep_counter: "elementCounter (buttonStep st el) = elementCounter st + 1"
  by (simp add: buttonStep_def Let_def)

lemma button_fold:
  "elements (foldl buttonStep st bs) =
     elements st @ map (\<lambda>i. (toCamelCase (rawName (buttonLocator (elementCounter st + i) (bs ! i))),
                              locator (buttonLocator (elementCounter st + i) (bs ! i)))) [0..<length bs]
   \<and> elementCounter (foldl buttonStep st bs) = elementCounter st + length bs"
proof (induction bs rule: rev_induct)
  case Nil
  show ?case by simp
next
  case (snoc b bs)
  have "map (\<lambda>i. (toCamelCase (rawName (buttonLocator (elementCounter st + i) ((bs @ [b]) ! i))),
                  locator (buttonLocator (elementCounter st + i) ((bs @ [b]) ! i)))) [0..<length bs]
      = map (\<lambda>i. (toCamelCase (rawName (buttonLocator (elementCounter st + i) (bs ! i))),
                  locator (buttonLocator (elementCounter st + i) (bs ! i)))) [0..<length bs]"
    by (rule map_cong) (simp_all add: nth_append)
  with snoc show ?case
    by (simp add: buttonStep_elements buttonStep_counter)
qed

lemma fold_elements_extend:
  assumes "\<And>st el. \<exists>r. elements (f st el) = elements st @ r"
  shows "\<exists>r. elements (foldl f st xs) = elements st @ r"
proof (induction xs arbitrary: st)
  case Nil
  show ?case by simp
next
  case (Cons x xs)
  obtain r1 where r1: "elements (f st x) = elements st @ r1" using assms by blast
  obtain r2 where "elements (foldl f (f st x) xs) = elements (f st x) @ r2"
    using Cons by blast
  with r1 have "elements (foldl f st (x # xs)) = elements st @ (r1 @ r2)" by simp
  then show ?case by blast
qed

lemma inputStep_extend: "\<exists>r. elements (inputStep st el) = elements st @ r"
  by (simp add: inputStep_def Let_def)

lemma linkStep_extend: "\<exists>r. elements (linkStep st el) = elements st @ r"
  by (simp add: linkStep_def Let_def)

lemma selectStep_extend: "\<exists>r. elements (selectStep st el) = elements st @ r"
  by (simp add: selectStep_def Let_def)

lemma textareaStep_extend: "\<exists>r. elements (textareaStep st el) = elements st @ r"
  by (simp add: textareaStep_def Let_def)

lemma genLoops_buttons_first:
  "\<exists>r. elements (genLoops doc) = elements (foldl buttonStep initState (selectTag doc ''button'')) @ r"
proof -
  let ?s1 = "foldl buttonStep initState (selectTag doc ''button'')"
  let ?s2 = "foldl inputStep ?s1 (selectTag doc ''input'')"
  let ?s3 = "foldl linkStep ?s2 (selectTag doc ''a'')"
  let ?s4 = "foldl selectStep ?s3 (selectTag doc ''select'')"
  obtain r2 where r2: "elements ?s2 = elements ?s1 @ r2"
    using fold_elements_extend [of inputStep, OF inputStep_extend] by blast
  obtain r3 where r3: "elements ?s3 = elements ?s2 @ r3"
    using fold_elements_extend [of linkStep, OF linkStep_extend] by blast
  obtain r4 where r4: "elements ?s4 = elements ?s3 @ r4"
    using fold_elements_extend [of selectStep, OF selectStep_extend] by blast
  obtain r5 where r5: "elements (foldl textareaStep ?s4 (selectTag doc ''textarea'')) = elements ?s4 @ r5"
    using fold_elements_extend [of textareaStep, OF textareaStep_extend] by blast
  have "elements (genLoops doc) = elements ?s1 @ (r2 @ r3 @ r4 @ r5)"
    unfolding genLoops_def by (simp add: r2 r3 r4 r5)
  then show ?thesis by blast
qed

lemma genLoops_button_ids:
  "\<exists>r. map fst (elements (genLoops doc)) =
     map (\<lambda>i. toCamelCase (rawName (buttonLocator (i + 1) (selectTag doc ''button'' ! i))))
       [0..<length (selectTag doc ''button'')] @ r"
proof -
  obtain r where "elements (genLoops doc) = elements (foldl buttonStep initState (selectTag doc ''button'')) @ r"
    using genLoops_buttons_first by blast
  then have "map fst (elements (genLoops doc)) =
     map (\<lambda>i. toCamelCase (rawName (buttonLocator (i + 1) (selectTag doc ''button'' ! i))))
       [0..<length (selectTag doc ''button'')] @ map fst r"
    by (simp add: button_fold initState_def comp_def)
  then show ?thesis by blast
qed

lemma bare_rawName: "bareButton b \<Longrightarrow> rawName (buttonLocator k b) = ''button '' @ showNat k"
  by (simp add: bareButton_def buttonLocator_def Let_def)

lemma distinct_button_names: "distinct (map (\<lambda>i. ''button'' @ showNat (i + 1)) [0..<n])"
proof -
  have "inj_on (\<lambda>i. ''button'' @ showNat (i + 1)) (set [0..<n])"
    by (rule inj_onI) (auto dest: showNat_inj)
  then show ?thesis by (simp add: distinct_map)
qed

text \<open>
  C1, as stated, says that the identifiers of one run are pairwise distinct, a number being
  appended to a name that was produced before. src/index.js keeps no record of the names it
  produced: two buttons with the text OK both get the identifier \<open>buttonOK\<close>.
\<close>

theorem c1_counterexample:
  "map fst (elements (genLoops twoOkButtons)) = [''buttonOK'', ''buttonOK'']
   \<and> \<not> distinct (map fst (elements (genLoops twoOkButtons)))"
proof -
  have sel: "selectTag twoOkButtons ''button'' = twoOkButtons"
    "selectTag twoOkButtons ''input'' = []" "selectTag twoOkButtons ''a'' = []"
    "selectTag twoOkButtons ''select'' = []" "selectTag twoOkButtons ''textarea'' = []"
    by (simp_all add: selectTag_def allNodes_def twoOkButtons_def)
  have loc: "rawName (buttonLocator k (Element ''button'' [] [TextNode ''OK''])) = ''button OK''" for k
    by (simp add: buttonLocator_def Let_def trim_def isSpace_def)
  have cc: "toCamelCase ''button OK'' = ''buttonOK''"
    by (simp add: toCamelCase_def lowerFirst_def isSep_def isSpace_def toUpperChar_def
        toLowerChar_def latinLowers_def latinUppers_def isLineTerminator_def lowers_def uppers_def)
  have "map fst (elements (genLoops twoOkButtons)) = [''buttonOK'', ''buttonOK'']"
    unfolding genLoops_def sel
    by (simp add: twoOkButtons_def buttonStep_def Let_def initState_def loc cc)
  then show ?thesis by simp
qed

lemma fold_entries:
  assumes e: "\<And>st el. elements (f st el) = elements st @ [g (elementCounter st) el]"
    and c: "\<And>st el. elementCounter (f st el) = elementCounter st + 1"
  shows "elements (foldl f st xs) = elements st @ map (\<lambda>p. g (fst p) (snd p)) (enumerate (elementCounter st) xs)
    \<and> elementCounter (foldl f st xs) = elementCounter st + length xs"
proof (induction xs arbitrary: st)
  case Nil
  show ?case by simp
next
  case (Cons x xs)
  from Cons [of "f st x"] show ?case by (simp add: e c)
qed

lemma enumerate_tagged:
  "enumerate n (map (Pair t) xs) = map (\<lambda>p. (fst p, t, snd p)) (enumerate n xs)"
  by (induction xs arbitrary: n) simp_all

lemma buttonStep_entry:
  "elements (buttonStep st el) = elements st @
     [(toCamelCase (rawName (locatorOf (elementCounter st, ''button'', el))),
       locator (locatorOf (elementCounter st, ''button'', el)))]"
  by (simp add: buttonStep_def Let_def locatorOf_def)

lemma inputStep_entry:
  "elements (inputStep st el) = elements st @
     [(toCamelCase (rawName (locatorOf (elementCounter st, ''input'', el))),
       locator (locatorOf (elementCounter st, ''input'', el)))]"
  by (simp add: inputStep_def Let_def locatorOf_def)

lemma linkStep_entry:
  "elements (linkStep st el) = elements st @
     [(toCamelCase (rawName (locatorOf (elementCounter st, ''a'', el))),
       locator (locatorOf (elementCounter st, ''a'', el)))]"
  by (simp add: linkStep_def Let_def locatorOf_def)

lemma selectStep_entry:
  "elements (selectStep st el) = elements st @
     [(toCamelCase (rawName (locatorOf (elementCounter st, ''select'', el))),
       locator (locatorOf (elementCounter st, ''select'', el)))]"
  by (simp add: selectStep_def Let_def locatorOf_def)

lemma textareaStep_entry:
  "elements (textareaStep st el) = elements st @
     [(toCamelCase (rawName (locatorOf (elementCounter st, ''textarea'', el))),
       locator (locatorOf (elementCounter st, ''textarea'', el)))]"
  by (simp add: textareaStep_def Let_def locatorOf_def)

lemma step_counters:
  "elementCounter (buttonStep st el) = elementCounter st + 1"
  "elementCounter (inputStep st el) = elementCounter st + 1"
  "elementCounter (linkStep st el) = elementCounter st + 1"
  "elementCounter (selectStep st el) = elementCounter st + 1"
  "elementCounter (textareaStep st el) = elementCounter st + 1"
  by (simp_all add: buttonStep_def inputStep_def linkStep_def selectStep_def textareaStep_def Let_def)

lemma tagged_entries:
  "map (\<lambda>p. (toCamelCase (rawName (locatorOf (fst p, t, snd p))), locator (locatorOf (fst p, t, snd p))))
     (enumerate n xs)
   = map (\<lambda>e. (toCamelCase (rawName (locatorOf e)), locator (locatorOf e)))
       (enumerate n (map (Pair t) xs))"
  by (simp add: enumerate_tagged comp_def)

lemma genLoops_elements: "elements (genLoops doc) = elementsByLabel doc"
proof -
  let ?g = "\<lambda>t k el. (toCamelCase (rawName (locatorOf (k, t, el))), locator (locatorOf (k, t, el)))"
  let ?h = "\<lambda>e. (toCamelCase (rawName (locatorOf e)), locator (locatorOf e))"
  let ?b = "selectTag doc ''button''" and ?i = "selectTag doc ''input''" and ?a = "selectTag doc ''a''"
  let ?s = "selectTag doc ''select''" and ?t = "selectTag doc ''textarea''"
  let ?s1 = "foldl buttonStep initState ?b"
  let ?s2 = "foldl inputStep ?s1 ?i"
  let ?s3 = "foldl linkStep ?s2 ?a"
  let ?s4 = "foldl selectStep ?s3 ?s"
  let ?s5 = "foldl textareaStep ?s4 ?t"
  have f1: "elements ?s1 = map ?h (enumerate 1 (map (Pair ''button'') ?b))"
    "elementCounter ?s1 = 1 + length ?b"
    using fold_entries [of buttonStep "?g ''button''" initState ?b, OF buttonStep_entry step_counters(1)]
    by (simp_all add: initState_def tagged_entries)
  have f2: "elements ?s2 = elements ?s1 @ map ?h (enumerate (1 + length ?b) (map (Pair ''input'') ?i))"
    "elementCounter ?s2 = 1 + length ?b + length ?i"
    using fold_entries [of inputStep "?g ''input''" ?s1 ?i, OF inputStep_entry step_counters(2)]
    by (simp_all add: f1(2) tagged_entries)
  have f3: "elements ?s3 = elements ?s2 @ map ?h (enumerate (1 + length ?b + length ?i) (map (Pair ''a'') ?a))"
    "elementCounter ?s3 = 1 + length ?b + length ?i + length ?a"
    using fold_entries [of linkStep "?g ''a''" ?s2 ?a, OF linkStep_entry step_counters(3)]
    by (simp_all add: f2(2) tagged_entries)
  have f4: "elements ?s4 = elements ?s3
      @ map ?h (enumerate (1 + length ?b + length ?i + length ?a) (map (Pair ''select'') ?s))"
    "elementCounter ?s4 = 1 + length ?b + length ?i + length ?a + length ?s"
    using fold_entries [of selectStep "?g ''select''" ?s3 ?s, OF selectStep_entry step_counters(4)]
    by (simp_all add: f3(2) tagged_entries)
  have f5: "elements ?s5 = elements ?s4
      @ map ?h (enumerate (1 + length ?b + length ?i + length ?a + length ?s) (map (Pair ''textarea'') ?t))"
    using fold_entries [of textareaStep "?g ''textarea''" ?s4 ?t, OF textareaStep_entry step_counters(5)]
    by (simp_all add: f4(2) tagged_entries)
  have "elements ?s5 = map ?h (interactive doc)"
    unfolding f5 f4(1) f3(1) f2(1) f1(1) interactive_def
    by (simp add: enumerate_append_eq add.assoc)
  then show ?thesis by (simp add: genLoops_def elementsByLabel_def)
qed

text \<open>
  C1, amended: for every document (its strings in the range of the case mapping) the
  locator map of src/index.js is the map that the raw labels give: the name of the k-th element (buttons, then inputs, links, selects and
  textareas, one count through all of them) is \<^verbatim>\<open>toCamelCase\<close> of its raw label, and
  nothing is appended to a name that was produced before; so whenever two raw labels are
  equal, two identifiers are equal. When every button of the document reaches the positional
  fallback (no data-testid, id, text or class), the identifiers of the buttons are
  \<open>button1\<close>, \<open>button2\<close>, ... and pairwise distinct.
\<close>

theorem c1_identifiers:
  "docInRange doc \<Longrightarrow>
   elements (genLoops doc) = elementsByLabel doc
   \<and> map fst (elements (genLoops doc)) = map toCamelCase (rawLabels doc)
   \<and> (\<not> distinct (rawLabels doc) \<longrightarrow> \<not> distinct (map fst (elements (genLoops doc))))
   \<and> (list_all bareButton (selectTag doc ''button'') \<longrightarrow>
        take (length (selectTag doc ''button'')) (map fst (elements (genLoops doc)))
          = map (\<lambda>i. ''button'' @ showNat (i + 1)) [0..<length (selectTag doc ''button'')]
        \<and> distinct (take (length (selectTag doc ''button'')) (map fst (elements (genLoops doc)))))"
proof (intro conjI impI)
  show "elements (genLoops doc) = elementsByLabel doc" by (rule genLoops_elements)
next
  show ids: "map fst (elements (genLoops doc)) = map toCamelCase (rawLabels doc)"
    by (simp add: genLoops_elements elementsByLabel_def rawLabels_def comp_def)
  assume "\<not> distinct (rawLabels doc)"
  then have "\<not> distinct (map toCamelCase (rawLabels doc))" by (simp add: distinct_map)
  then show "\<not> distinct (map fst (elements (genLoops doc)))" by (simp add: ids)
next
  assume bare: "list_all bareButton (selectTag doc ''button'')"
  obtain r where r: "map fst (elements (genLoops doc)) =
      map (\<lambda>i. toCamelCase (rawName (buttonLocator (i + 1) (selectTag doc ''button'' ! i))))
        [0..<length (selectTag doc ''button'')] @ r"
    using genLoops_button_ids by blast
  have "map (\<lambda>i. toCamelCase (rawName (buttonLocator (i + 1) (selectTag doc ''button'' ! i))))
        [0..<length (selectTag doc ''button'')]
      = map (\<lambda>i. ''button'' @ showNat (i + 1)) [0..<length (selectTag doc ''button'')]"
  proof (rule map_cong)
    fix i assume "i \<in> set [0..<length (selectTag doc ''button'')]"
    then have "bareButton (selectTag doc ''button'' ! i)"
      using bare by (simp add: list_all_length)
    then show "toCamelCase (rawName (buttonLocator (i + 1) (selectTag doc ''button'' ! i)))
        = ''button'' @ showNat (i + 1)"
      by (simp only: bare_rawName camel_button_number)
  qed simp
  with r have t: "take (length (selectTag doc ''button'')) (map fst (elements (genLoops doc)))
          = map (\<lambda>i. ''button'' @ showNat (i + 1)) [0..<length (selectTag doc ''button'')]"
    by simp
  then show "take (length (selectTag doc ''button'')) (map fst (elements (genLoops doc)))
          = map (\<lambda>i. ''button'' @ showNat (i + 1)) [0..<length (selectTag doc ''button'')]" .
  from t show "distinct (take (length (selectTag doc ''button'')) (map fst (elements (genLoops doc))))"
    by (simp only: distinct_button_names)
qed

lemma showNat_digit: "n < 10 \<Longrightarrow> showNat n = [digits ! n]"
  by (simp add: showNat.simps [of n])

theorem c1_identifiers_witness:
  "docInRange twoOkButtons \<and> docInRange fiveButtons
   \<and> rawLabels twoOkButtons = [''button OK'', ''button OK'']
   \<and> \<not> distinct (rawLabels twoOkButtons)
   \<and> \<not> distinct (map fst (elements (genLoops twoOkButtons)))
   \<and> list_all bareButton (selectTag fiveButtons ''button'')
   \<and> take 5 (map fst (elements (genLoops fiveButtons)))
       = [''button1'', ''button2'', ''button3'', ''button4'', ''button5'']
   \<and> distinct (take 5 (map fst (elements (genLoops fiveButtons))))"
proof -
  have r2: "docInRange twoOkButtons"
    by (simp add: docInRange_def twoOkButtons_def upperInRange_def)
  have r5: "docInRange fiveButtons"
    by (simp add: docInRange_def fiveButtons_def upperInRange_def)
  have sel2: "selectTag twoOkButtons ''button'' = twoOkButtons"
    "selectTag twoOkButtons ''input'' = []" "selectTag twoOkButtons ''a'' = []"
    "selectTag twoOkButtons ''select'' = []" "selectTag twoOkButtons ''textarea'' = []"
    by (simp_all add: selectTag_def allNodes_def twoOkButtons_def)
  have loc: "rawName (buttonLocator k (Element ''button'' [] [TextNode ''OK''])) = ''button OK''" for k
    by (simp add: buttonLocator_def Let_def trim_def isSpace_def)
  have raw: "rawLabels twoOkButtons = [''button OK'', ''button OK'']"
    unfolding rawLabels_def interactive_def
    by (simp add: sel2) (simp add: twoOkButtons_def locatorOf_def loc)
  then have nd: "\<not> distinct (rawLabels twoOkButtons)" by simp
  have "\<not> distinct (rawLabels twoOkButtons) \<longrightarrow> \<not> distinct (map fst (elements (genLoops twoOkButtons)))"
    using c1_identifiers [OF r2] by (elim conjE)
  with nd have two: "\<not> distinct (map fst (elements (genLoops twoOkButtons)))" by (rule rev_mp)
  have sel: "selectTag fiveButtons ''button'' =
      [Element ''button'' [] [], Element ''button'' [] [], Element ''button'' [] [],
       Element ''button'' [] [], Element ''button'' [] []]"
    by (simp add: selectTag_def allNodes_def fiveButtons_def)
  have h: "list_all bareButton (selectTag fiveButtons ''button'')"
    unfolding sel by (simp add: bareButton_def trim_def)
  have up: "[0..<5] = [0, 1, 2, 3, 4::nat]" by (simp add: upt_rec)
  have names: "map (\<lambda>i. ''button'' @ showNat (i + 1)) [0..<5]
      = [''button1'', ''button2'', ''button3'', ''button4'', ''button5'']"
    unfolding up by (simp add: showNat_digit digits_def)
  have len: "length (selectTag fiveButtons ''button'') = 5" unfolding sel by simp
  have "list_all bareButton (selectTag fiveButtons ''button'') \<longrightarrow>
        take (length (selectTag fiveButtons ''button'')) (map fst (elements (genLoops fiveButtons)))
          = map (\<lambda>i. ''button'' @ showNat (i + 1)) [0..<length (selectTag fiveButtons ''button'')]
        \<and> distinct (take (length (selectTag fiveButtons ''button'')) (map fst (elements (genLoops fiveButtons))))"
    using c1_identifiers [OF r5] by (elim conjE)
  with h have "take 5 (map fst (elements (genLoops fiveButtons)))
          = map (\<lambda>i. ''button'' @ showNat (i + 1)) [0..<5]
        \<and> distinct (take 5 (map fst (elements (genLoops fiveButtons))))"
    unfolding len by blast
  with h raw nd two r2 r5 show ?thesis unfolding names by blast
qed

section \<open>The shared counter (C6)\<close>

text \<open>
  C6: in src/index.js the index of the positional fallback is \<^verbatim>\<open>elementCounter - 1\<close>, and
  the counter runs over all categories. For a document with one button and one input,
  both without attributes, the input is the first input of the document and its locator is
  \<^verbatim>\<open>cy.get('input[type="text"]').eq(1)\<close>. The resolver of version 1.0.21 is given the
  index of the element within its category and yields \<^verbatim>\<open>.eq(0)\<close> for the same input.
\<close>

theorem c6_shared_counter:
  \<open>elements (genLoops buttonAndInput)
     = [(''button1'', ''cy.get('button').eq(0)''), (''inputText2'', ''cy.get('input[type="text"]').eq(1)'')]
   \<and> locator (getLocatorAndRawName (Element ''input'' [] []) ''input'' (Some ''text'') (Some 0))
     = ''cy.get('input[type="text"]').eq(0)''\<close>
proof -
  have sel: "selectTag buttonAndInput ''button'' = [Element ''button'' [] []]"
    "selectTag buttonAndInput ''input'' = [Element ''input'' [] []]" "selectTag buttonAndInput ''a'' = []"
    "selectTag buttonAndInput ''select'' = []" "selectTag buttonAndInput ''textarea'' = []"
    by (simp_all add: selectTag_def allNodes_def buttonAndInput_def)
  have b: \<open>buttonLocator (Suc 0) (Element ''button'' [] [])
      = \<lparr>locator = ''cy.get('button').eq(0)'', rawName = ''button 1''\<rparr>\<close>
    by (simp add: buttonLocator_def Let_def trim_def showNat_digit digits_def)
  have i: \<open>inputLocator (Suc (Suc 0)) (Element ''input'' [] [])
      = \<lparr>locator = ''cy.get('input[type="text"]').eq(1)'', rawName = ''input text 2''\<rparr>\<close>
    by (simp add: inputLocator_def inputType_def orElse_def Let_def showNat_digit digits_def)
  have cb: "toCamelCase ''button 1'' = ''button1''"
    by (simp add: toCamelCase_def lowerFirst_def isSep_def isSpace_def toUpperChar_def
        toLowerChar_def latinLowers_def latinUppers_def isLineTerminator_def lowers_def uppers_def)
  have ci: "toCamelCase ''input text 2'' = ''inputText2''"
    by (simp add: toCamelCase_def lowerFirst_def isSep_def isSpace_def toUpperChar_def
        toLowerChar_def latinLowers_def latinUppers_def isLineTerminator_def lowers_def uppers_def)
  have e: \<open>elements (genLoops buttonAndInput)
     = [(''button1'', ''cy.get('button').eq(0)''), (''inputText2'', ''cy.get('input[type="text"]').eq(1)'')]\<close>
    unfolding genLoops_def sel
    by (simp add: buttonStep_def inputStep_def Let_def initState_def b i cb ci)
  have g: \<open>locator (getLocatorAndRawName (Element ''input'' [] []) ''input'' (Some ''text'') (Some 0))
     = ''cy.get('input[type="text"]').eq(0)''\<close>
    by (simp add: getLocatorAndRawName_def Let_def trim_def orElse_def showNat_digit digits_def)
  from e g show ?thesis by simp
qed

section \<open>Consistency of the arrays of src/index.js\<close>

lemma fold_invariant:
  assumes "I st" and "\<And>s el. I s \<Longrightarrow> I (f s el)"
  shows "I (foldl f st xs)"
  using assms(1) by (induction xs arbitrary: st) (simp_all add: assms(2))

lemma consistent_init: "consistent initState"
  by (simp add: consistent_def initState_def)

lemma consistent_buttonStep: "consistent s \<Longrightarrow> consistent (buttonStep s el)"
  by (auto simp: consistent_def buttonStep_def Let_def)

lemma consistent_inputStep: "consistent s \<Longrightarrow> consistent (inputStep s el)"
  by (auto simp: consistent_def inputStep_def Let_def)

lemma consistent_linkStep: "consistent s \<Longrightarrow> consistent (linkStep s el)"
  by (auto simp: consistent_def linkStep_def Let_def)

lemma consistent_selectStep: "consistent s \<Longrightarrow> consistent (selectStep s el)"
  by (auto simp: consistent_def selectStep_def Let_def)

lemma consistent_textareaStep: "consistent s \<Longrightarrow> consistent (textareaStep s el)"
  by (auto simp: consistent_def textareaStep_def Let_def)

lemma consistent_genLoops: "consistent (genLoops doc)"
proof -
  let ?s1 = "foldl buttonStep initState (selectTag doc ''button'')"
  let ?s2 = "foldl inputStep ?s1 (selectTag doc ''input'')"
  let ?s3 = "foldl linkStep ?s2 (selectTag doc ''a'')"
  let ?s4 = "foldl selectStep ?s3 (selectTag doc ''select'')"
  have s1: "consistent ?s1"
    by (rule fold_invariant [of consistent, OF consistent_init consistent_buttonStep])
  have s2: "consistent ?s2"
    by (rule fold_invariant [of consistent, OF s1 consistent_inputStep])
  have s3: "consistent ?s3"
    by (rule fold_invariant [of consistent, OF s2 consistent_linkStep])
  have s4: "consistent ?s4"
    by (rule fold_invariant [of consistent, OF s3 consistent_selectStep])
  have "consistent (foldl textareaStep ?s4 (selectTag doc ''textarea''))"
    by (rule fold_invariant [of consistent, OF s4 consistent_textareaStep])
  then show ?thesis by (simp only: genLoops_def)
qed

section \<open>Nodes below nodes\<close>

lemma subtree_self: "n \<in> set (subtree n)"
  by (cases n) simp_all





section \<open>Text inside text\<close>

lemma includesStr_iff: "includesStr s sub \<longleftrightarrow> (\<exists>a b. s = a @ sub @ b)"
proof (induction s)
  case Nil
  show ?case by auto
next
  case (Cons c cs)
  show ?case
  proof
    assume "includesStr (c # cs) sub"
    then consider "prefix sub (c # cs)" | "includesStr cs sub" by auto
    then show "\<exists>a b. c # cs = a @ sub @ b"
    proof cases
      case 1
      then obtain b where "c # cs = sub @ b" by (auto simp: prefix_def)
      then have "c # cs = [] @ sub @ b" by simp
      then show ?thesis by blast
    next
      case 2
      with Cons obtain a b where "cs = a @ sub @ b" by blast
      then have "c # cs = (c # a) @ sub @ b" by simp
      then show ?thesis by blast
    qed
  next
    assume "\<exists>a b. c # cs = a @ sub @ b"
    then obtain a b where ab: "c # cs = a @ sub @ b" by blast
    show "includesStr (c # cs) sub"
    proof (cases a)
      case Nil
      with ab have "prefix sub (c # cs)" by (simp add: prefix_def)
      then show ?thesis by simp
    next
      case (Cons x xs)
      with ab have "cs = xs @ sub @ b" by simp
      with Cons.IH have "includesStr cs sub" by blast
      then show ?thesis by simp
    qed
  qed
qed

lemma includesStr_mid: "includesStr (a @ sub @ b) sub"
  unfolding includesStr_iff by blast

lemma includesStr_trans: "includesStr t sub \<Longrightarrow> includesStr s t \<Longrightarrow> includesStr s sub"
proof -
  assume "includesStr t sub" and "includesStr s t"
  then obtain a b c d where "t = a @ sub @ b" and "s = c @ t @ d"
    unfolding includesStr_iff by blast
  then have "s = (c @ a) @ sub @ (b @ d)" by simp
  then show ?thesis unfolding includesStr_iff by blast
qed

lemma join_member: "x \<in> set xs \<Longrightarrow> includesStr (join sep xs) x"
proof (induction sep xs rule: join.induct)
  case (1 sep)
  then show ?case by simp
next
  case (2 sep y)
  then have "join sep [y] = [] @ x @ []" by simp
  then show ?case unfolding includesStr_iff by blast
next
  case (3 sep y z zs)
  show ?case
  proof (cases "x = y")
    case True
    then have "join sep (y # z # zs) = [] @ x @ (sep @ join sep (z # zs))" by simp
    then show ?thesis unfolding includesStr_iff by blast
  next
    case False
    with 3 have "includesStr (join sep (z # zs)) x" by simp
    then obtain a b where "join sep (z # zs) = a @ x @ b" unfolding includesStr_iff by blast
    then have "join sep (y # z # zs) = (y @ sep @ a) @ x @ b" by simp
    then show ?thesis unfolding includesStr_iff by blast
  qed
qed

lemma wordParen_iff: "wordParen w s \<longleftrightarrow> (\<exists>a t. s = a @ t \<and> wordParenAt w t)"
proof (induction s)
  case Nil
  show ?case by simp
next
  case (Cons c cs)
  show ?case
  proof
    assume "wordParen w (c # cs)"
    then consider "wordParenAt w (c # cs)" | "wordParen w cs" by auto
    then show "\<exists>a t. c # cs = a @ t \<and> wordParenAt w t"
    proof cases
      case 1
      then have "c # cs = [] @ (c # cs) \<and> wordParenAt w (c # cs)" by simp
      then show ?thesis by blast
    next
      case 2
      with Cons obtain a t where "cs = a @ t" "wordParenAt w t" by blast
      then have "c # cs = (c # a) @ t \<and> wordParenAt w t" by simp
      then show ?thesis by blast
    qed
  next
    assume "\<exists>a t. c # cs = a @ t \<and> wordParenAt w t"
    then obtain a t where at: "c # cs = a @ t" "wordParenAt w t" by blast
    show "wordParen w (c # cs)"
    proof (cases a)
      case Nil
      with at have "wordParenAt w (c # cs)" by simp
      then show ?thesis by simp
    next
      case (Cons x xs)
      with at have "cs = xs @ t" by simp
      with at(2) Cons.IH have "wordParen w cs" by blast
      then show ?thesis by simp
    qed
  qed
qed

lemma wordParenAt_call: "wordParenAt w (w @ CHR ''('' # b)"
  by (simp add: wordParenAt_def isSpace_def)

lemma wordParen_includes: "includesStr s (w @ ''('') \<Longrightarrow> wordParen w s"
proof -
  assume "includesStr s (w @ ''('')"
  then obtain a b where "s = a @ (w @ ''('') @ b" unfolding includesStr_iff by blast
  then have "s = a @ (w @ CHR ''('' # b)" by simp
  then show ?thesis unfolding wordParen_iff using wordParenAt_call by blast
qed

section \<open>The text of the class\<close>

lemma class_has_workflow:
  "m \<in> set wfm \<Longrightarrow> includesStr m sub \<Longrightarrow> includesStr (renderClass_wf P cn st wfm) sub"
proof -
  assume "m \<in> set wfm" and sub: "includesStr m sub"
  then have "includesStr (join nl wfm) m" by (simp add: join_member)
  with sub have "includesStr (join nl wfm) sub" by (rule includesStr_trans)
  moreover have "includesStr (renderClass_wf P cn st wfm) (join nl wfm)"
    unfolding renderClass_wf_def by (rule includesStr_mid)
  ultimately show ?thesis by (rule includesStr_trans)
qed

lemma tests_have_workflow:
  "m \<in> set wts \<Longrightarrow> includesStr m sub \<Longrightarrow> includesStr (renderTestFile cn fn url ets fts wts) sub"
proof -
  assume "m \<in> set wts" and sub: "includesStr m sub"
  then have "includesStr (join nl wts) m" by (simp add: join_member)
  with sub have "includesStr (join nl wts) sub" by (rule includesStr_trans)
  moreover have "includesStr (renderTestFile cn fn url ets fts wts) (join nl wts)"
    unfolding renderTestFile_def by (rule includesStr_mid)
  ultimately show ?thesis by (rule includesStr_trans)
qed

lemma loginMethod_text: "includesStr loginMethod ''login(username, password) {''"
  by (simp add: loginMethod_def nl_def)

lemma loginMethod_call: "includesStr loginMethod ''login(''"
  by (simp add: loginMethod_def nl_def)

lemma common_home: "includesStr (commonMethods host) ''navigateToHome() {''"
  by (simp add: commonMethods_def nl_def)

lemma common_verify:
  "includesStr (commonMethods host)
     (''verifyPageLoaded() {'' @ nl @ ''        cy.url().should('' @ sq @ ''include'' @ sq @ '', '' @ sq @ host @ sq @ '')'')"
  by (simp add: commonMethods_def nl_def sq_def)

lemma feature_name_ok:
  assumes "newURL P url = Some u"
  shows "\<exists>fn. (if truthy c then Inr (str c) else getFeatureName P doc url) = Inr fn"
proof (cases "truthy c")
  case True
  then show ?thesis by simp
next
  case False
  have "\<exists>fn. getFeatureName P doc url = Inr fn"
    unfolding getFeatureName_def Let_def
    by (simp add: assms split: option.split list.split)
  with False show ?thesis by simp
qed

lemma class_generated:
  assumes "newURL P url = Some u"
  shows "\<exists>fn. generatePageObjectClass_wf P doc url c =
      Inr \<lparr>classCode = renderClass_wf P (cap fn @ ''Page'') (genLoops_wf doc) (workflowMethods doc (hostname u)),
           className = cap fn @ ''Page'', featureName = fn, elementMeta = metaAcc (genLoops_wf doc)\<rparr>"
proof -
  obtain fn where "(if truthy c then Inr (str c) else getFeatureName P doc url) = Inr fn"
    using feature_name_ok [OF assms] by blast
  then have "generatePageObjectClass_wf P doc url c =
      Inr \<lparr>classCode = renderClass_wf P (cap fn @ ''Page'') (genLoops_wf doc) (workflowMethods doc (hostname u)),
           className = cap fn @ ''Page'', featureName = fn, elementMeta = metaAcc (genLoops_wf doc)\<rparr>"
    unfolding generatePageObjectClass_wf_def Let_def by (simp add: assms)
  then show ?thesis by blast
qed

lemma common_in_workflow: "commonMethods host \<in> set (workflowMethods doc host)"
  by (simp add: workflowMethods_def)

lemma generatePageObjectClass_result:
  assumes "generatePageObjectClass P doc url c = Inr po"
  shows "classCode po = renderClass P (className po) (genLoops doc)
     \<and> elementMeta po = metaAcc (genLoops doc)"
  using assms unfolding generatePageObjectClass_def Let_def
  by (auto split: sum.splits)

lemma generatePageObjectClass_wf_result:
  assumes "generatePageObjectClass_wf P doc url c = Inr po"
  shows "\<exists>u. newURL P url = Some u
     \<and> classCode po = renderClass_wf P (className po) (genLoops_wf doc) (workflowMethods doc (hostname u))
     \<and> elementMeta po = metaAcc (genLoops_wf doc)"
  using assms unfolding generatePageObjectClass_wf_def Let_def
  by (auto split: sum.splits option.splits)

lemma generateCypressTests_result:
  assumes "generateCypressTests doc po url = Inr src"
  shows "\<exists>fts. formTests doc (elementMeta po) = Inr fts
     \<and> src = renderTestFile (className po) (featureName po) url (elementTests (elementMeta po)) fts
               (workflowTests (classCode po))"
  using assms unfolding generateCypressTests_def
  by (auto split: sum.splits)


section \<open>Login detection (C5)\<close>


























section \<open>A document without interactive elements (C9)\<close>

lemma genLoops_wf_empty:
  assumes "selectTag doc ''button'' = []" and "selectTag doc ''input'' = []"
    and "selectTag doc ''a'' = []" and "selectTag doc ''select'' = []"
    and "selectTag doc ''textarea'' = []"
  shows "genLoops_wf doc = initState"
  by (simp add: genLoops_wf_def assms)

lemma genLoops_empty:
  assumes "selectTag doc ''button'' = []" and "selectTag doc ''input'' = []"
    and "selectTag doc ''a'' = []" and "selectTag doc ''select'' = []"
    and "selectTag doc ''textarea'' = []"
  shows "genLoops doc = initState"
  by (simp add: genLoops_def assms)

lemma index_class_generated:
  assumes "newURL P url = Some u"
  shows "\<exists>fn. generatePageObjectClass P doc url c =
      Inr \<lparr>classCode = renderClass P (cap fn @ ''Page'') (genLoops doc),
           className = cap fn @ ''Page'', featureName = fn, elementMeta = metaAcc (genLoops doc)\<rparr>"
proof -
  obtain fn where "(if truthy c then Inr (str c) else getFeatureName P doc url) = Inr fn"
    using feature_name_ok [OF assms] by blast
  then have "generatePageObjectClass P doc url c =
      Inr \<lparr>classCode = renderClass P (cap fn @ ''Page'') (genLoops doc),
           className = cap fn @ ''Page'', featureName = fn, elementMeta = metaAcc (genLoops doc)\<rparr>"
    unfolding generatePageObjectClass_def Let_def by simp
  then show ?thesis by blast
qed

lemma workflow_without_inputs:
  "selectTag doc ''input'' = [] \<Longrightarrow>
   workflowMethods doc host = (if hasRegistrationForm doc then [registerMethod] else []) @ [commonMethods host]"
  by (simp add: workflowMethods_def hasLoginForm_def hasSearchForm_def)

lemma plainDoc_select:
  "selectTag plainDoc ''button'' = [] \<and> selectTag plainDoc ''input'' = [] \<and> selectTag plainDoc ''a'' = []
     \<and> selectTag plainDoc ''select'' = [] \<and> selectTag plainDoc ''textarea'' = []"
  by (simp add: selectTag_def allNodes_def plainDoc_def)

lemma plainDoc_feature:
  "getFeatureName examplePlatform plainDoc ''https://shop.example/app/UserLogin'' = Inr ''login''"
proof -
  have s: "selectTag plainDoc ''form'' = []" "selectTag plainDoc ''h1'' = []"
    "selectTag plainDoc ''h2'' = []" "selectTag plainDoc ''title'' = []"
    "selectDescendant plainDoc ''form'' ''legend'' = []"
    by (simp_all add: selectTag_def allNodes_def plainDoc_def selectDescendant_def)
  have p: "pathParts \<lparr>hostname = ''shop.example'', pathname = ''/app/UserLogin''\<rparr> = [''app'', ''UserLogin'']"
    by (simp add: pathParts_def)
  have k: "scanParts [''app'', ''UserLogin''] = Some ''login''"
    by (simp add: keywordList_def toLowerCase_def toLowerChar_def latinLowers_def latinUppers_def
        lowers_def uppers_def)
  from p k have kp: "scanParts (pathParts \<lparr>hostname = ''shop.example'', pathname = ''/app/UserLogin''\<rparr>)
      = Some ''login''" by (simp only:)
  show ?thesis
    unfolding getFeatureName_def Let_def s
    by (simp add: firstAttr_def firstText_def orElse_def examplePlatform_def kp)
qed

text \<open>
  C9, as stated, says that the class of a document without interactive elements still holds
  the home-navigation method and the page-load verification. The current generator,
  src/index.js, has no workflow or utility methods: for such a document its class text is
  the template with four empty sections and nothing else.
\<close>

theorem c9_counterexample:
  \<open>selectTag plainDoc ''button'' = [] \<and> selectTag plainDoc ''input'' = [] \<and> selectTag plainDoc ''a'' = []
     \<and> selectTag plainDoc ''select'' = [] \<and> selectTag plainDoc ''textarea'' = []
   \<and> (\<exists>po. generatePageObjectClass examplePlatform plainDoc ''https://shop.example/app/UserLogin'' None = Inr po
        \<and> classCode po =
            ''export class LoginPage {'' @ nl @ ''  // Private elements'' @ nl @ ''  #elements = {'' @ nl
            @ nl @ ''  }'' @ nl @ nl @ ''  // Element meta (currently not used for bulk actions)'' @ nl
            @ ''  #meta = {}'' @ nl @ nl @ ''  // Public getters'' @ nl @ nl @ nl
            @ ''  // Value/State getters'' @ nl @ nl @ nl
            @ ''  // Interaction methods (per-element actions)'' @ nl @ nl @ ''}'' @ nl
        \<and> \<not> includesStr (classCode po) ''navigateToHome''
        \<and> \<not> includesStr (classCode po) ''verifyPageLoaded'')\<close>
proof -
  have g: "genLoops plainDoc = initState"
    using plainDoc_select by (simp add: genLoops_empty)
  have c: "cap ''login'' = ''Login''"
    by (simp add: cap_def toUpperChar_def lowers_def uppers_def)
  have po: \<open>generatePageObjectClass examplePlatform plainDoc ''https://shop.example/app/UserLogin'' None
      = Inr \<lparr>classCode =
            ''export class LoginPage {'' @ nl @ ''  // Private elements'' @ nl @ ''  #elements = {'' @ nl
            @ nl @ ''  }'' @ nl @ nl @ ''  // Element meta (currently not used for bulk actions)'' @ nl
            @ ''  #meta = {}'' @ nl @ nl @ ''  // Public getters'' @ nl @ nl @ nl
            @ ''  // Value/State getters'' @ nl @ nl @ nl
            @ ''  // Interaction methods (per-element actions)'' @ nl @ nl @ ''}'' @ nl,
          className = ''LoginPage'', featureName = ''login'', elementMeta = []\<rparr>\<close>
    unfolding generatePageObjectClass_def Let_def plainDoc_feature g
    by (simp add: c renderClass_def initState_def metaMapOf_def examplePlatform_def)
  have n: \<open>\<not> includesStr
           (''export class LoginPage {'' @ nl @ ''  // Private elements'' @ nl @ ''  #elements = {'' @ nl
            @ nl @ ''  }'' @ nl @ nl @ ''  // Element meta (currently not used for bulk actions)'' @ nl
            @ ''  #meta = {}'' @ nl @ nl @ ''  // Public getters'' @ nl @ nl @ nl
            @ ''  // Value/State getters'' @ nl @ nl @ nl
            @ ''  // Interaction methods (per-element actions)'' @ nl @ nl @ ''}'' @ nl)
           ''navigateToHome''\<close>
    by (simp add: nl_def)
  have v: \<open>\<not> includesStr
           (''export class LoginPage {'' @ nl @ ''  // Private elements'' @ nl @ ''  #elements = {'' @ nl
            @ nl @ ''  }'' @ nl @ nl @ ''  // Element meta (currently not used for bulk actions)'' @ nl
            @ ''  #meta = {}'' @ nl @ nl @ ''  // Public getters'' @ nl @ nl @ nl
            @ ''  // Value/State getters'' @ nl @ nl @ nl
            @ ''  // Interaction methods (per-element actions)'' @ nl @ nl @ ''}'' @ nl)
           ''verifyPageLoaded''\<close>
    by (simp add: nl_def)
  from plainDoc_select po n v show ?thesis by simp
qed

text \<open>
  C9, amended: for a document without button, input, a, select and textarea elements, and a
  URL that parses, both generators return a class with no element entries. The class text of
  the generator with workflow methods (version 1.0.0) is the template with an empty locator
  map and empty sections of getters, accessors and interaction methods, followed by the
  workflow methods: the registration method when a form of the document mentions it, and
  the utility methods, among them \<^verbatim>\<open>navigateToHome()\<close> and \<^verbatim>\<open>verifyPageLoaded()\<close>,
  which checks the URL against the host name of the source URL. The class text of
  src/index.js is the template with the same empty sections and no method at all.
\<close>

theorem c9_no_interactive_elements:
  assumes "selectTag doc ''button'' = [] \<and> selectTag doc ''input'' = [] \<and> selectTag doc ''a'' = []
           \<and> selectTag doc ''select'' = [] \<and> selectTag doc ''textarea'' = []"
    and "newURL P url = Some u"
    and "nameInRange c"
  shows \<open>(\<exists>po. generatePageObjectClass_wf P doc url c = Inr po
      \<and> elementMeta po = []
      \<and> classCode po =
          ''export class '' @ className po @ '' {'' @ nl @ ''  // Private elements'' @ nl
          @ ''  #elements = {'' @ nl @ nl @ ''  }'' @ nl @ nl
          @ ''  // Element meta (currently not used for bulk actions)'' @ nl
          @ ''  #meta = '' @ stringify P [] @ nl @ nl @ ''  // Public getters'' @ nl @ nl @ nl
          @ ''  // Value/State getters'' @ nl @ nl @ nl
          @ ''  // Interaction methods (per-element actions)'' @ nl @ nl @ nl
          @ ''  // Workflow methods'' @ nl
          @ join nl ((if hasRegistrationForm doc then [registerMethod] else []) @ [commonMethods (hostname u)])
          @ nl @ ''}'' @ nl
      \<and> includesStr (classCode po) ''navigateToHome() {''
      \<and> includesStr (classCode po)
           (''verifyPageLoaded() {'' @ nl @ ''        cy.url().should('include', '' @ sq @ hostname u @ sq @ '')''))
   \<and> (\<exists>po. generatePageObjectClass P doc url c = Inr po
      \<and> elementMeta po = []
      \<and> classCode po =
          ''export class '' @ className po @ '' {'' @ nl @ ''  // Private elements'' @ nl
          @ ''  #elements = {'' @ nl @ nl @ ''  }'' @ nl @ nl
          @ ''  // Element meta (currently not used for bulk actions)'' @ nl
          @ ''  #meta = '' @ stringify P [] @ nl @ nl @ ''  // Public getters'' @ nl @ nl @ nl
          @ ''  // Value/State getters'' @ nl @ nl @ nl
          @ ''  // Interaction methods (per-element actions)'' @ nl @ nl @ ''}'' @ nl)\<close>
proof (rule conjI)
  have e: "genLoops_wf doc = initState" using assms(1) by (simp add: genLoops_wf_empty)
  from assms(1) have w: "workflowMethods doc (hostname u)
      = (if hasRegistrationForm doc then [registerMethod] else []) @ [commonMethods (hostname u)]"
    by (simp add: workflow_without_inputs)
  obtain fn where po: "generatePageObjectClass_wf P doc url c =
      Inr \<lparr>classCode = renderClass_wf P (cap fn @ ''Page'') (genLoops_wf doc) (workflowMethods doc (hostname u)),
           className = cap fn @ ''Page'', featureName = fn, elementMeta = metaAcc (genLoops_wf doc)\<rparr>"
    using class_generated [OF assms(2)] by blast
  have h: "includesStr (renderClass_wf P (cap fn @ ''Page'') initState (workflowMethods doc (hostname u)))
      ''navigateToHome() {''"
    using common_in_workflow common_home by (rule class_has_workflow)
  have v: "includesStr (renderClass_wf P (cap fn @ ''Page'') initState (workflowMethods doc (hostname u)))
      (''verifyPageLoaded() {'' @ nl @ ''        cy.url().should('' @ sq @ ''include'' @ sq
             @ '', '' @ sq @ hostname u @ sq @ '')'')"
    using common_in_workflow common_verify by (rule class_has_workflow)
  have t: \<open>renderClass_wf P (cap fn @ ''Page'') initState (workflowMethods doc (hostname u)) =
          ''export class '' @ (cap fn @ ''Page'') @ '' {'' @ nl @ ''  // Private elements'' @ nl
          @ ''  #elements = {'' @ nl @ nl @ ''  }'' @ nl @ nl
          @ ''  // Element meta (currently not used for bulk actions)'' @ nl
          @ ''  #meta = '' @ stringify P [] @ nl @ nl @ ''  // Public getters'' @ nl @ nl @ nl
          @ ''  // Value/State getters'' @ nl @ nl @ nl
          @ ''  // Interaction methods (per-element actions)'' @ nl @ nl @ nl
          @ ''  // Workflow methods'' @ nl
          @ join nl ((if hasRegistrationForm doc then [registerMethod] else []) @ [commonMethods (hostname u)])
          @ nl @ ''}'' @ nl\<close>
    unfolding w by (simp add: renderClass_wf_def classBody_wf_def initState_def metaMapOf_def)
  have v': \<open>includesStr (renderClass_wf P (cap fn @ ''Page'') initState (workflowMethods doc (hostname u)))
      (''verifyPageLoaded() {'' @ nl @ ''        cy.url().should('include', '' @ sq @ hostname u @ sq @ '')'')\<close>
    using v by (simp add: sq_def)
  show \<open>\<exists>po. generatePageObjectClass_wf P doc url c = Inr po
      \<and> elementMeta po = []
      \<and> classCode po =
          ''export class '' @ className po @ '' {'' @ nl @ ''  // Private elements'' @ nl
          @ ''  #elements = {'' @ nl @ nl @ ''  }'' @ nl @ nl
          @ ''  // Element meta (currently not used for bulk actions)'' @ nl
          @ ''  #meta = '' @ stringify P [] @ nl @ nl @ ''  // Public getters'' @ nl @ nl @ nl
          @ ''  // Value/State getters'' @ nl @ nl @ nl
          @ ''  // Interaction methods (per-element actions)'' @ nl @ nl @ nl
          @ ''  // Workflow methods'' @ nl
          @ join nl ((if hasRegistrationForm doc then [registerMethod] else []) @ [commonMethods (hostname u)])
          @ nl @ ''}'' @ nl
      \<and> includesStr (classCode po) ''navigateToHome() {''
      \<and> includesStr (classCode po)
           (''verifyPageLoaded() {'' @ nl @ ''        cy.url().should('include', '' @ sq @ hostname u @ sq @ '')'')\<close>
    unfolding po e using h v' t by (simp add: initState_def)
next
  have e: "genLoops doc = initState" using assms(1) by (simp add: genLoops_empty)
  obtain fn where po: "generatePageObjectClass P doc url c =
      Inr \<lparr>classCode = renderClass P (cap fn @ ''Page'') (genLoops doc),
           className = cap fn @ ''Page'', featureName = fn, elementMeta = metaAcc (genLoops doc)\<rparr>"
    using index_class_generated [OF assms(2)] by blast
  show \<open>\<exists>po. generatePageObjectClass P doc url c = Inr po
      \<and> elementMeta po = []
      \<and> classCode po =
          ''export class '' @ className po @ '' {'' @ nl @ ''  // Private elements'' @ nl
          @ ''  #elements = {'' @ nl @ nl @ ''  }'' @ nl @ nl
          @ ''  // Element meta (currently not used for bulk actions)'' @ nl
          @ ''  #meta = '' @ stringify P [] @ nl @ nl @ ''  // Public getters'' @ nl @ nl @ nl
          @ ''  // Value/State getters'' @ nl @ nl @ nl
          @ ''  // Interaction methods (per-element actions)'' @ nl @ nl @ ''}'' @ nl\<close>
    unfolding po e by (simp add: renderClass_def initState_def metaMapOf_def)
qed


text \<open>The statement of C9 at a document with one paragraph.\<close>

theorem c9_no_interactive_elements_witness:
  \<open>selectTag plainDoc ''button'' = [] \<and> selectTag plainDoc ''input'' = [] \<and> selectTag plainDoc ''a'' = []
     \<and> selectTag plainDoc ''select'' = [] \<and> selectTag plainDoc ''textarea'' = []
   \<and> newURL examplePlatform ''https://shop.example/app/UserLogin''
       = Some \<lparr>hostname = ''shop.example'', pathname = ''/app/UserLogin''\<rparr>
   \<and> nameInRange None
   \<and> (\<exists>po. generatePageObjectClass_wf examplePlatform plainDoc ''https://shop.example/app/UserLogin'' None = Inr po
        \<and> elementMeta po = []
        \<and> includesStr (classCode po) ''navigateToHome() {''
        \<and> includesStr (classCode po)
             (''verifyPageLoaded() {'' @ nl @ ''        cy.url().should('include', 'shop.example')''))
   \<and> (\<exists>po. generatePageObjectClass examplePlatform plainDoc ''https://shop.example/app/UserLogin'' None = Inr po
        \<and> elementMeta po = [])\<close>
proof -
  let ?url = "''https://shop.example/app/UserLogin''"
  let ?u = "\<lparr>hostname = ''shop.example'', pathname = ''/app/UserLogin''\<rparr>"
  have b: "newURL examplePlatform ?url = Some ?u"
    by (simp add: examplePlatform_def)
  have r: "nameInRange None" by (simp add: nameInRange_def)
  note t = c9_no_interactive_elements [OF plainDoc_select b r]
  from t [THEN conjunct1] obtain po where h: \<open>generatePageObjectClass_wf examplePlatform plainDoc ?url None = Inr po
      \<and> elementMeta po = []
      \<and> classCode po =
          ''export class '' @ className po @ '' {'' @ nl @ ''  // Private elements'' @ nl
          @ ''  #elements = {'' @ nl @ nl @ ''  }'' @ nl @ nl
          @ ''  // Element meta (currently not used for bulk actions)'' @ nl
          @ ''  #meta = '' @ stringify examplePlatform [] @ nl @ nl @ ''  // Public getters'' @ nl @ nl @ nl
          @ ''  // Value/State getters'' @ nl @ nl @ nl
          @ ''  // Interaction methods (per-element actions)'' @ nl @ nl @ nl
          @ ''  // Workflow methods'' @ nl
          @ join nl ((if hasRegistrationForm plainDoc then [registerMethod] else [])
               @ [commonMethods (hostname ?u)])
          @ nl @ ''}'' @ nl
      \<and> includesStr (classCode po) ''navigateToHome() {''
      \<and> includesStr (classCode po)
           (''verifyPageLoaded() {'' @ nl @ ''        cy.url().should('include', '' @ sq @ hostname ?u @ sq @ '')'')\<close>
    by (elim exE)
  have v: \<open>includesStr (classCode po)
             (''verifyPageLoaded() {'' @ nl @ ''        cy.url().should('include', 'shop.example')'')\<close>
    using h [THEN conjunct2, THEN conjunct2, THEN conjunct2, THEN conjunct2] by (simp add: sq_def)
  have e1: \<open>\<exists>po. generatePageObjectClass_wf examplePlatform plainDoc ?url None = Inr po
        \<and> elementMeta po = []
        \<and> includesStr (classCode po) ''navigateToHome() {''
        \<and> includesStr (classCode po)
             (''verifyPageLoaded() {'' @ nl @ ''        cy.url().should('include', 'shop.example')'')\<close>
    using h [THEN conjunct1] h [THEN conjunct2, THEN conjunct1]
      h [THEN conjunct2, THEN conjunct2, THEN conjunct2, THEN conjunct1] v
    by (intro exI [of _ po] conjI)
  from t [THEN conjunct2] obtain po where h2: \<open>generatePageObjectClass examplePlatform plainDoc ?url None = Inr po
      \<and> elementMeta po = []
      \<and> classCode po =
          ''export class '' @ className po @ '' {'' @ nl @ ''  // Private elements'' @ nl
          @ ''  #elements = {'' @ nl @ nl @ ''  }'' @ nl @ nl
          @ ''  // Element meta (currently not used for bulk actions)'' @ nl
          @ ''  #meta = '' @ stringify examplePlatform [] @ nl @ nl @ ''  // Public getters'' @ nl @ nl @ nl
          @ ''  // Value/State getters'' @ nl @ nl @ nl
          @ ''  // Interaction methods (per-element actions)'' @ nl @ nl @ ''}'' @ nl\<close>
    by (elim exE)
  have e2: "\<exists>po. generatePageObjectClass examplePlatform plainDoc ?url None = Inr po \<and> elementMeta po = []"
    using h2 [THEN conjunct1] h2 [THEN conjunct2, THEN conjunct1]
    by (intro exI [of _ po] conjI)
  from plainDoc_select b r e1 e2 show ?thesis by (intro conjI) (elim conjE, assumption)+
qed

section \<open>The round trip of a login form (C7)\<close>

lemma loginDoc_select:
  "selectTag loginDoc ''button'' = [Element ''button'' [(''type'', ''submit'')] [TextNode ''Log in'']]"
  "selectTag loginDoc ''input'' =
     [Element ''input'' [(''data-testid'', ''user''), (''type'', ''text'')] [],
      Element ''input'' [(''type'', ''password'')] []]"
  "selectTag loginDoc ''a'' = []"
  "selectTag loginDoc ''select'' = []"
  "selectTag loginDoc ''textarea'' = []"
  "selectTag loginDoc ''form'' =
     [Element ''form'' []
        [Element ''input'' [(''data-testid'', ''user''), (''type'', ''text'')] [],
         Element ''input'' [(''type'', ''password'')] [],
         Element ''button'' [(''type'', ''submit'')] [TextNode ''Log in'']]]"
  by (simp_all add: selectTag_def allNodes_def loginDoc_def)

lemma log_in_name: "toLowerCase (replaceNonAlnum ''Log in'') = ''log_in''"
  by (simp add: toLowerCase_def replaceNonAlnum_def isAlnum_def toLowerChar_def latinLowers_def latinUppers_def lowers_def
      uppers_def digits_def)

lemma user_name: "replaceNonAlnum ''user'' = ''user''"
  by (simp add: replaceNonAlnum_def isAlnum_def lowers_def uppers_def digits_def)

lemma loginDoc_button:
  \<open>buttonEntry_wf k (Element ''button'' [(''type'', ''submit'')] [TextNode ''Log in''])
     = (''button_log_in'', ''cy.contains('button', 'Log in')'')\<close>
  by (simp add: buttonEntry_wf_def Let_def trim_def isSpace_def log_in_name sq_def)

lemma loginDoc_user:
  \<open>inputEntry_wf k (Element ''input'' [(''data-testid'', ''user''), (''type'', ''text'')] [])
     = (''input_user'', ''cy.get('[data-testid="user"]')'')\<close>
  by (simp add: inputEntry_wf_def Let_def user_name)

lemma loginDoc_password:
  \<open>inputEntry_wf (Suc (Suc (Suc 0))) (Element ''input'' [(''type'', ''password'')] [])
     = (''input_password_3'', ''cy.get('input[type="password"]').eq(2)'')\<close>
  by (simp add: inputEntry_wf_def inputType_def orElse_def Let_def showNat_digit digits_def
      numeral_3_eq_3 [symmetric])

lemma loginDoc_types:
  "inputType (Element ''input'' [(''data-testid'', ''user''), (''type'', ''text'')] []) = ''text''"
  "inputType (Element ''input'' [(''type'', ''password'')] []) = ''password''"
  by (simp_all add: inputType_def orElse_def)

lemma loginDoc_loops:
  \<open>elements (genLoops_wf loginDoc) =
     [(''button_log_in'', ''cy.contains('button', 'Log in')''),
      (''input_user'', ''cy.get('[data-testid="user"]')''),
      (''input_password_3'', ''cy.get('input[type="password"]').eq(2)'')]\<close>
  \<open>metaAcc (genLoops_wf loginDoc) =
     [(''button'', ''button_log_in''), (''text'', ''input_user''), (''password'', ''input_password_3'')]\<close>
  unfolding genLoops_wf_def loginDoc_select
  by (simp_all add: buttonStep_wf_def inputStep_wf_def Let_def initState_def loginDoc_button
      loginDoc_user loginDoc_password loginDoc_types)

lemma loginDoc_below:
  "findBelow (Element ''form'' []
        [Element ''input'' [(''data-testid'', ''user''), (''type'', ''text'')] [],
         Element ''input'' [(''type'', ''password'')] [],
         Element ''button'' [(''type'', ''submit'')] [TextNode ''Log in'']])
      (\<lambda>n. tagName n = ''input'' \<or> tagName n = ''select'' \<or> tagName n = ''textarea'')
    = [Element ''input'' [(''data-testid'', ''user''), (''type'', ''text'')] [],
       Element ''input'' [(''type'', ''password'')] []]"
  "findBelow (Element ''form'' []
        [Element ''input'' [(''data-testid'', ''user''), (''type'', ''text'')] [],
         Element ''input'' [(''type'', ''password'')] [],
         Element ''button'' [(''type'', ''submit'')] [TextNode ''Log in'']])
      (\<lambda>n. (tagName n = ''button'' \<or> tagName n = ''input'') \<and> typeIs ''submit'' n)
    = [Element ''button'' [(''type'', ''submit'')] [TextNode ''Log in'']]"
  by (simp_all add: findBelow_def typeIs_def)

lemma loginDoc_bases:
  "normalizeBase (fieldBase (Element ''input'' [(''data-testid'', ''user''), (''type'', ''text'')] [])) = ''input_user''"
  "normalizeBase (fieldBase (Element ''input'' [(''type'', ''password'')] [])) = ''input_password''"
  "normalizeBase (submitBase (Element ''button'' [(''type'', ''submit'')] [TextNode ''Log in''])) = ''button_log_in''"
  by (simp_all add: normalizeBase_def fieldBase_def submitBase_def orElse_def inputType_def trim_def
      isSpace_def toLowerCase_def replaceNonAlnum_def isAlnum_def toLowerChar_def latinLowers_def latinUppers_def lowers_def
      uppers_def digits_def)

lemma loginDoc_fields:
  "formFields [(''button'', ''button_log_in''), (''text'', ''input_user''), (''password'', ''input_password_3'')]
     (Element ''form'' []
        [Element ''input'' [(''data-testid'', ''user''), (''type'', ''text'')] [],
         Element ''input'' [(''type'', ''password'')] [],
         Element ''button'' [(''type'', ''submit'')] [TextNode ''Log in'']])
   = [(''text'', ''input_user''), (''password'', ''input_password_3'')]"
  unfolding formFields_def loginDoc_below
  by (simp add: loginDoc_bases findMatch_def)

lemma loginDoc_submit:
  "submitButton [(''button'', ''button_log_in''), (''text'', ''input_user''), (''password'', ''input_password_3'')]
     (Element ''form'' []
        [Element ''input'' [(''data-testid'', ''user''), (''type'', ''text'')] [],
         Element ''input'' [(''type'', ''password'')] [],
         Element ''button'' [(''type'', ''submit'')] [TextNode ''Log in'']])
   = Some ''button_log_in''"
  unfolding submitButton_def loginDoc_below
  by (simp add: loginDoc_bases findMatch_def)

lemma loginDoc_formTests:
  "formTests loginDoc [(''button'', ''button_log_in''), (''text'', ''input_user''), (''password'', ''input_password_3'')]
   = Inr [SubmitValid [(''text'', ''input_user''), (''password'', ''input_password_3'')] ''button_log_in'',
          ErrorEmpty [(''text'', ''input_user''), (''password'', ''input_password_3'')] ''input_user'' ''button_log_in'',
          ErrorEmpty [(''text'', ''input_user''), (''password'', ''input_password_3'')] ''input_password_3'' ''button_log_in'',
          LongInput ''input_user'' ''button_log_in'', SpecialCharacters ''input_user'' ''button_log_in'',
          LongInput ''input_password_3'' ''button_log_in'', SpecialCharacters ''input_password_3'' ''button_log_in'']"
  unfolding formTests_def loginDoc_select
  by (simp add: formTestsOf_def loginDoc_fields loginDoc_submit Let_def negativeTest_def
      edgeTests_def requireSubmit_def isBoolean_def)

lemma loginDoc_hasLogin: "hasLoginForm loginDoc"
  unfolding hasLoginForm_def loginDoc_select by (simp add: typeIs_def)

lemma login_tests_text:
  "includesStr loginWorkflowTests (''describe('' @ sq @ ''Login Workflow'' @ sq)"
  "includesStr loginWorkflowTests ''should login with valid credentials''"
  "includesStr loginWorkflowTests ''should show error with invalid credentials''"
  by (simp_all add: loginWorkflowTests_def nl_def sq_def)

text \<open>
  C7: for the form with an input with data-testid \<open>user\<close> and type text, an input of type
  password and a submit button labelled \<open>Log in\<close>, and a URL that parses, the run returns a
  class and tests; the locator map has \<open>input_user\<close> (located by its data-testid),
  \<open>input_password_3\<close> and \<open>button_log_in\<close>; \<open>hasLogin\<close> holds; the class text contains the
  method \<^verbatim>\<open>login(username, password)\<close>; the test text contains the group
  \<open>Login Workflow\<close> with a case for valid and a case for invalid credentials.
\<close>

theorem c7_login_round_trip:
  assumes "newURL P url = Some u"
  shows \<open>\<exists>po tests. generateAll P loginDoc url None = Inr (po, tests)
     \<and> elements (genLoops_wf loginDoc) =
         [(''button_log_in'', ''cy.contains('button', 'Log in')''),
          (''input_user'', ''cy.get('[data-testid="user"]')''),
          (''input_password_3'', ''cy.get('input[type="password"]').eq(2)'')]
     \<and> map snd (elementMeta po) = [''button_log_in'', ''input_user'', ''input_password_3'']
     \<and> hasLoginForm loginDoc
     \<and> includesStr (classCode po) ''login(username, password) {''
     \<and> includesStr tests (''describe('' @ sq @ ''Login Workflow'' @ sq)
     \<and> includesStr tests ''should login with valid credentials''
     \<and> includesStr tests ''should show error with invalid credentials''\<close>
proof -
  obtain fn where po: "generatePageObjectClass_wf P loginDoc url None =
      Inr \<lparr>classCode = renderClass_wf P (cap fn @ ''Page'') (genLoops_wf loginDoc)
                          (workflowMethods loginDoc (hostname u)),
           className = cap fn @ ''Page'', featureName = fn, elementMeta = metaAcc (genLoops_wf loginDoc)\<rparr>"
    using class_generated [OF assms] by blast
  define code where
    "code = renderClass_wf P (cap fn @ ''Page'') (genLoops_wf loginDoc) (workflowMethods loginDoc (hostname u))"
  have lm: "loginMethod \<in> set (workflowMethods loginDoc (hostname u))"
    by (simp add: workflowMethods_def loginDoc_hasLogin)
  have c1: "includesStr code ''login(username, password) {''"
    unfolding code_def using lm loginMethod_text by (rule class_has_workflow)
  have "includesStr code (''login'' @ ''('')"
    unfolding code_def using lm loginMethod_call by (simp add: class_has_workflow)
  then have "wordParen ''login'' code" by (rule wordParen_includes)
  then have wt: "loginWorkflowTests \<in> set (workflowTests code)"
    by (simp add: workflowTests_def)
  define tests where
    "tests = renderTestFile (cap fn @ ''Page'') fn url
       (elementTests (metaAcc (genLoops_wf loginDoc)))
       [SubmitValid [(''text'', ''input_user''), (''password'', ''input_password_3'')] ''button_log_in'',
        ErrorEmpty [(''text'', ''input_user''), (''password'', ''input_password_3'')] ''input_user'' ''button_log_in'',
        ErrorEmpty [(''text'', ''input_user''), (''password'', ''input_password_3'')] ''input_password_3'' ''button_log_in'',
        LongInput ''input_user'' ''button_log_in'', SpecialCharacters ''input_user'' ''button_log_in'',
        LongInput ''input_password_3'' ''button_log_in'', SpecialCharacters ''input_password_3'' ''button_log_in'']
       (workflowTests code)"
  have t1: "includesStr tests (''describe('' @ sq @ ''Login Workflow'' @ sq)"
    unfolding tests_def using wt login_tests_text(1) by (rule tests_have_workflow)
  have t2: "includesStr tests ''should login with valid credentials''"
    unfolding tests_def using wt login_tests_text(2) by (rule tests_have_workflow)
  have t3: "includesStr tests ''should show error with invalid credentials''"
    unfolding tests_def using wt login_tests_text(3) by (rule tests_have_workflow)
  have g: "generateAll P loginDoc url None =
      Inr (\<lparr>classCode = code, className = cap fn @ ''Page'', featureName = fn,
            elementMeta = metaAcc (genLoops_wf loginDoc)\<rparr>, tests)"
    unfolding generateAll_def po code_def [symmetric]
    by (simp add: generateCypressTests_def loginDoc_loops(2) loginDoc_formTests tests_def)
  show ?thesis
    unfolding g using c1 t1 t2 t3 loginDoc_hasLogin
    by (simp add: loginDoc_loops)
qed

theorem c7_login_round_trip_witness:
  \<open>newURL examplePlatform ''https://shop.example/app/UserLogin''
       = Some \<lparr>hostname = ''shop.example'', pathname = ''/app/UserLogin''\<rparr>
   \<and> (\<exists>po tests. generateAll examplePlatform loginDoc ''https://shop.example/app/UserLogin'' None = Inr (po, tests)
        \<and> map snd (elementMeta po) = [''button_log_in'', ''input_user'', ''input_password_3'']
        \<and> includesStr (classCode po) ''login(username, password) {''
        \<and> includesStr tests (''describe('' @ sq @ ''Login Workflow'' @ sq))\<close>
proof -
  have b: "newURL examplePlatform ''https://shop.example/app/UserLogin''
       = Some \<lparr>hostname = ''shop.example'', pathname = ''/app/UserLogin''\<rparr>"
    by (simp add: examplePlatform_def)
  have "\<exists>po tests. generateAll examplePlatform loginDoc ''https://shop.example/app/UserLogin'' None = Inr (po, tests)
        \<and> map snd (elementMeta po) = [''button_log_in'', ''input_user'', ''input_password_3'']
        \<and> includesStr (classCode po) ''login(username, password) {''
        \<and> includesStr tests (''describe('' @ sq @ ''Login Workflow'' @ sq)"
  proof -
    from c7_login_round_trip [OF b] obtain po tests where
      h: \<open>generateAll examplePlatform loginDoc ''https://shop.example/app/UserLogin'' None = Inr (po, tests)
     \<and> elements (genLoops_wf loginDoc) =
         [(''button_log_in'', ''cy.contains('button', 'Log in')''),
          (''input_user'', ''cy.get('[data-testid="user"]')''),
          (''input_password_3'', ''cy.get('input[type="password"]').eq(2)'')]
     \<and> map snd (elementMeta po) = [''button_log_in'', ''input_user'', ''input_password_3'']
     \<and> hasLoginForm loginDoc
     \<and> includesStr (classCode po) ''login(username, password) {''
     \<and> includesStr tests (''describe('' @ sq @ ''Login Workflow'' @ sq)
     \<and> includesStr tests ''should login with valid credentials''
     \<and> includesStr tests ''should show error with invalid credentials''\<close>
      by (elim exE)
    from h have "generateAll examplePlatform loginDoc ''https://shop.example/app/UserLogin'' None = Inr (po, tests)
        \<and> map snd (elementMeta po) = [''button_log_in'', ''input_user'', ''input_password_3'']
        \<and> includesStr (classCode po) ''login(username, password) {''
        \<and> includesStr tests (''describe('' @ sq @ ''Login Workflow'' @ sq)"
      by simp
    then show ?thesis by (intro exI)
  qed
  with b show ?thesis by (rule conjI)
qed

section \<open>A form without a submit control (C3)\<close>

lemma mapE_first_error: "xs \<noteq> [] \<Longrightarrow> (\<And>x. f x = Inl e) \<Longrightarrow> mapE f xs = Inl e"
  by (cases xs) simp_all

lemma formTestsOf_raises:
  "formFields meta form \<noteq> [] \<Longrightarrow> submitButton meta form = None \<Longrightarrow>
   formTestsOf meta form = Inl NullProperty"
proof -
  assume f: "formFields meta form \<noteq> []" and s: "submitButton meta form = None"
  have "mapE (negativeTest (formFields meta form) None) (formFields meta form) = Inl NullProperty"
    using f by (rule mapE_first_error) (simp add: negativeTest_def requireSubmit_def)
  then show ?thesis by (simp add: formTestsOf_def Let_def s)
qed

lemma noSubmitDoc_select:
  "selectTag noSubmitDoc ''button'' = []"
  "selectTag noSubmitDoc ''input'' = [Element ''input'' [(''name'', ''email'')] []]"
  "selectTag noSubmitDoc ''a'' = []"
  "selectTag noSubmitDoc ''select'' = []"
  "selectTag noSubmitDoc ''textarea'' = []"
  "selectTag noSubmitDoc ''form'' = [Element ''form'' [] [Element ''input'' [(''name'', ''email'')] []]]"
  by (simp_all add: selectTag_def allNodes_def noSubmitDoc_def)

lemma noSubmitDoc_meta: "metaAcc (genLoops_wf noSubmitDoc) = [(''text'', ''input_email'')]"
  unfolding genLoops_wf_def noSubmitDoc_select
  by (simp add: inputStep_wf_def inputEntry_wf_def inputType_def orElse_def Let_def initState_def)

lemma noSubmitDoc_fields:
  "formFields [(''text'', ''input_email'')] (Element ''form'' [] [Element ''input'' [(''name'', ''email'')] []])
     = [(''text'', ''input_email'')]"
  by (simp add: formFields_def findBelow_def findMatch_def normalizeBase_def fieldBase_def orElse_def
      toLowerCase_def replaceNonAlnum_def isAlnum_def toLowerChar_def latinLowers_def latinUppers_def lowers_def uppers_def
      digits_def)

lemma noSubmitDoc_submit:
  "submitButton [(''text'', ''input_email'')] (Element ''form'' [] [Element ''input'' [(''name'', ''email'')] []])
     = None"
  by (simp add: submitButton_def findBelow_def typeIs_def)

lemma noSubmitDoc_formTests: "formTests noSubmitDoc [(''text'', ''input_email'')] = Inl NullProperty"
  unfolding formTests_def noSubmitDoc_select
  by (simp add: formTestsOf_raises noSubmitDoc_fields noSubmitDoc_submit)

text \<open>
  C3: a form with one input named \<open>email\<close> and no submit control. The class is generated,
  the input is matched as a field of the form, no submit control is found, and the
  templates of the negative tests call \<^verbatim>\<open>cap(submitBtn)\<close> with \<^verbatim>\<open>null\<close>: the test
  generator, and with it the whole run, ends in a TypeError, with a URL that parses.
\<close>

theorem c3_missing_submit:
  "(case generatePageObjectClass_wf examplePlatform noSubmitDoc ''https://shop.example/app/UserLogin'' None of
      Inl e \<Rightarrow> False
    | Inr po \<Rightarrow>
        elementMeta po = [(''text'', ''input_email'')]
        \<and> generateCypressTests noSubmitDoc po ''https://shop.example/app/UserLogin'' = Inl NullProperty)
   \<and> generateAll examplePlatform noSubmitDoc ''https://shop.example/app/UserLogin'' None = Inl NullProperty"
proof -
  have b: "newURL examplePlatform ''https://shop.example/app/UserLogin''
       = Some \<lparr>hostname = ''shop.example'', pathname = ''/app/UserLogin''\<rparr>"
    by (simp add: examplePlatform_def)
  obtain fn where po: "generatePageObjectClass_wf examplePlatform noSubmitDoc ''https://shop.example/app/UserLogin'' None =
      Inr \<lparr>classCode = renderClass_wf examplePlatform (cap fn @ ''Page'') (genLoops_wf noSubmitDoc)
                          (workflowMethods noSubmitDoc (hostname \<lparr>hostname = ''shop.example'', pathname = ''/app/UserLogin''\<rparr>)),
           className = cap fn @ ''Page'', featureName = fn, elementMeta = metaAcc (genLoops_wf noSubmitDoc)\<rparr>"
    using class_generated [OF b] by blast
  show ?thesis
    unfolding generateAll_def po
    by (simp add: generateCypressTests_def noSubmitDoc_meta noSubmitDoc_formTests)
qed

section \<open>Consistency of class and tests (C4)\<close>

lemma consistent_wf_init:
  "consistent initState \<and> set (map snd (metaAcc initState)) \<subseteq> set (map fst (elements initState))"
  by (simp add: consistent_def initState_def)

lemma consistent_buttonStep_wf:
  "consistent s \<and> set (map snd (metaAcc s)) \<subseteq> set (map fst (elements s)) \<Longrightarrow>
   consistent (buttonStep_wf s el)
   \<and> set (map snd (metaAcc (buttonStep_wf s el))) \<subseteq> set (map fst (elements (buttonStep_wf s el)))"
  by (auto simp: consistent_def buttonStep_wf_def Let_def)

lemma consistent_inputStep_wf:
  "consistent s \<and> set (map snd (metaAcc s)) \<subseteq> set (map fst (elements s)) \<Longrightarrow>
   consistent (inputStep_wf s el)
   \<and> set (map snd (metaAcc (inputStep_wf s el))) \<subseteq> set (map fst (elements (inputStep_wf s el)))"
  by (auto simp: consistent_def inputStep_wf_def Let_def)

lemma consistent_linkStep_wf:
  "consistent s \<and> set (map snd (metaAcc s)) \<subseteq> set (map fst (elements s)) \<Longrightarrow>
   consistent (linkStep_wf s el)
   \<and> set (map snd (metaAcc (linkStep_wf s el))) \<subseteq> set (map fst (elements (linkStep_wf s el)))"
  by (auto simp: consistent_def linkStep_wf_def Let_def)

lemma consistent_selectStep_wf:
  "consistent s \<and> set (map snd (metaAcc s)) \<subseteq> set (map fst (elements s)) \<Longrightarrow>
   consistent (selectStep_wf s el)
   \<and> set (map snd (metaAcc (selectStep_wf s el))) \<subseteq> set (map fst (elements (selectStep_wf s el)))"
  by (auto simp: consistent_def selectStep_wf_def Let_def)

lemma consistent_textareaStep_wf:
  "consistent s \<and> set (map snd (metaAcc s)) \<subseteq> set (map fst (elements s)) \<Longrightarrow>
   consistent (textareaStep_wf s el)
   \<and> set (map snd (metaAcc (textareaStep_wf s el))) \<subseteq> set (map fst (elements (textareaStep_wf s el)))"
  by (auto simp: consistent_def textareaStep_wf_def Let_def)

lemma consistent_genLoops_wf:
  "consistent (genLoops_wf doc)
   \<and> set (map snd (metaAcc (genLoops_wf doc))) \<subseteq> set (map fst (elements (genLoops_wf doc)))"
proof -
  let ?I = "\<lambda>s. consistent s \<and> set (map snd (metaAcc s)) \<subseteq> set (map fst (elements s))"
  let ?s1 = "foldl buttonStep_wf initState (selectTag doc ''button'')"
  let ?s2 = "foldl inputStep_wf ?s1 (selectTag doc ''input'')"
  let ?s3 = "foldl linkStep_wf ?s2 (selectTag doc ''a'')"
  let ?s4 = "foldl selectStep_wf ?s3 (selectTag doc ''select'')"
  have s1: "?I ?s1"
    by (rule fold_invariant [of ?I, OF consistent_wf_init consistent_buttonStep_wf])
  have s2: "?I ?s2"
    by (rule fold_invariant [of ?I, OF s1 consistent_inputStep_wf])
  have s3: "?I ?s3"
    by (rule fold_invariant [of ?I, OF s2 consistent_linkStep_wf])
  have s4: "?I ?s4"
    by (rule fold_invariant [of ?I, OF s3 consistent_selectStep_wf])
  have "?I (foldl textareaStep_wf ?s4 (selectTag doc ''textarea''))"
    by (rule fold_invariant [of ?I, OF s4 consistent_textareaStep_wf])
  then show ?thesis by (simp only: genLoops_wf_def)
qed

lemma elementTests_names:
  "t \<in> set (elementTests meta) \<Longrightarrow> set (testIdentifiers t) \<subseteq> set (map snd meta)"
proof -
  assume "t \<in> set (elementTests meta)"
  then obtain m where m: "m \<in> set meta" and t: "t \<in> set (elementTestsOf m)"
    by (auto simp: elementTests_def)
  from t have "set (testIdentifiers t) \<subseteq> {snd m}"
    by (auto simp: elementTestsOf_def Let_def split: if_splits)
  with m show ?thesis by auto
qed

lemma findMatch_member: "findMatch meta base = Some m \<Longrightarrow> m \<in> set meta"
  unfolding findMatch_def by (rule find_in_set)

lemma formFields_member: "f \<in> set (formFields meta form) \<Longrightarrow> f \<in> set meta"
proof -
  assume "f \<in> set (formFields meta form)"
  then obtain el where "findMatch meta (normalizeBase (fieldBase el)) = Some f"
    by (auto simp: formFields_def split: option.splits)
  then show ?thesis by (rule findMatch_member)
qed

lemma submit_fold:
  assumes "\<And>b. acc = Some b \<Longrightarrow> b \<in> set (map snd meta)"
    and "foldl (\<lambda>submitBtn el. case findMatch meta (normalizeBase (submitBase el)) of
                               None \<Rightarrow> submitBtn
                             | Some m \<Rightarrow> Some (snd m)) acc els = Some b"
  shows "b \<in> set (map snd meta)"
  using assms
proof (induction els arbitrary: acc)
  case Nil
  then show ?case by simp
next
  case (Cons el els)
  show ?case
  proof (rule Cons.IH [OF _ Cons.prems(2) [simplified]])
    fix b'
    assume "(case findMatch meta (normalizeBase (submitBase el)) of None \<Rightarrow> acc | Some m \<Rightarrow> Some (snd m)) = Some b'"
    then show "b' \<in> set (map snd meta)"
      using Cons.prems(1) by (auto split: option.splits dest: findMatch_member)
  qed
qed

lemma submitButton_member: "submitButton meta form = Some b \<Longrightarrow> b \<in> set (map snd meta)"
  unfolding submitButton_def by (rule submit_fold [of None]) simp_all

lemma mapE_results:
  "mapE f xs = Inr ys \<Longrightarrow> y \<in> set ys \<Longrightarrow> \<exists>x \<in> set xs. f x = Inr y"
proof (induction xs arbitrary: ys)
  case Nil
  then show ?case by simp
next
  case (Cons x xs)
  then show ?case by (auto split: sum.splits)
qed

lemma requireSubmit_Inr: "requireSubmit submitBtn = Inr b \<Longrightarrow> submitBtn = Some b"
  by (simp add: requireSubmit_def split: option.splits)

lemma negativeTest_names:
  assumes "negativeTest flds submitBtn f = Inr t" and "f \<in> set meta" and "set flds \<subseteq> set meta"
    and "\<And>b. submitBtn = Some b \<Longrightarrow> b \<in> set (map snd meta)"
  shows "set (testIdentifiers t) \<subseteq> set (map snd meta)"
proof -
  from assms(1) obtain b where b: "requireSubmit submitBtn = Inr b"
    and t: "t = ErrorNotChecked (snd f) b \<or> t = ErrorEmpty flds (snd f) b"
    by (auto simp: negativeTest_def split: sum.splits if_splits)
  from b have 1: "b \<in> set (map snd meta)" using assms(4) requireSubmit_Inr by blast
  from assms(2) have 2: "snd f \<in> set (map snd meta)" by simp
  from assms(3) have 3: "set (map snd flds) \<subseteq> set (map snd meta)" by auto
  from t have "set (testIdentifiers t) \<subseteq> {snd f, b} \<union> set (map snd flds)" by auto
  with 1 2 3 show ?thesis by blast
qed

lemma edgeTests_names:
  assumes "edgeTests submitBtn f = Inr ts" and "t \<in> set ts" and "f \<in> set meta"
    and "\<And>b. submitBtn = Some b \<Longrightarrow> b \<in> set (map snd meta)"
  shows "set (testIdentifiers t) \<subseteq> set (map snd meta)"
proof -
  from assms(1,2) obtain b where b: "requireSubmit submitBtn = Inr b"
    and t: "t = LongInput (snd f) b \<or> t = SpecialCharacters (snd f) b"
    by (auto simp: edgeTests_def split: sum.splits if_splits)
  from b have 1: "b \<in> set (map snd meta)" using assms(4) requireSubmit_Inr by blast
  from assms(3) have 2: "snd f \<in> set (map snd meta)" by simp
  from t have "set (testIdentifiers t) \<subseteq> {snd f, b}" by auto
  with 1 2 show ?thesis by blast
qed

lemma formTestsOf_names:
  assumes "formTestsOf meta form = Inr ts" and "t \<in> set ts"
  shows "set (testIdentifiers t) \<subseteq> set (map snd meta)"
proof -
  define flds where "flds = formFields meta form"
  define submitBtn where "submitBtn = submitButton meta form"
  have fm: "set flds \<subseteq> set meta" unfolding flds_def by (auto dest: formFields_member)
  have sb: "\<And>b. submitBtn = Some b \<Longrightarrow> b \<in> set (map snd meta)"
    unfolding submitBtn_def by (rule submitButton_member)
  define positive where
    "positive = (if flds \<noteq> [] \<and> truthy submitBtn then [SubmitValid flds (str submitBtn)] else [])"
  have u: "formTestsOf meta form =
      (case mapE (negativeTest flds submitBtn) flds of
         Inl e \<Rightarrow> Inl e
       | Inr negative \<Rightarrow>
           (case mapE (edgeTests submitBtn) flds of
              Inl e \<Rightarrow> Inl e
            | Inr edge \<Rightarrow> Inr (positive @ negative @ concat edge)))"
    by (simp only: formTestsOf_def Let_def flds_def submitBtn_def positive_def)
  obtain negative where n: "mapE (negativeTest flds submitBtn) flds = Inr negative"
  proof (cases "mapE (negativeTest flds submitBtn) flds")
    case (Inl e)
    with u assms(1) show ?thesis by simp
  next
    case (Inr x)
    with that show ?thesis by blast
  qed
  obtain edge where e: "mapE (edgeTests submitBtn) flds = Inr edge"
  proof (cases "mapE (edgeTests submitBtn) flds")
    case (Inl e)
    with u n assms(1) show ?thesis by simp
  next
    case (Inr x)
    with that show ?thesis by blast
  qed
  from u n e assms(1) have ts': "ts = positive @ negative @ concat edge" by simp
  then have ts: "ts = (if flds \<noteq> [] \<and> truthy submitBtn then [SubmitValid flds (str submitBtn)] else [])
               @ negative @ concat edge"
    by (simp only: positive_def)
  from assms(2) ts consider
    (pos) "truthy submitBtn" "t = SubmitValid flds (str submitBtn)"
    | (neg) "t \<in> set negative"
    | (edge) es where "es \<in> set edge" "t \<in> set es"
    by (auto split: if_splits)
  then show ?thesis
  proof cases
    case pos
    from pos(1) obtain b where b: "submitBtn = Some b" by (cases submitBtn) simp_all
    with sb have 1: "b \<in> set (map snd meta)" by blast
    from fm have 2: "set (map snd flds) \<subseteq> set (map snd meta)" by auto
    from pos(2) b have "set (testIdentifiers t) \<subseteq> {b} \<union> set (map snd flds)" by auto
    with 1 2 show ?thesis by blast
  next
    case neg
    from mapE_results [OF n neg] obtain f where f: "f \<in> set flds"
      and r: "negativeTest flds submitBtn f = Inr t" by blast
    from f fm have "f \<in> set meta" by blast
    with r show ?thesis using fm sb by (rule negativeTest_names)
  next
    case edge
    from mapE_results [OF e edge(1)] obtain f where f: "f \<in> set flds"
      and r: "edgeTests submitBtn f = Inr es" by blast
    from f fm have "f \<in> set meta" by blast
    with r edge(2) show ?thesis using sb by (rule edgeTests_names)
  qed
qed

lemma formTests_names:
  assumes "formTests doc meta = Inr fts" and "t \<in> set fts"
  shows "set (testIdentifiers t) \<subseteq> set (map snd meta)"
proof -
  from assms(1) obtain tss where m: "mapE (formTestsOf meta) (selectTag doc ''form'') = Inr tss"
    and f: "fts = concat tss"
    by (auto simp: formTests_def split: sum.splits)
  from assms(2) f obtain ts where ts: "ts \<in> set tss" "t \<in> set ts" by auto
  from mapE_results [OF m ts(1)] obtain form where "formTestsOf meta form = Inr ts" by blast
  then show ?thesis using ts(2) by (rule formTestsOf_names)
qed

lemma includesStr_head: "includesStr (n @ r) n"
  using includesStr_mid [of "[]" n r] by simp

lemma includesStr_app2: "includesStr b sub \<Longrightarrow> includesStr (a @ b) sub"
proof -
  assume "includesStr b sub"
  then obtain x y where "b = x @ sub @ y" unfolding includesStr_iff by blast
  then have "a @ b = (a @ x) @ sub @ y" by simp
  then show ?thesis unfolding includesStr_iff by blast
qed

lemma includesStr_app1: "includesStr a sub \<Longrightarrow> includesStr (a @ b) sub"
proof -
  assume "includesStr a sub"
  then obtain x y where "a = x @ sub @ y" unfolding includesStr_iff by blast
  then have "a @ b = x @ sub @ (y @ b)" by simp
  then show ?thesis unfolding includesStr_iff by blast
qed

lemma fillField_uses: "includesStr (fillField f) (cap (snd f))"
  unfolding fillField_def
  by (cases "isBoolean (fst f)") (simp_all only: if_True if_False includesStr_mid)

lemma fillAll_uses: "f \<in> set flds \<Longrightarrow> includesStr (fillAll flds) (cap (snd f))"
proof -
  assume "f \<in> set flds"
  then have "includesStr (join (nl @ ''        '') (map fillField flds)) (fillField f)"
    by (simp add: join_member)
  with fillField_uses [of f] show ?thesis
    unfolding fillAll_def by (rule includesStr_trans)
qed

lemma renderTest_title:
  "includesStr (renderTest (ShouldClick n)) n"
  "includesStr (renderTest (ShouldGetText n)) n"
  "includesStr (renderTest (ShouldCheck n)) n"
  "includesStr (renderTest (ShouldUncheck n)) n"
  "includesStr (renderTest (ShouldType n)) n"
  "includesStr (renderTest (ShouldClear n)) n"
  "includesStr (renderTest (ErrorNotChecked n b)) n"
  "includesStr (renderTest (ErrorEmpty flds n b)) n"
  "includesStr (renderTest (LongInput n b)) n"
  "includesStr (renderTest (SpecialCharacters n b)) n"
  by (simp_all only: renderTest.simps) ((rule includesStr_head | rule includesStr_app2)+)

lemma renderTest_submit:
  "includesStr (renderTest (SubmitValid flds b)) (cap b)"
  "includesStr (renderTest (ErrorNotChecked n b)) (cap b)"
  "includesStr (renderTest (ErrorEmpty flds n b)) (cap b)"
  "includesStr (renderTest (LongInput n b)) (cap b)"
  "includesStr (renderTest (SpecialCharacters n b)) (cap b)"
  by (simp_all only: renderTest.simps) ((rule includesStr_head | rule includesStr_app2)+)

lemma renderTest_fields:
  assumes "f \<in> set flds"
  shows "includesStr (renderTest (SubmitValid flds b)) (cap (snd f))"
    and "snd f \<noteq> n \<Longrightarrow> includesStr (renderTest (ErrorEmpty flds n b)) (cap (snd f))"
proof -
  have 1: "includesStr (fillAll flds) (cap (snd f))" using assms by (rule fillAll_uses)
  show "includesStr (renderTest (SubmitValid flds b)) (cap (snd f))"
    by (simp only: renderTest.simps) ((rule includesStr_app1 [OF 1] | rule includesStr_app2)+)
  assume "snd f \<noteq> n"
  with assms have "f \<in> set (filter (\<lambda>ff. snd ff \<noteq> n) flds)" by simp
  then have 2: "includesStr (fillAll (filter (\<lambda>ff. snd ff \<noteq> n) flds)) (cap (snd f))"
    by (rule fillAll_uses)
  show "includesStr (renderTest (ErrorEmpty flds n b)) (cap (snd f))"
    by (simp only: renderTest.simps) ((rule includesStr_app1 [OF 2] | rule includesStr_app2)+)
qed

lemma renderTest_uses:
  "x \<in> set (testIdentifiers t) \<Longrightarrow> includesStr (renderTest t) x \<or> includesStr (renderTest t) (cap x)"
proof (cases t)
  case (SubmitValid flds b)
  assume "x \<in> set (testIdentifiers t)"
  with SubmitValid consider "x = b" | f where "f \<in> set flds" "x = snd f" by auto
  then show ?thesis
  proof cases
    case 1
    then show ?thesis unfolding SubmitValid using renderTest_submit(1) by blast
  next
    case 2
    then show ?thesis unfolding SubmitValid using renderTest_fields(1) by blast
  qed
next
  case (ErrorEmpty flds n b)
  assume "x \<in> set (testIdentifiers t)"
  with ErrorEmpty consider "x = b" | "x = n" | f where "f \<in> set flds" "x = snd f" "x \<noteq> n" by auto
  then show ?thesis
  proof cases
    case 1
    then show ?thesis unfolding ErrorEmpty using renderTest_submit(3) by blast
  next
    case 2
    then show ?thesis unfolding ErrorEmpty using renderTest_title(8) by blast
  next
    case 3
    then show ?thesis unfolding ErrorEmpty using renderTest_fields(2) [of f flds n b] by blast
  qed
qed (auto simp: renderTest_title renderTest_submit simp del: renderTest.simps)


lemma tests_in_file:
  "t \<in> set (ets @ fts) \<Longrightarrow> includesStr (renderTestFile cn fn url ets fts wts) (renderTest t)"
proof -
  assume "t \<in> set (ets @ fts)"
  then consider "t \<in> set ets" | "t \<in> set fts" by auto
  then have "includesStr (testFileBody cn fn url ets fts) (renderTest t)"
  proof cases
    case 1
    then have e: "includesStr (join nl (map renderTest ets)) (renderTest t)"
      by (simp add: join_member)
    show ?thesis
      unfolding testFileBody_def
      by ((rule includesStr_app1 [OF e] | rule includesStr_app2)+)
  next
    case 2
    then have f: "includesStr (join nl (map renderTest fts)) (renderTest t)"
      by (simp add: join_member)
    show ?thesis
      unfolding testFileBody_def
      by ((rule includesStr_app1 [OF f] | rule includesStr_app2)+)
  qed
  then show ?thesis unfolding renderTestFile_def by (rule includesStr_app1)
qed

lemma tests_consistent:
  assumes "formTests doc meta = Inr fts" and "set (map snd meta) \<subseteq> K"
  shows "list_all
     (\<lambda>t. includesStr (renderTestFile cn fn url (elementTests meta) fts wts) (renderTest t)
        \<and> list_all (\<lambda>x. x \<in> K \<and> (includesStr (renderTest t) x \<or> includesStr (renderTest t) (cap x)))
            (testIdentifiers t))
     (elementTests meta @ fts)"
  unfolding list_all_iff
proof (intro ballI conjI)
  fix t assume t: "t \<in> set (elementTests meta @ fts)"
  then show "includesStr (renderTestFile cn fn url (elementTests meta) fts wts) (renderTest t)"
    by (rule tests_in_file)
  fix x assume x: "x \<in> set (testIdentifiers t)"
  from t have "set (testIdentifiers t) \<subseteq> set (map snd meta)"
    using elementTests_names [of t meta] formTests_names [OF assms(1), of t] by auto
  with x assms(2) show "x \<in> K" by blast
  from x show "includesStr (renderTest t) x \<or> includesStr (renderTest t) (cap x)"
    by (rule renderTest_uses)
qed

lemmas render_abs =
  renderElement_def [abs_def] renderGetter_def [abs_def] renderGetter_wf_def [abs_def]
  renderMethod_def [abs_def]

text \<open>
  C4: for every document (its strings and the custom feature name in the range of the
  case mapping), the class text of src/index.js is the template filled with one line
  \<^verbatim>\<open>name: () => locator\<close> for every entry of the locator map, one getter for every name of
  the getters, and one method for every accessor and interaction method, each of which calls
  \<^verbatim>\<open>this.#elements.name()\<close> under the method name made of its verb and the capitalised
  name; the names the interaction methods refer to, and the names the accessors refer to,
  are exactly the keys of the locator map, and the names of the getters are keys. The same
  holds for the class text of the generator with workflow methods, whose metadata names
  are keys too. The test file of that generator is the template filled with the element
  tests and the form tests; each of them is in the text, and every element name it is filled
  with occurs in it, as it is or capitalised after a method verb, and is a key of the locator
  map. The last two equations spell out the nine method templates and the names each kind of
  test case is filled with.
\<close>

theorem c4_consistency:
  assumes "docInRange doc" and "nameInRange c"
  shows \<open>let entry = (\<lambda>e. ''    '' @ fst e @ '': () => '' @ snd e);
       getter = (\<lambda>n. ''    get '' @ n @ ''() { return this.#elements.'' @ n @ ''() }'');
       getterCap = (\<lambda>n. ''    get '' @ cap n @ ''() { return this.#elements.'' @ n @ ''() }'');
       method = (\<lambda>m. ''    '' @ methodName (fst m) @ cap (snd m) @ methodParams (fst m)
                   @ '' { return this.#elements.'' @ snd m @ ''()'' @ methodCall (fst m) @ '' }'')
   in
     (generatePageObjectClass P doc url c = Inr po \<longrightarrow>
        classCode po =
          ''export class '' @ className po @ '' {'' @ nl @ ''  // Private elements'' @ nl
          @ ''  #elements = {'' @ nl @ join ('','' @ nl) (map entry (elements (genLoops doc)))
          @ nl @ ''  }'' @ nl @ nl @ ''  // Element meta (currently not used for bulk actions)''
          @ nl @ ''  #meta = '' @ stringify P (metaMapOf (elementMeta po)) @ nl @ nl
          @ ''  // Public getters'' @ nl @ join nl (map getter (getters (genLoops doc))) @ nl
          @ nl @ ''  // Value/State getters'' @ nl
          @ join nl (map method (valueGetters (genLoops doc))) @ nl @ nl
          @ ''  // Interaction methods (per-element actions)'' @ nl
          @ join nl (map method (interactionMethods (genLoops doc))) @ nl @ ''}'' @ nl
      \<and> set (map snd (interactionMethods (genLoops doc))) = set (map fst (elements (genLoops doc)))
      \<and> set (map snd (valueGetters (genLoops doc))) = set (map fst (elements (genLoops doc)))
      \<and> set (getters (genLoops doc)) \<subseteq> set (map fst (elements (genLoops doc))))
   \<and> (generatePageObjectClass_wf P doc url c = Inr po' \<longrightarrow>
        (\<exists>u. newURL P url = Some u
          \<and> classCode po' =
            ''export class '' @ className po' @ '' {'' @ nl @ ''  // Private elements'' @ nl
            @ ''  #elements = {'' @ nl @ join ('','' @ nl) (map entry (elements (genLoops_wf doc))) @ nl @ ''  }'' @ nl @ nl
            @ ''  // Element meta (currently not used for bulk actions)'' @ nl @ ''  #meta = ''
            @ stringify P (metaMapOf (elementMeta po')) @ nl @ nl @ ''  // Public getters'' @ nl
            @ join nl (map getterCap (getters (genLoops_wf doc))) @ nl @ nl
            @ ''  // Value/State getters'' @ nl
            @ join nl (map method (valueGetters (genLoops_wf doc))) @ nl @ nl
            @ ''  // Interaction methods (per-element actions)'' @ nl
            @ join nl (map method (interactionMethods (genLoops_wf doc))) @ nl @ nl
            @ ''  // Workflow methods'' @ nl @ join nl (workflowMethods doc (hostname u)) @ nl
            @ ''}'' @ nl)
      \<and> set (map snd (interactionMethods (genLoops_wf doc))) = set (map fst (elements (genLoops_wf doc)))
      \<and> set (map snd (valueGetters (genLoops_wf doc))) = set (map fst (elements (genLoops_wf doc)))
      \<and> set (getters (genLoops_wf doc)) \<subseteq> set (map fst (elements (genLoops_wf doc)))
      \<and> set (map snd (elementMeta po')) \<subseteq> set (map fst (elements (genLoops_wf doc)))
      \<and> (generateCypressTests doc po' url = Inr src \<longrightarrow>
           (\<exists>fts. formTests doc (elementMeta po') = Inr fts
            \<and> src =
              ''import { '' @ className po' @ '' } from '' @ sq @ ''../pages/''
              @ featureName po' @ sq @ nl @ nl @ ''describe('' @ sq @ className po' @ '' Tests''
              @ sq @ '', () => {'' @ nl @ ''    let page'' @ nl @ ''    beforeEach(() => {''
              @ nl @ ''        cy.visit('' @ sq @ url @ sq @ '')'' @ nl
              @ ''        page = new '' @ className po' @ ''()'' @ nl @ ''    })'' @ nl
              @ ''    describe('' @ sq @ ''Element Interactions'' @ sq @ '', () => {'' @ nl
              @ join nl (map renderTest (elementTests (elementMeta po'))) @ nl @ ''    })'' @ nl
              @ ''    describe('' @ sq @ ''Form Submission'' @ sq @ '', () => {'' @ nl
              @ join nl (map renderTest fts) @ nl @ ''    })'' @ nl
              @ join nl (workflowTests (classCode po')) @ nl
              @ ''    // Add more negative/error/edge case tests as needed'' @ nl @ ''})''
            \<and> list_all
                 (\<lambda>t. includesStr src (renderTest t)
                    \<and> list_all (\<lambda>x. x \<in> set (map fst (elements (genLoops_wf doc)))
                          \<and> (includesStr (renderTest t) x \<or> includesStr (renderTest t) (cap x)))
                        (testIdentifiers t))
                 (elementTests (elementMeta po') @ fts))))
   \<and> map (\<lambda>v. method (v, ''ok''))
        [Click, GetText, Check, Uncheck, IsChecked, TypeText, Clear, GetValue, SelectValue]
      = [''    clickOk() { return this.#elements.ok().click() }'',
         ''    getTextOk() { return this.#elements.ok().invoke('text') }'',
         ''    checkOk() { return this.#elements.ok().check() }'',
         ''    uncheckOk() { return this.#elements.ok().uncheck() }'',
         ''    isCheckedOk() { return this.#elements.ok().should('have.prop', 'checked') }'',
         ''    typeOk(text) { return this.#elements.ok().type(text) }'',
         ''    clearOk() { return this.#elements.ok().clear() }'',
         ''    getValueOk() { return this.#elements.ok().invoke('val') }'',
         ''    selectOk(value) { return this.#elements.ok().select(value) }'']
   \<and> map testIdentifiers
        [ShouldClick n, ShouldGetText n, ShouldCheck n, ShouldUncheck n, ShouldType n, ShouldClear n,
         SubmitValid flds b, ErrorNotChecked n b, ErrorEmpty flds n b, LongInput n b,
         SpecialCharacters n b]
      = [[n], [n], [n], [n], [n], [n], map snd flds @ [b], [n, b], map snd flds @ [n, b], [n, b],
         [n, b]]\<close>
proof -
  note gi = consistent_genLoops [of doc, unfolded consistent_def]
  note gw = consistent_genLoops_wf [of doc, unfolded consistent_def]
  show ?thesis
    unfolding Let_def
  proof (intro conjI impI, goal_cases)
    case 1
    with generatePageObjectClass_result [of P doc url c po] show ?case
      by (simp add: renderClass_def render_abs)
  next
    case 2
    from gi show ?case by simp
  next
    case 3
    from gi show ?case by simp
  next
    case 4
    from gi show ?case by simp
  next
    case 5
    with generatePageObjectClass_wf_result [of P doc url c po'] show ?case
      by (auto simp: renderClass_wf_def classBody_wf_def render_abs)
  next
    case 6
    from gw show ?case by simp
  next
    case 7
    from gw show ?case by simp
  next
    case 8
    from gw show ?case by simp
  next
    case 9
    with generatePageObjectClass_wf_result [of P doc url c po']
    have e: "elementMeta po' = metaAcc (genLoops_wf doc)" by blast
    show ?case unfolding e by (rule gw [THEN conjunct2])
  next
    case 10
    from 10(1) generatePageObjectClass_wf_result [of P doc url c po']
    have e: "elementMeta po' = metaAcc (genLoops_wf doc)" by blast
    have k: "set (map snd (elementMeta po')) \<subseteq> set (map fst (elements (genLoops_wf doc)))"
      unfolding e by (rule gw [THEN conjunct2])
    from 10(2) obtain fts where f: "formTests doc (elementMeta po') = Inr fts"
      and s: "src = renderTestFile (className po') (featureName po') url (elementTests (elementMeta po')) fts
               (workflowTests (classCode po'))"
      using generateCypressTests_result by blast
    note tc = tests_consistent [OF f k, of "className po'" "featureName po'" url
        "workflowTests (classCode po')", folded s]
    have tx: "src = ''import { '' @ className po' @ '' } from '' @ sq @ ''../pages/''
        @ featureName po' @ sq @ nl @ nl @ ''describe('' @ sq @ className po' @ '' Tests''
        @ sq @ '', () => {'' @ nl @ ''    let page'' @ nl @ ''    beforeEach(() => {''
        @ nl @ ''        cy.visit('' @ sq @ url @ sq @ '')'' @ nl
        @ ''        page = new '' @ className po' @ ''()'' @ nl @ ''    })'' @ nl
        @ ''    describe('' @ sq @ ''Element Interactions'' @ sq @ '', () => {'' @ nl
        @ join nl (map renderTest (elementTests (elementMeta po'))) @ nl @ ''    })'' @ nl
        @ ''    describe('' @ sq @ ''Form Submission'' @ sq @ '', () => {'' @ nl
        @ join nl (map renderTest fts) @ nl @ ''    })'' @ nl
        @ join nl (workflowTests (classCode po')) @ nl
        @ ''    // Add more negative/error/edge case tests as needed'' @ nl @ ''})''"
      unfolding s by (simp add: renderTestFile_def testFileBody_def)
    from f tx tc show ?case by (intro exI [of _ fts] conjI)
  next
    case 11
    show ?case
      by (simp add: cap_def toUpperChar_def lowers_def uppers_def)
  next
    case 12
    show ?case by simp
  qed
qed

text \<open>The statement of C4 at the login form of the round trip.\<close>

theorem c4_consistency_witness:
  "docInRange loginDoc \<and> nameInRange (Some ''login'')
   \<and> (\<exists>po. generatePageObjectClass examplePlatform loginDoc ''https://shop.example/app/UserLogin''
               (Some ''login'') = Inr po
        \<and> set (map snd (interactionMethods (genLoops loginDoc))) = set (map fst (elements (genLoops loginDoc)))
        \<and> set (map snd (valueGetters (genLoops loginDoc))) = set (map fst (elements (genLoops loginDoc))))
   \<and> (\<exists>po' src fts.
         generatePageObjectClass_wf examplePlatform loginDoc ''https://shop.example/app/UserLogin''
           (Some ''login'') = Inr po'
       \<and> generateCypressTests loginDoc po' ''https://shop.example/app/UserLogin'' = Inr src
       \<and> set (map snd (interactionMethods (genLoops_wf loginDoc)))
           = set (map fst (elements (genLoops_wf loginDoc)))
       \<and> formTests loginDoc (elementMeta po') = Inr fts
       \<and> list_all
            (\<lambda>t. includesStr src (renderTest t)
               \<and> list_all (\<lambda>x. x \<in> set (map fst (elements (genLoops_wf loginDoc)))
                     \<and> (includesStr (renderTest t) x \<or> includesStr (renderTest t) (cap x)))
                   (testIdentifiers t))
            (elementTests (elementMeta po') @ fts))"
proof -
  let ?url = "''https://shop.example/app/UserLogin''"
  define po where "po = \<lparr>classCode = renderClass examplePlatform (cap ''login'' @ ''Page'') (genLoops loginDoc),
      className = cap ''login'' @ ''Page'', featureName = ''login'', elementMeta = metaAcc (genLoops loginDoc)\<rparr>"
  define po' where "po' = \<lparr>classCode = renderClass_wf examplePlatform (cap ''login'' @ ''Page'') (genLoops_wf loginDoc)
        (workflowMethods loginDoc ''shop.example''),
      className = cap ''login'' @ ''Page'', featureName = ''login'', elementMeta = metaAcc (genLoops_wf loginDoc)\<rparr>"
  define src where "src = renderTestFile (className po') (featureName po') ?url
      (elementTests (elementMeta po'))
      [SubmitValid [(''text'', ''input_user''), (''password'', ''input_password_3'')] ''button_log_in'',
       ErrorEmpty [(''text'', ''input_user''), (''password'', ''input_password_3'')] ''input_user'' ''button_log_in'',
       ErrorEmpty [(''text'', ''input_user''), (''password'', ''input_password_3'')] ''input_password_3'' ''button_log_in'',
       LongInput ''input_user'' ''button_log_in'', SpecialCharacters ''input_user'' ''button_log_in'',
       LongInput ''input_password_3'' ''button_log_in'', SpecialCharacters ''input_password_3'' ''button_log_in'']
      (workflowTests (classCode po'))"
  have d: "docInRange loginDoc" by (simp add: docInRange_def loginDoc_def upperInRange_def)
  have r: "nameInRange (Some ''login'')" by (simp add: nameInRange_def upperInRange_def)
  have a: "generatePageObjectClass examplePlatform loginDoc ?url (Some ''login'') = Inr po"
    by (simp add: generatePageObjectClass_def Let_def po_def)
  have b: "generatePageObjectClass_wf examplePlatform loginDoc ?url (Some ''login'') = Inr po'"
    by (simp add: generatePageObjectClass_wf_def Let_def po'_def examplePlatform_def)
  have m: "elementMeta po' = [(''button'', ''button_log_in''), (''text'', ''input_user''), (''password'', ''input_password_3'')]"
    by (simp add: po'_def loginDoc_loops)
  have c: "generateCypressTests loginDoc po' ?url = Inr src"
    unfolding generateCypressTests_def src_def m [symmetric]
    by (simp add: m loginDoc_formTests)
  note t = c4_consistency [OF d r, where P = examplePlatform and url = ?url and po = po and po' = po'
      and src = src, unfolded Let_def]
  note t1 = mp [OF t [THEN conjunct1] a]
  note t2 = mp [OF t [THEN conjunct2, THEN conjunct1] b]
  note t3 = mp [OF t2 [THEN conjunct2, THEN conjunct2, THEN conjunct2, THEN conjunct2, THEN conjunct2] c]
  from t3 obtain fts where f: "formTests loginDoc (elementMeta po') = Inr fts"
    and l: "list_all
            (\<lambda>t. includesStr src (renderTest t)
               \<and> list_all (\<lambda>x. x \<in> set (map fst (elements (genLoops_wf loginDoc)))
                     \<and> (includesStr (renderTest t) x \<or> includesStr (renderTest t) (cap x)))
                   (testIdentifiers t))
            (elementTests (elementMeta po') @ fts)"
    by (elim exE conjE)
  have A: "\<exists>po. generatePageObjectClass examplePlatform loginDoc ?url (Some ''login'') = Inr po
        \<and> set (map snd (interactionMethods (genLoops loginDoc))) = set (map fst (elements (genLoops loginDoc)))
        \<and> set (map snd (valueGetters (genLoops loginDoc))) = set (map fst (elements (genLoops loginDoc)))"
    using a t1 [THEN conjunct2, THEN conjunct1] t1 [THEN conjunct2, THEN conjunct2, THEN conjunct1]
    by (intro exI [of _ po] conjI)
  have B: "\<exists>po' src fts.
         generatePageObjectClass_wf examplePlatform loginDoc ?url (Some ''login'') = Inr po'
       \<and> generateCypressTests loginDoc po' ?url = Inr src
       \<and> set (map snd (interactionMethods (genLoops_wf loginDoc)))
           = set (map fst (elements (genLoops_wf loginDoc)))
       \<and> formTests loginDoc (elementMeta po') = Inr fts
       \<and> list_all
            (\<lambda>t. includesStr src (renderTest t)
               \<and> list_all (\<lambda>x. x \<in> set (map fst (elements (genLoops_wf loginDoc)))
                     \<and> (includesStr (renderTest t) x \<or> includesStr (renderTest t) (cap x)))
                   (testIdentifiers t))
            (elementTests (elementMeta po') @ fts)"
    using b c t2 [THEN conjunct2, THEN conjunct1] f l
    by (intro exI [of _ po'] exI [of _ src] exI [of _ fts] conjI)
  from d r A B show ?thesis by (intro conjI)
qed

end
